theory Spec2Isabelle
  imports Complex_Main "HOL-Library.Word"
begin

unbundle bit_operations_syntax

section \<open>Machine types\<close>

type_synonym u8 = "8 word"
type_synonym u16 = "16 word"
type_synonym u32 = "32 word"
type_synonym u64 = "64 word"
type_synonym s32 = "32 word"
type_synonym s64 = "64 word"

text \<open>
  Pointers are addresses; \<open>0\<close> is \<open>NULL\<close>.  The C code never does pointer arithmetic
  on a context or on a buffer pointer itself, only indexing.
\<close>

type_synonym addr = nat

subsection \<open>Single-precision floats\<close>

text \<open>
  A C \<open>float\<close> is a finite binary32 value (kept as the rational it denotes), an
  infinity or a NaN.  Arithmetic computes the exact rational result and rounds it to
  binary32 (round to nearest, ties to even, gradual underflow, overflow to infinity) with
  \<open>rnd32\<close>.  The sign of zero is not kept: a zero divisor is taken as \<open>+0\<close>, which is what
  the conversion of the integer \<open>0\<close> gives.
\<close>

datatype cfloat = Fin rat | PInf | NInf | NaN

function bits :: "int \<Rightarrow> int" where
  "bits n = (if n \<le> 0 then 0 else 1 + bits (n div 2))"
  by pat_completeness auto
termination
  by (relation "measure nat") auto

declare bits.simps [simp del]

definition pow2 :: "int \<Rightarrow> rat" where
  "pow2 e = (if 0 \<le> e then 2 ^ nat e else 1 / 2 ^ nat (- e))"

text \<open>\<open>expo a\<close> is the binary exponent of \<open>a > 0\<close>: \<open>2 ^ expo a \<le> a < 2 ^ (expo a + 1)\<close>.
  \<open>rnd_mag\<close> rounds a magnitude to a multiple of the unit in the last place of its binade,
  24 significant bits, with the exponent of the unit bounded below by -149.\<close>

definition expo :: "rat \<Rightarrow> int" where
  "expo a =
     (if 1 \<le> a then bits \<lfloor>a\<rfloor> - 1
      else let k = bits \<lfloor>1 / a\<rfloor> in if pow2 (1 - k) \<le> a then 1 - k else - k)"

definition rnd_mag :: "rat \<Rightarrow> rat" where
  "rnd_mag a =
     (let s = max (expo a - 23) (- 149);
          m = a / pow2 s;
          q = \<lfloor>m\<rfloor>;
          r = m - of_int q;
          q' = (if r < 1 / 2 then q else if 1 / 2 < r then q + 1
                else if even q then q else q + 1)
      in of_int q' * pow2 s)"

definition rnd32 :: "rat \<Rightarrow> cfloat" where
  "rnd32 x =
     (let y = rnd_mag \<bar>x\<bar> in
      if 2 ^ 128 \<le> y then (if 0 < x then PInf else NInf)
      else Fin (if x < 0 then - y else y))"

fun flt_lt :: "cfloat \<Rightarrow> cfloat \<Rightarrow> bool" where
  "flt_lt NaN _ = False"
| "flt_lt _ NaN = False"
| "flt_lt (Fin a) (Fin b) = (a < b)"
| "flt_lt _ NInf = False"
| "flt_lt PInf _ = False"
| "flt_lt (Fin a) PInf = True"
| "flt_lt NInf _ = True"

fun flt_eq :: "cfloat \<Rightarrow> cfloat \<Rightarrow> bool" where
  "flt_eq NaN _ = False"
| "flt_eq _ NaN = False"
| "flt_eq a b = (a = b)"

definition flt_gt :: "cfloat \<Rightarrow> cfloat \<Rightarrow> bool" where
  "flt_gt a b = flt_lt b a"

definition flt_le :: "cfloat \<Rightarrow> cfloat \<Rightarrow> bool" where
  "flt_le a b = (flt_lt a b \<or> flt_eq a b)"

definition flt_ge :: "cfloat \<Rightarrow> cfloat \<Rightarrow> bool" where
  "flt_ge a b = flt_le b a"

fun fneg :: "cfloat \<Rightarrow> cfloat" where
  "fneg (Fin a) = Fin (- a)"
| "fneg PInf = NInf"
| "fneg NInf = PInf"
| "fneg NaN = NaN"

fun fabs :: "cfloat \<Rightarrow> cfloat" where
  "fabs (Fin a) = Fin \<bar>a\<bar>"
| "fabs PInf = PInf"
| "fabs NInf = PInf"
| "fabs NaN = NaN"

fun fadd :: "cfloat \<Rightarrow> cfloat \<Rightarrow> cfloat" where
  "fadd NaN _ = NaN"
| "fadd _ NaN = NaN"
| "fadd (Fin a) (Fin b) = rnd32 (a + b)"
| "fadd PInf NInf = NaN"
| "fadd NInf PInf = NaN"
| "fadd PInf _ = PInf"
| "fadd NInf _ = NInf"
| "fadd (Fin a) b = b"

definition fsub :: "cfloat \<Rightarrow> cfloat \<Rightarrow> cfloat" where
  "fsub a b = fadd a (fneg b)"

fun fsgn_inf :: "rat \<Rightarrow> cfloat \<Rightarrow> cfloat" where
  "fsgn_inf a i = (if a = 0 then NaN else if 0 < a then i else fneg i)"

fun fmul :: "cfloat \<Rightarrow> cfloat \<Rightarrow> cfloat" where
  "fmul NaN _ = NaN"
| "fmul _ NaN = NaN"
| "fmul (Fin a) (Fin b) = rnd32 (a * b)"
| "fmul (Fin a) i = fsgn_inf a i"
| "fmul i (Fin b) = fsgn_inf b i"
| "fmul PInf i = i"
| "fmul NInf i = fneg i"

text \<open>The C operator \<open>/\<close> on floats: a zero divisor gives an infinity or a NaN.\<close>

fun fdivide :: "cfloat \<Rightarrow> cfloat \<Rightarrow> cfloat" where
  "fdivide NaN _ = NaN"
| "fdivide _ NaN = NaN"
| "fdivide (Fin a) (Fin b) = (if b = 0 then fsgn_inf a PInf else rnd32 (a / b))"
| "fdivide (Fin a) _ = Fin 0"
| "fdivide i (Fin b) = (if 0 \<le> b then i else fneg i)"
| "fdivide _ _ = NaN"

text \<open>\<open>(float)i\<close> rounds.  \<open>(int)f\<close> truncates towards zero; C leaves the conversion
  undefined when the value is not finite or the truncated value does not fit the target
  type, and \<open>float_to_int lo hi\<close> is \<open>None\<close> then.\<close>

definition float_of_int :: "int \<Rightarrow> cfloat" where
  "float_of_int i = rnd32 (of_int i)"

definition trunc_rat :: "rat \<Rightarrow> int" where
  "trunc_rat a = (if 0 \<le> a then \<lfloor>a\<rfloor> else \<lceil>a\<rceil>)"

fun float_to_int :: "int \<Rightarrow> int \<Rightarrow> cfloat \<Rightarrow> int option" where
  "float_to_int lo hi (Fin a) =
     (let i = trunc_rat a in if lo \<le> i \<and> i \<le> hi then Some i else None)"
| "float_to_int lo hi _ = None"

text \<open>\<open>_fdiv\<close> and \<open>_idiv\<close> (br.h:288-300): division guarded against a zero divisor.
  C's integer division truncates towards zero.\<close>

definition br_fdiv :: "cfloat \<Rightarrow> cfloat \<Rightarrow> cfloat" where
  "br_fdiv a b = (if flt_eq b (Fin 0) then Fin 0 else fdivide a b)"

definition tdiv :: "int \<Rightarrow> int \<Rightarrow> int" where
  "tdiv a b = sgn a * sgn b * (\<bar>a\<bar> div \<bar>b\<bar>)"

definition br_idiv :: "int \<Rightarrow> int \<Rightarrow> int" where
  "br_idiv a b = (if b = 0 then 0 else tdiv a b)"

record brvec2 =
  v2x :: cfloat
  v2y :: cfloat

record brvec3 =
  v3x :: cfloat
  v3y :: cfloat
  v3z :: cfloat

record brvec4 =
  v4x :: cfloat
  v4y :: cfloat
  v4z :: cfloat
  v4w :: cfloat

record brvec2i =
  ix :: int
  iy :: int

record brvec3ui =
  u3x :: u32
  u3y :: u32
  u3z :: u32

record brvec4ui =
  ux :: u32
  uy :: u32
  uz :: u32
  uw :: u32

subsection \<open>What the C code leaves open\<close>

text \<open>
  Memory behind a texture pointer, read as \<open>uint8_t[]\<close>, \<open>uint16_t[]\<close> or \<open>uint32_t[]\<close>
  (the relation between the three views is the machine's byte order and is not fixed
  here).
\<close>

record texmem =
  tex_u8 :: "nat \<Rightarrow> u8"
  tex_u16 :: "nat \<Rightarrow> u16"
  tex_u32 :: "nat \<Rightarrow> u32"

text \<open>An attribute handed to the fragment shader (br.h:945-961).\<close>

datatype frag_attr =
    PrimitiveColor brvec4
  | TextureColor brvec4
  | FragmentColor brvec4
  | BaryLinear brvec3
  | BaryPerspective brvec3
  | FragmentPosition brvec2i
  | FragmentDepth cfloat

text \<open>
  The surroundings of a draw call, which the C text does not determine:
  \<^item> \<open>ub_conv f\<close>: what the machine yields for the float-to-integer conversion of \<open>f\<close>
    where C leaves it undefined (execution goes on with some integer);
  \<^item> \<open>no_return\<close>: what the caller reads when \<open>_get_depth\<close> or \<open>_convert_depth\<close> reaches
    its closing brace without a \<open>return\<close> (no depth buffer bound);
  \<^item> \<open>uninit_depth\<close>: the field \<open>depth\<close> of \<open>_fragment_t\<close>, which no rasterizer assigns;
  \<^item> \<open>tex_mem\<close>: the memory behind each texture pointer;
  \<^item> \<open>frag_shader\<close>: the code behind each fragment shader pointer, from the attributes
    it is passed to the colour it returns and the \<open>discard\<close> flag it leaves.
  Every theorem below holds for all surroundings.
\<close>

record env =
  ub_conv :: "cfloat \<Rightarrow> int"
  no_return :: int
  uninit_depth :: cfloat
  tex_mem :: "addr \<Rightarrow> texmem"
  frag_shader :: "addr \<Rightarrow> frag_attr list \<Rightarrow> brvec4 \<times> bool"

text \<open>One concrete choice of surroundings, for closed statements.\<close>

definition e0 :: env where
  "e0 = \<lparr>ub_conv = (\<lambda>f. 0), no_return = 0, uninit_depth = Fin 0,
          tex_mem = (\<lambda>p. \<lparr>tex_u8 = (\<lambda>i. 0), tex_u16 = (\<lambda>i. 0), tex_u32 = (\<lambda>i. 0)\<rparr>),
          frag_shader = (\<lambda>p attrs. (\<lparr>v4x = Fin 0, v4y = Fin 0, v4z = Fin 0, v4w = Fin 0\<rparr>, False))\<rparr>"

definition to_s32 :: "env \<Rightarrow> cfloat \<Rightarrow> int" where
  "to_s32 e f =
     (case float_to_int (- (2 ^ 31)) (2 ^ 31 - 1) f of
        Some i \<Rightarrow> i
      | None \<Rightarrow> sint (word_of_int (ub_conv e f) :: 32 word))"

definition to_s64 :: "env \<Rightarrow> cfloat \<Rightarrow> int" where
  "to_s64 e f =
     (case float_to_int (- (2 ^ 63)) (2 ^ 63 - 1) f of
        Some i \<Rightarrow> i
      | None \<Rightarrow> sint (word_of_int (ub_conv e f) :: 64 word))"

definition to_u32 :: "env \<Rightarrow> cfloat \<Rightarrow> u32" where
  "to_u32 e f =
     (case float_to_int 0 (2 ^ 32 - 1) f of
        Some i \<Rightarrow> word_of_int i
      | None \<Rightarrow> word_of_int (ub_conv e f))"

definition to_u8 :: "env \<Rightarrow> cfloat \<Rightarrow> u8" where
  "to_u8 e f =
     (case float_to_int 0 (2 ^ 8 - 1) f of
        Some i \<Rightarrow> word_of_int i
      | None \<Rightarrow> word_of_int (ub_conv e f))"

text \<open>
  C \<open>int\<close> values are modelled as integers: signed overflow, which C leaves undefined,
  is outside the model.  \<open>x >> 8\<close> on an \<open>int\<close> is the arithmetic shift \<open>x div 256\<close>, and
  \<open>x << 8\<close> is \<open>x * 256\<close>.  Where an \<open>int\<close> meets a \<open>uint32_t\<close> in an operation, C
  converts it to \<open>uint32_t\<close>: \<open>u32_of\<close>.
\<close>

definition u32_of :: "int \<Rightarrow> u32" where
  "u32_of i = word_of_int i"

definition s32_of :: "u32 \<Rightarrow> int" where
  "s32_of w = sint w"

section \<open>Constants of br.h\<close>

abbreviation BR_NUM_TEXTURE_UNITS :: u32 where "BR_NUM_TEXTURE_UNITS \<equiv> 256"

abbreviation BR_DOUBLE_BUFFER :: u32 where "BR_DOUBLE_BUFFER \<equiv> 0"
abbreviation BR_DEPTH_WRITE :: u32 where "BR_DEPTH_WRITE \<equiv> 1"
abbreviation BR_DEPTH_TEST :: u32 where "BR_DEPTH_TEST \<equiv> 2"
abbreviation BR_PERSPECTIVE_CORRECTION :: u32 where "BR_PERSPECTIVE_CORRECTION \<equiv> 3"
abbreviation BR_TEXTURE :: u32 where "BR_TEXTURE \<equiv> 4"
abbreviation BR_BLEND :: u32 where "BR_BLEND \<equiv> 5"
abbreviation BR_CULL :: u32 where "BR_CULL \<equiv> 6"
abbreviation BR_CLIP :: u32 where "BR_CLIP \<equiv> 7"
abbreviation BR_PERSPECTIVE_DIVISION :: u32 where "BR_PERSPECTIVE_DIVISION \<equiv> 8"
abbreviation BR_SCALE_Z :: u32 where "BR_SCALE_Z \<equiv> 9"
abbreviation BR_VERTEX_SHADER :: u32 where "BR_VERTEX_SHADER \<equiv> 10"
abbreviation BR_FRAGMENT_SHADER :: u32 where "BR_FRAGMENT_SHADER \<equiv> 11"
abbreviation BR_FILL :: u32 where "BR_FILL \<equiv> 14"
abbreviation BR_LINE :: u32 where "BR_LINE \<equiv> 15"
abbreviation BR_POINT :: u32 where "BR_POINT \<equiv> 16"
abbreviation BR_TRIANGLE :: u32 where "BR_TRIANGLE \<equiv> 17"
abbreviation BR_TRIANGLES :: u32 where "BR_TRIANGLES \<equiv> 18"
abbreviation BR_LINES :: u32 where "BR_LINES \<equiv> 19"
abbreviation BR_POINTS :: u32 where "BR_POINTS \<equiv> 20"
abbreviation BR_VERTEX_ARRAY :: u32 where "BR_VERTEX_ARRAY \<equiv> 21"
abbreviation BR_COLOR_ARRAY :: u32 where "BR_COLOR_ARRAY \<equiv> 22"
abbreviation BR_NORMAL_ARRAY :: u32 where "BR_NORMAL_ARRAY \<equiv> 23"
abbreviation BR_TEXCOORD_ARRAY :: u32 where "BR_TEXCOORD_ARRAY \<equiv> 24"
abbreviation BR_CW :: u32 where "BR_CW \<equiv> 25"
abbreviation BR_CCW :: u32 where "BR_CCW \<equiv> 26"
abbreviation BR_R8G8B8A8 :: u32 where "BR_R8G8B8A8 \<equiv> 27"
abbreviation BR_R8G8B8 :: u32 where "BR_R8G8B8 \<equiv> 28"
abbreviation BR_A8B8G8R8 :: u32 where "BR_A8B8G8R8 \<equiv> 29"
abbreviation BR_B8G8R8 :: u32 where "BR_B8G8R8 \<equiv> 30"
abbreviation BR_R5G5B5A1 :: u32 where "BR_R5G5B5A1 \<equiv> 31"
abbreviation BR_R5G5B5 :: u32 where "BR_R5G5B5 \<equiv> 32"
abbreviation BR_A1B5G5R5 :: u32 where "BR_A1B5G5R5 \<equiv> 33"
abbreviation BR_B5G5R5 :: u32 where "BR_B5G5R5 \<equiv> 34"
abbreviation BR_R3G2B2A1 :: u32 where "BR_R3G2B2A1 \<equiv> 35"
abbreviation BR_R3G3B2 :: u32 where "BR_R3G3B2 \<equiv> 36"
abbreviation BR_A1B2G2R3 :: u32 where "BR_A1B2G2R3 \<equiv> 37"
abbreviation BR_B2G3R3 :: u32 where "BR_B2G3R3 \<equiv> 38"
abbreviation BR_D16 :: u32 where "BR_D16 \<equiv> 39"
abbreviation BR_D32 :: u32 where "BR_D32 \<equiv> 40"
abbreviation BR_VERTEX_TYPE :: u32 where "BR_VERTEX_TYPE \<equiv> 41"
abbreviation BR_VERTEX_POSITION :: u32 where "BR_VERTEX_POSITION \<equiv> 42"
abbreviation BR_VERTEX_COLOR :: u32 where "BR_VERTEX_COLOR \<equiv> 43"
abbreviation BR_VERTEX_NORMALS :: u32 where "BR_VERTEX_NORMALS \<equiv> 44"
abbreviation BR_VERTEX_TEXTURE_COORDINATES :: u32 where "BR_VERTEX_TEXTURE_COORDINATES \<equiv> 45"
abbreviation BR_PRIMITIVE_COLOR :: u32 where "BR_PRIMITIVE_COLOR \<equiv> 46"
abbreviation BR_TEXTURE_COLOR :: u32 where "BR_TEXTURE_COLOR \<equiv> 47"
abbreviation BR_FRAGMENT_COLOR :: u32 where "BR_FRAGMENT_COLOR \<equiv> 48"
abbreviation BR_BARY_LINEAR :: u32 where "BR_BARY_LINEAR \<equiv> 49"
abbreviation BR_BARY_PERSPECTIVE :: u32 where "BR_BARY_PERSPECTIVE \<equiv> 50"
abbreviation BR_FRAGMENT_POSITION :: u32 where "BR_FRAGMENT_POSITION \<equiv> 51"
abbreviation BR_FRAGMENT_DEPTH :: u32 where "BR_FRAGMENT_DEPTH \<equiv> 52"
abbreviation BR_COLOR_BUFFER_BIT :: u32 where "BR_COLOR_BUFFER_BIT \<equiv> 0x80000000"
abbreviation BR_DEPTH_BUFFER_BIT :: u32 where "BR_DEPTH_BUFFER_BIT \<equiv> 0x40000000"

section \<open>The context and the current-context binding\<close>

record brcontext =
  cb :: addr
  cb2 :: addr
  db :: addr
  db2 :: addr
  cb_type :: u32
  cb2_type :: u32
  db_type :: u32
  db2_type :: u32
  rb_width :: u32
  rb_height :: u32
  rb2_width :: u32
  rb2_height :: u32
  clear_color :: brvec4
  clear_depth :: cfloat
  point_radius :: cfloat
  double_buffer :: bool
  depth_write :: bool
  depth_test :: bool
  persp_corr :: bool
  texture :: bool
  blend :: bool
  cull :: bool
  cull_winding :: u32
  clip :: bool
  persp_div :: bool
  scale_z :: bool
  poly_mode :: u32
  vertex_array :: bool
  color_array :: bool
  normal_array :: bool
  tcoord_array :: bool
  vertex_stride :: nat
  color_stride :: nat
  normal_stride :: nat
  tcoord_stride :: nat
  vertex_offset :: addr
  color_offset :: addr
  normal_offset :: addr
  tcoord_offset :: addr
  vertex_count :: u32
  color_count :: u32
  texture_unit :: u32
  textures :: "nat \<Rightarrow> addr"
  texture_widths :: "nat \<Rightarrow> u32"
  texture_heights :: "nat \<Rightarrow> u32"
  texture_formats :: "nat \<Rightarrow> u32"
  texture_compressed_booleans :: "nat \<Rightarrow> bool"
  vshader :: addr
  fshader :: addr
  sh_vposition :: bool
  sh_vcolor :: bool
  sh_vtcoords :: bool
  sh_vnormals :: bool
  sh_vtype :: bool
  sh_prim_color :: bool
  sh_tex_color :: bool
  sh_frag_color :: bool
  sh_bary_linear :: bool
  sh_bary_persp :: bool
  sh_fposition :: bool
  sh_fdepth :: bool

text \<open>
  The process-wide state: the memory holding context objects, and the static pointer
  \<open>_brcontext\<close> (here \<open>cur\<close>).  Whether an address was returned by \<open>malloc\<close> and not yet
  freed is not tracked.
\<close>

record br_state =
  heap :: "addr \<Rightarrow> brcontext"
  cur :: addr

datatype fault = NullContextDeref | LoopNeverEnds

definition the_ctx :: "br_state \<Rightarrow> brcontext" where
  "the_ctx s = heap s (cur s)"

definition upd_ctx :: "(brcontext \<Rightarrow> brcontext) \<Rightarrow> br_state \<Rightarrow> br_state" where
  "upd_ctx f s = s\<lparr>heap := (heap s)(cur s := f (heap s (cur s)))\<rparr>"

text \<open>An operation that starts with \<open>if(!_brcontext) return;\<close>.\<close>

definition guarded :: "(brcontext \<Rightarrow> brcontext) \<Rightarrow> br_state \<Rightarrow> br_state" where
  "guarded f s = (if cur s = 0 then s else upd_ctx f s)"

text \<open>An operation that writes through \<open>_brcontext\<close> without testing it.\<close>

definition unguarded :: "(brcontext \<Rightarrow> brcontext) \<Rightarrow> br_state \<Rightarrow> fault + br_state" where
  "unguarded f s = (if cur s = 0 then Inl NullContextDeref else Inr (upd_ctx f s))"

subsection \<open>brCreateContext, brBindContext, brFreeContext (br.h:2919-3009)\<close>

definition new_context :: brcontext where
  "new_context = \<lparr>
     cb = 0, cb2 = 0, db = 0, db2 = 0,
     cb_type = 0, cb2_type = 0, db_type = 0, db2_type = 0,
     rb_width = 0, rb_height = 0, rb2_width = 0, rb2_height = 0,
     clear_color = \<lparr>v4x = Fin 0, v4y = Fin 0, v4z = Fin 0, v4w = Fin 0\<rparr>,
     clear_depth = Fin 1,
     point_radius = Fin 1,
     double_buffer = False, depth_write = True, depth_test = True, persp_corr = True,
     texture = True, blend = False, cull = False, cull_winding = BR_CW,
     clip = True, persp_div = True, scale_z = True,
     poly_mode = BR_FILL,
     vertex_array = False, color_array = False, normal_array = False, tcoord_array = False,
     vertex_stride = 0, color_stride = 0, normal_stride = 0, tcoord_stride = 0,
     vertex_offset = 0, color_offset = 0, normal_offset = 0, tcoord_offset = 0,
     vertex_count = 0, color_count = 0,
     texture_unit = 0,
     textures = (\<lambda>i. 0), texture_widths = (\<lambda>i. 0), texture_heights = (\<lambda>i. 0),
     texture_formats = (\<lambda>i. 0), texture_compressed_booleans = (\<lambda>i. False),
     vshader = 0, fshader = 0,
     sh_vposition = False, sh_vcolor = False, sh_vtcoords = False, sh_vnormals = False,
     sh_vtype = False,
     sh_prim_color = False, sh_tex_color = False, sh_frag_color = False,
     sh_bary_linear = False, sh_bary_persp = False, sh_fposition = False,
     sh_fdepth = False\<rparr>"

text \<open>\<open>brCreateContext\<close>: \<open>p\<close> is the address \<open>malloc\<close> returned; the code writes the
  defaults through it without testing it.\<close>

definition brCreateContext :: "addr \<Rightarrow> br_state \<Rightarrow> fault + br_state" where
  "brCreateContext p s =
     (if p = 0 then Inl NullContextDeref
      else Inr (s\<lparr>heap := (heap s)(p := new_context)\<rparr>))"

definition brBindContext :: "addr \<Rightarrow> br_state \<Rightarrow> br_state" where
  "brBindContext context s = (if context \<noteq> 0 then s\<lparr>cur := context\<rparr> else s)"

definition brFreeContext :: "addr \<Rightarrow> br_state \<Rightarrow> br_state" where
  "brFreeContext context s =
     (if context = 0 then s
      else if context = cur s then s\<lparr>cur := 0\<rparr>
      else s)"

subsection \<open>Render targets (br.h:3043-3105, 3413-3438)\<close>

definition is_pixel_format :: "u32 \<Rightarrow> bool" where
  "is_pixel_format v =
     (v = BR_R8G8B8A8 \<or> v = BR_R8G8B8 \<or> v = BR_A8B8G8R8 \<or> v = BR_B8G8R8 \<or>
      v = BR_R5G5B5A1 \<or> v = BR_R5G5B5 \<or> v = BR_A1B5G5R5 \<or> v = BR_B5G5R5 \<or>
      v = BR_R3G2B2A1 \<or> v = BR_R3G3B2 \<or> v = BR_A1B2G2R3 \<or> v = BR_B2G3R3)"

definition brBindRenderbuffer :: "u32 \<Rightarrow> u32 \<Rightarrow> u32 \<Rightarrow> addr \<Rightarrow> br_state \<Rightarrow> br_state" where
  "brBindRenderbuffer type width height buffer s =
     (if cur s = 0 \<or> buffer = 0 \<or> width < 1 \<or> height < 1 then s
      else let c = the_ctx s in
        if (cb c \<noteq> 0 \<or> db c \<noteq> 0) \<and> (width \<noteq> rb_width c \<or> height \<noteq> rb_height c) then s
        else if is_pixel_format type then
          upd_ctx (\<lambda>c. c\<lparr>cb := buffer, cb_type := type, rb_width := width, rb_height := height\<rparr>) s
        else if type = BR_D16 \<or> type = BR_D32 then
          upd_ctx (\<lambda>c. c\<lparr>db := buffer, db_type := type, rb_width := width, rb_height := height\<rparr>) s
        else s)"

definition brUnbindRenderbuffer :: "u32 \<Rightarrow> br_state \<Rightarrow> br_state" where
  "brUnbindRenderbuffer buffers =
     guarded (\<lambda>c.
       let c = (if buffers AND BR_COLOR_BUFFER_BIT \<noteq> 0 then c\<lparr>cb := 0, cb_type := 0\<rparr> else c);
           c = (if buffers AND BR_DEPTH_BUFFER_BIT \<noteq> 0 then c\<lparr>db := 0, db_type := 0\<rparr> else c)
       in if cb c = 0 \<and> db c = 0 then c\<lparr>rb_width := 0, rb_height := 0\<rparr> else c)"

definition brSwapBuffers :: "br_state \<Rightarrow> br_state" where
  "brSwapBuffers s =
     (if cur s = 0 \<or> \<not> double_buffer (the_ctx s) then s
      else upd_ctx (\<lambda>c. c\<lparr>
             cb := cb2 c, db := db2 c, cb_type := cb2_type c, db_type := db2_type c,
             rb_width := rb2_width c, rb_height := rb2_height c,
             cb2 := cb c, db2 := db c, cb2_type := cb_type c, db2_type := db_type c,
             rb2_width := rb_width c, rb2_height := rb_height c\<rparr>) s)"

subsection \<open>State setters (br.h:3108-3329, 3395-3410, 3441-3505)\<close>

definition brPolygonMode :: "u32 \<Rightarrow> br_state \<Rightarrow> br_state" where
  "brPolygonMode mode =
     guarded (\<lambda>c.
       if mode = BR_FILL then c\<lparr>poly_mode := BR_FILL\<rparr>
       else if mode = BR_LINE then c\<lparr>poly_mode := BR_LINE\<rparr>
       else if mode = BR_POINT then c\<lparr>poly_mode := BR_POINT\<rparr>
       else c)"

definition brCullWinding :: "u32 \<Rightarrow> br_state \<Rightarrow> br_state" where
  "brCullWinding winding =
     guarded (\<lambda>c. if winding = BR_CW \<or> winding = BR_CCW then c\<lparr>cull_winding := winding\<rparr> else c)"

definition brPointSize :: "cfloat \<Rightarrow> br_state \<Rightarrow> br_state" where
  "brPointSize radius =
     guarded (\<lambda>c.
       if flt_ge radius (Fin 0) then c\<lparr>point_radius := radius\<rparr>
       else c\<lparr>point_radius := Fin 0\<rparr>)"

text \<open>\<open>brEnable\<close> and \<open>brDisable\<close> are the same \<open>switch\<close> over the toggle, storing
  \<open>true\<close> and \<open>false\<close>.\<close>

definition set_toggle :: "u32 \<Rightarrow> bool \<Rightarrow> brcontext \<Rightarrow> brcontext" where
  "set_toggle state v c =
     (if state = BR_DOUBLE_BUFFER then c\<lparr>double_buffer := v\<rparr>
      else if state = BR_DEPTH_WRITE then c\<lparr>depth_write := v\<rparr>
      else if state = BR_DEPTH_TEST then c\<lparr>depth_test := v\<rparr>
      else if state = BR_PERSPECTIVE_CORRECTION then c\<lparr>persp_corr := v\<rparr>
      else if state = BR_TEXTURE then c\<lparr>texture := v\<rparr>
      else if state = BR_BLEND then c\<lparr>blend := v\<rparr>
      else if state = BR_CULL then c\<lparr>cull := v\<rparr>
      else if state = BR_CLIP then c\<lparr>clip := v\<rparr>
      else if state = BR_PERSPECTIVE_DIVISION then c\<lparr>persp_div := v\<rparr>
      else if state = BR_SCALE_Z then c\<lparr>scale_z := v\<rparr>
      else if state = BR_VERTEX_ARRAY then c\<lparr>vertex_array := v\<rparr>
      else if state = BR_COLOR_ARRAY then c\<lparr>color_array := v\<rparr>
      else if state = BR_NORMAL_ARRAY then c\<lparr>normal_array := v\<rparr>
      else if state = BR_TEXCOORD_ARRAY then c\<lparr>tcoord_array := v\<rparr>
      else if state = BR_VERTEX_TYPE then c\<lparr>sh_vtype := v\<rparr>
      else if state = BR_VERTEX_POSITION then c\<lparr>sh_vposition := v\<rparr>
      else if state = BR_VERTEX_COLOR then c\<lparr>sh_vcolor := v\<rparr>
      else if state = BR_VERTEX_NORMALS then c\<lparr>sh_vnormals := v\<rparr>
      else if state = BR_VERTEX_TEXTURE_COORDINATES then c\<lparr>sh_vtcoords := v\<rparr>
      else if state = BR_PRIMITIVE_COLOR then c\<lparr>sh_prim_color := v\<rparr>
      else if state = BR_TEXTURE_COLOR then c\<lparr>sh_tex_color := v\<rparr>
      else if state = BR_FRAGMENT_COLOR then c\<lparr>sh_frag_color := v\<rparr>
      else if state = BR_BARY_LINEAR then c\<lparr>sh_bary_linear := v\<rparr>
      else if state = BR_BARY_PERSPECTIVE then c\<lparr>sh_bary_persp := v\<rparr>
      else if state = BR_FRAGMENT_POSITION then c\<lparr>sh_fposition := v\<rparr>
      else if state = BR_FRAGMENT_DEPTH then c\<lparr>sh_fdepth := v\<rparr>
      else c)"

definition brEnable :: "u32 \<Rightarrow> br_state \<Rightarrow> br_state" where
  "brEnable state = guarded (set_toggle state True)"

definition brDisable :: "u32 \<Rightarrow> br_state \<Rightarrow> br_state" where
  "brDisable state = guarded (set_toggle state False)"

definition brBindShader :: "u32 \<Rightarrow> addr \<Rightarrow> br_state \<Rightarrow> br_state" where
  "brBindShader type shader =
     guarded (\<lambda>c.
       let c = (if type = BR_VERTEX_SHADER then c\<lparr>vshader := shader\<rparr> else c)
       in if type = BR_FRAGMENT_SHADER then c\<lparr>fshader := shader\<rparr> else c)"

definition brActiveTexture :: "u32 \<Rightarrow> br_state \<Rightarrow> br_state" where
  "brActiveTexture unit =
     guarded (\<lambda>c. if unit < BR_NUM_TEXTURE_UNITS then c\<lparr>texture_unit := unit\<rparr> else c)"

definition brTexture :: "addr \<Rightarrow> u32 \<Rightarrow> u32 \<Rightarrow> u32 \<Rightarrow> bool \<Rightarrow> br_state \<Rightarrow> br_state" where
  "brTexture data format width height compressed =
     guarded (\<lambda>c.
       let unit = unat (texture_unit c) in
       if data = 0 \<or> \<not> is_pixel_format format \<or> width < 1 \<or> height < 1 then
         c\<lparr>textures := (textures c)(unit := 0),
           texture_widths := (texture_widths c)(unit := 0),
           texture_heights := (texture_heights c)(unit := 0),
           texture_formats := (texture_formats c)(unit := 0),
           texture_compressed_booleans := (texture_compressed_booleans c)(unit := False)\<rparr>
       else
         c\<lparr>textures := (textures c)(unit := data),
           texture_widths := (texture_widths c)(unit := width),
           texture_heights := (texture_heights c)(unit := height),
           texture_formats := (texture_formats c)(unit := format),
           texture_compressed_booleans := (texture_compressed_booleans c)(unit := compressed)\<rparr>)"

definition clamp_channel :: "cfloat \<Rightarrow> cfloat" where
  "clamp_channel r =
     (let r = (if flt_lt r (Fin 0) then Fin 0 else r)
      in if flt_gt r (Fin 1) then Fin 1 else r)"

definition brClearColor :: "cfloat \<Rightarrow> cfloat \<Rightarrow> cfloat \<Rightarrow> cfloat \<Rightarrow> br_state \<Rightarrow> br_state" where
  "brClearColor r g b a =
     guarded (\<lambda>c. c\<lparr>clear_color :=
       \<lparr>v4x = clamp_channel r, v4y = clamp_channel g,
        v4z = clamp_channel b, v4w = clamp_channel a\<rparr>\<rparr>)"

definition clamp_depth :: "cfloat \<Rightarrow> cfloat" where
  "clamp_depth depth =
     (let depth = (if flt_gt depth (Fin 1) then Fin 1 else depth)
      in if flt_lt depth (Fin 0) then Fin 0 else depth)"

definition brClearDepth :: "cfloat \<Rightarrow> br_state \<Rightarrow> br_state" where
  "brClearDepth depth = guarded (\<lambda>c. c\<lparr>clear_depth := clamp_depth depth\<rparr>)"

subsection \<open>Vertex-array pointers (br.h:4008-4040)\<close>

definition brVertexPointer :: "u32 \<Rightarrow> addr \<Rightarrow> addr \<Rightarrow> br_state \<Rightarrow> fault + br_state" where
  "brVertexPointer count offset stride s =
     (if count > 4 \<or> count < 2 then Inr s
      else unguarded (\<lambda>c. c\<lparr>vertex_count := count, vertex_offset := offset,
                               vertex_stride := stride\<rparr>) s)"

definition brColorPointer :: "u32 \<Rightarrow> addr \<Rightarrow> addr \<Rightarrow> br_state \<Rightarrow> fault + br_state" where
  "brColorPointer count offset stride s =
     (if count \<noteq> 3 \<and> count \<noteq> 4 then Inr s
      else unguarded (\<lambda>c. c\<lparr>color_count := count, color_offset := offset,
                               color_stride := stride\<rparr>) s)"

definition brNormalPointer :: "addr \<Rightarrow> addr \<Rightarrow> br_state \<Rightarrow> fault + br_state" where
  "brNormalPointer offset stride =
     unguarded (\<lambda>c. c\<lparr>normal_offset := offset, normal_stride := stride\<rparr>)"

definition brTexCoordPointer :: "addr \<Rightarrow> addr \<Rightarrow> br_state \<Rightarrow> fault + br_state" where
  "brTexCoordPointer offset stride =
     unguarded (\<lambda>c. c\<lparr>tcoord_offset := offset, tcoord_stride := stride\<rparr>)"

subsection \<open>The interface as one step function\<close>

text \<open>
  Every function of the API section of br.h that reads or writes a context or the binding
  (the matrix helpers \<open>brIdentity\<close> .. \<open>brEulerToQuat\<close> after it are pure functions of
  their arguments).  A step gives what the call leaves in the contexts and in the binding.

  Twenty functions assign a field of a context or the binding; they are the definitions
  above.  The other six contain no assignment to a field of a context or to \<open>_brcontext\<close>,
  and neither do the functions they call (the rasterizers and preprocessors only read the
  context), so they leave the contexts and the binding as they are:
  \<^item> \<open>brCreateRenderbuffer\<close> (br.h:3012-3040) does not touch the context and stores the
    buffer it allocates through its argument;
  \<^item> \<open>brIsEnabled\<close> (3332-3392) and \<open>brGetState\<close> (4659-4780) test the binding and read;
  \<^item> \<open>brClear\<close> (3509-4005) tests the binding and writes to the bound buffers;
  \<^item> \<open>brDrawArray\<close> (4043-4348) reads \<open>_brcontext->vertex_offset\<close> in its first
    statement without testing the binding, and writes to the bound buffers;
  \<^item> \<open>brDrawElements\<close> (4351-4656) reads through \<open>_brcontext\<close> in the body of its loop
    over the \<open>indices\<close> elements, without testing the binding.
  Buffers, textures and the memory behind the pointer arguments are kept apart from the
  context objects.
\<close>

datatype api_call =
    CreateContext addr
  | BindContext addr
  | FreeContext addr
  | CreateRenderbuffer u32 u32 u32
  | BindRenderbuffer u32 u32 u32 addr
  | UnbindRenderbuffer u32
  | PolygonMode u32
  | CullWinding u32
  | PointSize cfloat
  | Enable u32
  | Disable u32
  | IsEnabled u32
  | BindShader u32 addr
  | SwapBuffers
  | ActiveTexture u32
  | Texture addr u32 u32 u32 bool
  | ClearColor cfloat cfloat cfloat cfloat
  | ClearDepth cfloat
  | Clear u32
  | VertexPointer u32 addr addr
  | ColorPointer u32 addr addr
  | NormalPointer addr addr
  | TexCoordPointer addr addr
  | DrawArray u32 u32
  | DrawElements u32 u32
  | GetState u32 u32

fun api_step :: "api_call \<Rightarrow> br_state \<Rightarrow> fault + br_state" where
  "api_step (CreateContext p) s = brCreateContext p s"
| "api_step (BindContext p) s = Inr (brBindContext p s)"
| "api_step (FreeContext p) s = Inr (brFreeContext p s)"
| "api_step (CreateRenderbuffer t w h) s = Inr s"
| "api_step (BindRenderbuffer t w h b) s = Inr (brBindRenderbuffer t w h b s)"
| "api_step (UnbindRenderbuffer b) s = Inr (brUnbindRenderbuffer b s)"
| "api_step (PolygonMode m) s = Inr (brPolygonMode m s)"
| "api_step (CullWinding w) s = Inr (brCullWinding w s)"
| "api_step (PointSize r) s = Inr (brPointSize r s)"
| "api_step (Enable st) s = Inr (brEnable st s)"
| "api_step (Disable st) s = Inr (brDisable st s)"
| "api_step (IsEnabled st) s = Inr s"
| "api_step (BindShader t sh) s = Inr (brBindShader t sh s)"
| "api_step SwapBuffers s = Inr (brSwapBuffers s)"
| "api_step (ActiveTexture u) s = Inr (brActiveTexture u s)"
| "api_step (Texture d f w h c) s = Inr (brTexture d f w h c s)"
| "api_step (ClearColor r g b a) s = Inr (brClearColor r g b a s)"
| "api_step (ClearDepth d) s = Inr (brClearDepth d s)"
| "api_step (Clear b) s = Inr s"
| "api_step (VertexPointer n off st) s = brVertexPointer n off st s"
| "api_step (ColorPointer n off st) s = brColorPointer n off st s"
| "api_step (NormalPointer off st) s = brNormalPointer off st s"
| "api_step (TexCoordPointer off st) s = brTexCoordPointer off st s"
| "api_step (DrawArray ptype indices) s = (if cur s = 0 then Inl NullContextDeref else Inr s)"
| "api_step (DrawElements ptype indices) s =
     (if cur s = 0 \<and> 0 < indices then Inl NullContextDeref else Inr s)"
| "api_step (GetState t st) s = Inr s"

text \<open>The arguments of the two clear-value setters, the only float arguments that are
  stored after a clamp made of two comparisons.\<close>

fun clear_args :: "api_call \<Rightarrow> cfloat list" where
  "clear_args (ClearColor r g b a) = [r, g, b, a]"
| "clear_args (ClearDepth d) = [d]"
| "clear_args _ = []"

text \<open>The data-model invariants of the spec (section 3) on one context.\<close>

definition in_unit :: "cfloat \<Rightarrow> bool" where
  "in_unit v = (flt_le (Fin 0) v \<and> flt_le v (Fin 1))"

definition ctx_inv :: "brcontext \<Rightarrow> bool" where
  "ctx_inv c =
     (unat (texture_unit c) \<le> 255 \<and>
      in_unit (clear_depth c) \<and>
      in_unit (v4x (clear_color c)) \<and> in_unit (v4y (clear_color c)) \<and>
      in_unit (v4z (clear_color c)) \<and> in_unit (v4w (clear_color c)) \<and>
      flt_ge (point_radius c) (Fin 0))"

text \<open>A state right after \<open>brCreateContext\<close> and \<open>brBindContext\<close> at address 1, and the
  state of a program that has bound nothing yet.\<close>

definition unbound_state :: br_state where
  "unbound_state = \<lparr>heap = (\<lambda>p. new_context), cur = 0\<rparr>"

definition bound_state :: br_state where
  "bound_state = \<lparr>heap = (\<lambda>p. new_context), cur = 1\<rparr>"

text \<open>A bound context with double buffering enabled and a 64x64 R8G8B8A8 colour buffer at
  address 1 in its front set; its back set is empty.\<close>

definition swap_state :: br_state where
  "swap_state = brEnable BR_DOUBLE_BUFFER (brBindRenderbuffer BR_R8G8B8A8 64 64 1 bound_state)"

section \<open>Pixel codec (br.h:133-195, 302-528)\<close>

text \<open>
  The packing macros.  Their arguments are \<open>uint8_t\<close> values (or the literal 1), promoted
  to \<open>int\<close>; the shifts and ors are done in 32 bits and the result is cast to the width
  of the format.
\<close>

definition BR_R8G8B8A8_pack :: "u8 \<Rightarrow> u8 \<Rightarrow> u8 \<Rightarrow> u8 \<Rightarrow> u32" where
  "BR_R8G8B8A8_pack r g b a =
     ucast a OR push_bit 8 (ucast b) OR push_bit 16 (ucast g) OR push_bit 24 (ucast r)"

definition BR_R8G8B8_pack :: "u8 \<Rightarrow> u8 \<Rightarrow> u8 \<Rightarrow> u32" where
  "BR_R8G8B8_pack r g b = ucast b OR push_bit 8 (ucast g) OR push_bit 16 (ucast r)"

definition BR_A8B8G8R8_pack :: "u8 \<Rightarrow> u8 \<Rightarrow> u8 \<Rightarrow> u8 \<Rightarrow> u32" where
  "BR_A8B8G8R8_pack r g b a =
     ucast r OR push_bit 8 (ucast g) OR push_bit 16 (ucast b) OR push_bit 24 (ucast a)"

definition BR_B8G8R8_pack :: "u8 \<Rightarrow> u8 \<Rightarrow> u8 \<Rightarrow> u32" where
  "BR_B8G8R8_pack r g b = ucast r OR push_bit 8 (ucast g) OR push_bit 16 (ucast b)"

definition to16 :: "u32 \<Rightarrow> u32" where
  "to16 v = ucast (ucast v :: u16)"

definition to8 :: "u32 \<Rightarrow> u32" where
  "to8 v = ucast (ucast v :: u8)"

definition BR_R5G5B5A1_pack :: "u8 \<Rightarrow> u8 \<Rightarrow> u8 \<Rightarrow> u8 \<Rightarrow> u32" where
  "BR_R5G5B5A1_pack r g b a =
     to16 (ucast a OR push_bit 1 (ucast b) OR push_bit 6 (ucast g) OR push_bit 11 (ucast r))"

definition BR_R5G5B5_pack :: "u8 \<Rightarrow> u8 \<Rightarrow> u8 \<Rightarrow> u32" where
  "BR_R5G5B5_pack r g b = to16 (ucast b OR push_bit 5 (ucast g) OR push_bit 10 (ucast r))"

definition BR_A1B5G5R5_pack :: "u8 \<Rightarrow> u8 \<Rightarrow> u8 \<Rightarrow> u8 \<Rightarrow> u32" where
  "BR_A1B5G5R5_pack r g b a =
     to16 (ucast r OR push_bit 5 (ucast g) OR push_bit 10 (ucast b) OR push_bit 15 (ucast a))"

definition BR_B5G5R5_pack :: "u8 \<Rightarrow> u8 \<Rightarrow> u8 \<Rightarrow> u32" where
  "BR_B5G5R5_pack r g b = to16 (ucast r OR push_bit 5 (ucast g) OR push_bit 10 (ucast b))"

definition BR_R3G2B2A1_pack :: "u8 \<Rightarrow> u8 \<Rightarrow> u8 \<Rightarrow> u8 \<Rightarrow> u32" where
  "BR_R3G2B2A1_pack r g b a =
     to8 (ucast a OR push_bit 1 (ucast b) OR push_bit 3 (ucast g) OR push_bit 5 (ucast r))"

definition BR_R3G3B2_pack :: "u8 \<Rightarrow> u8 \<Rightarrow> u8 \<Rightarrow> u32" where
  "BR_R3G3B2_pack r g b = to8 (ucast b OR push_bit 2 (ucast g) OR push_bit 5 (ucast r))"

definition BR_A1B2G2R3_pack :: "u8 \<Rightarrow> u8 \<Rightarrow> u8 \<Rightarrow> u8 \<Rightarrow> u32" where
  "BR_A1B2G2R3_pack r g b a =
     to8 (ucast r OR push_bit 3 (ucast g) OR push_bit 5 (ucast b) OR push_bit 7 (ucast a))"

definition BR_B2G3R3_pack :: "u8 \<Rightarrow> u8 \<Rightarrow> u8 \<Rightarrow> u32" where
  "BR_B2G3R3_pack r g b = to8 (ucast r OR push_bit 3 (ucast g) OR push_bit 6 (ucast b))"

text \<open>The unpacking macros \<open>(uint8_t)((x & mask) >> shift)\<close>.\<close>

definition bitfield :: "u32 \<Rightarrow> u32 \<Rightarrow> nat \<Rightarrow> u8" where
  "bitfield x msk sh = ucast (drop_bit sh (x AND msk))"

definition BR_R8G8B8A8_R :: "u32 \<Rightarrow> u8" where "BR_R8G8B8A8_R x = bitfield x 0xFF000000 24"
definition BR_R8G8B8A8_G :: "u32 \<Rightarrow> u8" where "BR_R8G8B8A8_G x = bitfield x 0x00FF0000 16"
definition BR_R8G8B8A8_B :: "u32 \<Rightarrow> u8" where "BR_R8G8B8A8_B x = bitfield x 0x0000FF00 8"
definition BR_R8G8B8A8_A :: "u32 \<Rightarrow> u8" where "BR_R8G8B8A8_A x = bitfield x 0x000000FF 0"
definition BR_R8G8B8_R :: "u32 \<Rightarrow> u8" where "BR_R8G8B8_R x = bitfield x 0xFF0000 16"
definition BR_R8G8B8_G :: "u32 \<Rightarrow> u8" where "BR_R8G8B8_G x = bitfield x 0x00FF00 8"
definition BR_R8G8B8_B :: "u32 \<Rightarrow> u8" where "BR_R8G8B8_B x = bitfield x 0x0000FF 0"
definition BR_A8B8G8R8_R :: "u32 \<Rightarrow> u8" where "BR_A8B8G8R8_R x = bitfield x 0x000000FF 0"
definition BR_A8B8G8R8_G :: "u32 \<Rightarrow> u8" where "BR_A8B8G8R8_G x = bitfield x 0x0000FF00 8"
definition BR_A8B8G8R8_B :: "u32 \<Rightarrow> u8" where "BR_A8B8G8R8_B x = bitfield x 0x00FF0000 16"
definition BR_A8B8G8R8_A :: "u32 \<Rightarrow> u8" where "BR_A8B8G8R8_A x = bitfield x 0xFF000000 24"
definition BR_B8G8R8_R :: "u32 \<Rightarrow> u8" where "BR_B8G8R8_R x = bitfield x 0x0000FF 0"
definition BR_B8G8R8_G :: "u32 \<Rightarrow> u8" where "BR_B8G8R8_G x = bitfield x 0x00FF00 8"
definition BR_B8G8R8_B :: "u32 \<Rightarrow> u8" where "BR_B8G8R8_B x = bitfield x 0xFF0000 16"
definition BR_R5G5B5A1_R :: "u32 \<Rightarrow> u8" where "BR_R5G5B5A1_R x = bitfield x 0xF800 11"
definition BR_R5G5B5A1_G :: "u32 \<Rightarrow> u8" where "BR_R5G5B5A1_G x = bitfield x 0x7C0 6"
definition BR_R5G5B5A1_B :: "u32 \<Rightarrow> u8" where "BR_R5G5B5A1_B x = bitfield x 0x3E 1"
definition BR_R5G5B5A1_A :: "u32 \<Rightarrow> u8" where "BR_R5G5B5A1_A x = bitfield x 0x1 0"
definition BR_R5G5B5_R :: "u32 \<Rightarrow> u8" where "BR_R5G5B5_R x = bitfield x 0x7C00 10"
definition BR_R5G5B5_G :: "u32 \<Rightarrow> u8" where "BR_R5G5B5_G x = bitfield x 0x3E0 5"
definition BR_R5G5B5_B :: "u32 \<Rightarrow> u8" where "BR_R5G5B5_B x = bitfield x 0x1F 0"
definition BR_A1B5G5R5_R :: "u32 \<Rightarrow> u8" where "BR_A1B5G5R5_R x = bitfield x 0x1F 0"
definition BR_A1B5G5R5_G :: "u32 \<Rightarrow> u8" where "BR_A1B5G5R5_G x = bitfield x 0x3E0 5"
definition BR_A1B5G5R5_B :: "u32 \<Rightarrow> u8" where "BR_A1B5G5R5_B x = bitfield x 0x7C00 10"
definition BR_A1B5G5R5_A :: "u32 \<Rightarrow> u8" where "BR_A1B5G5R5_A x = bitfield x 0x8000 15"
definition BR_R3G2B2A1_R :: "u32 \<Rightarrow> u8" where "BR_R3G2B2A1_R x = bitfield x 0xE0 5"
definition BR_R3G2B2A1_G :: "u32 \<Rightarrow> u8" where "BR_R3G2B2A1_G x = bitfield x 0x18 3"
definition BR_R3G2B2A1_B :: "u32 \<Rightarrow> u8" where "BR_R3G2B2A1_B x = bitfield x 0x6 1"
definition BR_R3G2B2A1_A :: "u32 \<Rightarrow> u8" where "BR_R3G2B2A1_A x = bitfield x 0x1 0"
definition BR_R3G3B2_R :: "u32 \<Rightarrow> u8" where "BR_R3G3B2_R x = bitfield x 0xE0 5"
definition BR_R3G3B2_G :: "u32 \<Rightarrow> u8" where "BR_R3G3B2_G x = bitfield x 0x1C 2"
definition BR_R3G3B2_B :: "u32 \<Rightarrow> u8" where "BR_R3G3B2_B x = bitfield x 0x3 0"

text \<open>The reciprocal literals of br.h:191-195, as the compiler rounds them.\<close>

definition INV_65536 :: cfloat where "INV_65536 = rnd32 (1525878 / 100000000000)"
definition INV_255 :: cfloat where "INV_255 = rnd32 (392156862 / 100000000000)"
definition INV_31 :: cfloat where "INV_31 = rnd32 (3225806451 / 100000000000)"
definition INV_7 :: cfloat where "INV_7 = rnd32 (14285714285 / 100000000000)"
definition INV_3 :: cfloat where "INV_3 = rnd32 (33333333333 / 100000000000)"

text \<open>\<open>uint8_t c = (chan * max) >> 16\<close> on a 16.16 channel: 32-bit multiplication,
  shift, truncation to 8 bits.\<close>

definition chan8 :: "u32 \<Rightarrow> u32 \<Rightarrow> u8" where
  "chan8 v m = ucast (drop_bit 16 (v * m))"

definition f8 :: "u8 \<Rightarrow> cfloat" where
  "f8 v = float_of_int (uint v)"

text \<open>\<open>uint8_t p = (src*alpha) + (dst*_1_minus_alpha)\<close>.\<close>

definition blend_channel :: "env \<Rightarrow> u8 \<Rightarrow> u8 \<Rightarrow> cfloat \<Rightarrow> u8" where
  "blend_channel e src dst alpha =
     to_u8 e (fadd (fmul (f8 src) alpha) (fmul (f8 dst) (fsub (Fin 1) alpha)))"

text \<open>
  \<open>_plot_pixel\<close>, as the value it stores at \<open>index\<close>: \<open>None\<close> when it returns without
  writing, \<open>dst\<close> being the value the buffer holds there.  A buffer element is kept in
  32 bits; for the 16- and 8-bit formats the upper bits are zero.
\<close>

definition threshold_store :: "bool \<Rightarrow> u32 \<Rightarrow> u32 \<Rightarrow> u32 option" where
  "threshold_store blnd w v =
     (if \<not> blnd then Some v
      else if w < 32768 then None
      else Some v)"

definition plot_value :: "env \<Rightarrow> u32 \<Rightarrow> brvec4ui \<Rightarrow> bool \<Rightarrow> u32 \<Rightarrow> u32 option" where
  "plot_value e fmt rgba blnd dst_val =
     (if fmt = BR_R8G8B8 then
        (let r = chan8 (ux rgba) 255; g = chan8 (uy rgba) 255;
             b = chan8 (uz rgba) 255; a = chan8 (uw rgba) 255 in
         if \<not> blnd then Some (BR_B8G8R8_pack r g b)
         else if a = 255 then Some (BR_R8G8B8_pack r g b)
         else if a = 0 then None
         else
           (let dst_r = BR_R8G8B8_R (ucast r); dst_g = BR_R8G8B8_G (ucast g);
                dst_b = BR_R8G8B8_B (ucast b);
                alpha = fmul (f8 a) INV_255
            in Some (BR_R8G8B8_pack (blend_channel e r dst_r alpha)
                 (blend_channel e g dst_g alpha) (blend_channel e b dst_b alpha))))
      else if fmt = BR_R8G8B8A8 then
        (let r = chan8 (ux rgba) 255; g = chan8 (uy rgba) 255;
             b = chan8 (uz rgba) 255; a = chan8 (uw rgba) 255 in
         if \<not> blnd then Some (BR_R8G8B8A8_pack r g b a)
         else if a = 255 then Some (BR_R8G8B8A8_pack r g b a)
         else if a = 0 then None
         else
           (let dst_r = BR_R8G8B8A8_R dst_val; dst_g = BR_R8G8B8A8_G dst_val;
                dst_b = BR_R8G8B8A8_B dst_val; dst_a = BR_R8G8B8A8_A dst_val;
                alpha = fmul (f8 a) INV_255
            in Some (BR_R8G8B8A8_pack (blend_channel e r dst_r alpha)
                 (blend_channel e g dst_g alpha) (blend_channel e b dst_b alpha)
                 (blend_channel e a dst_a alpha))))
      else if fmt = BR_B8G8R8 then
        (let r = chan8 (ux rgba) 255; g = chan8 (uy rgba) 255;
             b = chan8 (uz rgba) 255; a = chan8 (uw rgba) 255 in
         if \<not> blnd then Some (BR_B8G8R8_pack r g b)
         else if a = 255 then Some (BR_B8G8R8_pack r g b)
         else if a = 0 then None
         else
           (let dst_r = BR_B8G8R8_R (ucast r); dst_g = BR_B8G8R8_G (ucast g);
                dst_b = BR_B8G8R8_B (ucast b);
                alpha = fmul (f8 a) INV_255
            in Some (BR_B8G8R8_pack (blend_channel e r dst_r alpha)
                 (blend_channel e g dst_g alpha) (blend_channel e b dst_b alpha))))
      else if fmt = BR_A8B8G8R8 then
        (let r = chan8 (ux rgba) 255; g = chan8 (uy rgba) 255;
             b = chan8 (uz rgba) 255; a = chan8 (uw rgba) 255 in
         if \<not> blnd then Some (BR_A8B8G8R8_pack r g b a)
         else if a = 255 then Some (BR_A8B8G8R8_pack r g b a)
         else if a = 0 then None
         else
           (let dst_r = BR_A8B8G8R8_R dst_val; dst_g = BR_A8B8G8R8_G dst_val;
                dst_b = BR_A8B8G8R8_B dst_val; dst_a = BR_A8B8G8R8_A dst_val;
                alpha = fmul (f8 a) INV_255
            in Some (BR_A8B8G8R8_pack (blend_channel e r dst_r alpha)
                 (blend_channel e g dst_g alpha) (blend_channel e b dst_b alpha)
                 (blend_channel e a dst_a alpha))))
      else if fmt = BR_R5G5B5 then
        threshold_store blnd (uw rgba)
          (BR_R5G5B5_pack (chan8 (ux rgba) 31) (chan8 (uy rgba) 31) (chan8 (uz rgba) 31))
      else if fmt = BR_R5G5B5A1 then
        threshold_store blnd (uw rgba)
          (BR_R5G5B5A1_pack (chan8 (ux rgba) 31) (chan8 (uy rgba) 31) (chan8 (uz rgba) 31) 1)
      else if fmt = BR_B5G5R5 then
        threshold_store blnd (uw rgba)
          (BR_B5G5R5_pack (chan8 (ux rgba) 31) (chan8 (uy rgba) 31) (chan8 (uz rgba) 31))
      else if fmt = BR_A1B5G5R5 then
        threshold_store blnd (uw rgba)
          (BR_A1B5G5R5_pack (chan8 (ux rgba) 31) (chan8 (uy rgba) 31) (chan8 (uz rgba) 31) 1)
      else if fmt = BR_R3G3B2 then
        threshold_store blnd (uw rgba)
          (BR_R3G3B2_pack (chan8 (ux rgba) 7) (chan8 (uy rgba) 7) (chan8 (uz rgba) 3))
      else if fmt = BR_R3G2B2A1 then
        threshold_store blnd (uw rgba)
          (BR_R3G2B2A1_pack (chan8 (ux rgba) 7) (chan8 (uy rgba) 3) (chan8 (uz rgba) 3) 1)
      else if fmt = BR_B2G3R3 then
        threshold_store blnd (uw rgba)
          (BR_B2G3R3_pack (chan8 (ux rgba) 7) (chan8 (uy rgba) 7) (chan8 (uz rgba) 3))
      else if fmt = BR_A1B2G2R3 then
        threshold_store blnd (uw rgba)
          (BR_A1B2G2R3_pack (chan8 (ux rgba) 7) (chan8 (uy rgba) 3) (chan8 (uz rgba) 3) 1)
      else None)"

text \<open>A colour or depth buffer: the element at each index.\<close>

type_synonym buffer = "nat \<Rightarrow> u32"

definition plot_pixel :: "env \<Rightarrow> brcontext \<Rightarrow> u32 \<Rightarrow> brvec4ui \<Rightarrow> bool \<Rightarrow> buffer \<Rightarrow> buffer" where
  "plot_pixel e c index rgba blnd buf =
     (case plot_value e (cb_type c) rgba blnd (buf (unat index)) of
        None \<Rightarrow> buf
      | Some v \<Rightarrow> buf(unat index := v))"

text \<open>The position of the alpha bit in the formats with a 1-bit alpha.\<close>

definition alpha_bit :: "u32 \<Rightarrow> nat" where
  "alpha_bit fmt =
     (if fmt = BR_R5G5B5A1 then 0 else if fmt = BR_A1B5G5R5 then 15
      else if fmt = BR_R3G2B2A1 then 0 else 7)"

definition one_bit_alpha :: "u32 \<Rightarrow> bool" where
  "one_bit_alpha fmt =
     (fmt = BR_R5G5B5A1 \<or> fmt = BR_A1B5G5R5 \<or> fmt = BR_R3G2B2A1 \<or> fmt = BR_A1B2G2R3)"

section \<open>Depth codec (br.h:530-567)\<close>

record fbuf =
  cbuf :: buffer
  dbuf :: buffer

definition as_s64 :: "int \<Rightarrow> int" where
  "as_s64 i = sint (word_of_int i :: 64 word)"

definition plot_depth :: "brcontext \<Rightarrow> u32 \<Rightarrow> int \<Rightarrow> buffer \<Rightarrow> buffer" where
  "plot_depth c index depth buf =
     (let buf = (if db_type c = BR_D16
                 then buf(unat index := ucast (word_of_int depth :: u16)) else buf)
      in if db_type c = BR_D32 then buf(unat index := word_of_int depth) else buf)"

definition get_depth :: "env \<Rightarrow> brcontext \<Rightarrow> u32 \<Rightarrow> buffer \<Rightarrow> int" where
  "get_depth e c index buf =
     (if db_type c = BR_D16 then uint (ucast (buf (unat index)) :: u16)
      else if db_type c = BR_D32 then uint (buf (unat index))
      else as_s64 (no_return e))"

definition convert_depth :: "env \<Rightarrow> brcontext \<Rightarrow> cfloat \<Rightarrow> int" where
  "convert_depth e c depth =
     (if db_type c = BR_D16 then to_s64 e (fmul depth (float_of_int 0xFFFF))
      else if db_type c = BR_D32 then to_s64 e (fmul depth (float_of_int 0xFFFFFFFF))
      else as_s64 (no_return e))"

definition is_valid_depth :: "brcontext \<Rightarrow> int \<Rightarrow> bool" where
  "is_valid_depth c depth =
     (if db_type c = BR_D16 then 0 \<le> depth \<and> depth \<le> 0xFFFF
      else if db_type c = BR_D32 then 0 \<le> depth \<and> depth \<le> 0xFFFFFFFF
      else False)"

section \<open>Texture sampler (br.h:592-811)\<close>

text \<open>
  The clamping of one coordinate: \<open>if(x >= width) x = width - 1; if(x < 0) x = 0;\<close> with
  \<open>int x\<close> and \<open>uint32_t width\<close>.  The first comparison is between an \<open>int\<close> and a
  \<open>uint32_t\<close>, so C converts \<open>x\<close> to \<open>uint32_t\<close> and compares unsigned; the second is a
  signed comparison.
\<close>

definition clamp_coord :: "s32 \<Rightarrow> u32 \<Rightarrow> s32" where
  "clamp_coord x width =
     (let x = (if width \<le> x then width - 1 else x)
      in if sint x < 0 then 0 else x)"

definition texel_width :: "u32 \<Rightarrow> u32" where
  "texel_width fmt =
     (if fmt = BR_R8G8B8A8 \<or> fmt = BR_A8B8G8R8 \<or> fmt = BR_R5G5B5A1 \<or> fmt = BR_A1B5G5R5 \<or>
         fmt = BR_R3G2B2A1 \<or> fmt = BR_A1B2G2R3 then 4 else 3)"

definition vec4 :: "cfloat \<Rightarrow> cfloat \<Rightarrow> cfloat \<Rightarrow> cfloat \<Rightarrow> brvec4" where
  "vec4 a b c d = \<lparr>v4x = a, v4y = b, v4z = c, v4w = d\<rparr>"

definition fbool :: "bool \<Rightarrow> cfloat" where
  "fbool b = (if b then Fin 1 else Fin 0)"

text \<open>The decoding of a non-compressed texel from its bytes \<open>t 0 .. t 3\<close>.\<close>

definition decode_bytes :: "u32 \<Rightarrow> (nat \<Rightarrow> u8) \<Rightarrow> brvec4 \<Rightarrow> brvec4" where
  "decode_bytes fmt t col =
     (if fmt = BR_R8G8B8A8 then
        vec4 (fmul (f8 (t 0)) INV_255) (fmul (f8 (t 1)) INV_255) (fmul (f8 (t 2)) INV_255)
             (fmul (f8 (t 3)) INV_255)
      else if fmt = BR_R8G8B8 then
        vec4 (fmul (f8 (t 0)) INV_255) (fmul (f8 (t 1)) INV_255) (fmul (f8 (t 2)) INV_255) (Fin 1)
      else if fmt = BR_A8B8G8R8 then
        vec4 (fmul (f8 (t 3)) INV_255) (fmul (f8 (t 2)) INV_255) (fmul (f8 (t 1)) INV_255)
             (fmul (f8 (t 0)) INV_255)
      else if fmt = BR_B8G8R8 then
        vec4 (fmul (f8 (t 2)) INV_255) (fmul (f8 (t 1)) INV_255) (fmul (f8 (t 0)) INV_255) (Fin 1)
      else if fmt = BR_R5G5B5A1 then
        vec4 (fmul (f8 (t 0)) INV_31) (fmul (f8 (t 1)) INV_31) (fmul (f8 (t 2)) INV_31)
             (fbool (t 3 \<noteq> 0))
      else if fmt = BR_R5G5B5 then
        vec4 (fmul (f8 (t 0)) INV_31) (fmul (f8 (t 1)) INV_31) (fmul (f8 (t 2)) INV_31) (Fin 1)
      else if fmt = BR_A1B5G5R5 then
        vec4 (fmul (f8 (t 3)) INV_31) (fmul (f8 (t 2)) INV_31) (fmul (f8 (t 1)) INV_31)
             (fbool (t 0 \<noteq> 0))
      else if fmt = BR_B5G5R5 then
        vec4 (fmul (f8 (t 2)) INV_31) (fmul (f8 (t 1)) INV_31) (fmul (f8 (t 0)) INV_31) (Fin 1)
      else if fmt = BR_R3G2B2A1 then
        vec4 (fmul (f8 (t 0)) INV_7) (fmul (f8 (t 1)) INV_3) (fmul (f8 (t 2)) INV_3)
             (fbool (t 3 \<noteq> 0))
      else if fmt = BR_R3G3B2 then
        vec4 (fmul (f8 (t 0)) INV_7) (fmul (f8 (t 1)) INV_7) (fmul (f8 (t 2)) INV_3) (Fin 1)
      else if fmt = BR_A1B2G2R3 then
        vec4 (fmul (f8 (t 3)) INV_7) (fmul (f8 (t 2)) INV_3) (fmul (f8 (t 1)) INV_3)
             (fbool (t 0 \<noteq> 0))
      else if fmt = BR_B2G3R3 then
        vec4 (fmul (f8 (t 2)) INV_7) (fmul (f8 (t 1)) INV_7) (fmul (f8 (t 0)) INV_3) (Fin 1)
      else col)"

text \<open>The decoding of a compressed texel; the source reads the last two 8-bit and the
  BGR 16-bit formats with the macros of the RGB layouts.\<close>

definition decode_packed :: "u32 \<Rightarrow> texmem \<Rightarrow> nat \<Rightarrow> brvec4 \<Rightarrow> brvec4" where
  "decode_packed fmt m i col =
     (let t32 = tex_u32 m i; t16 = ucast (tex_u16 m i) :: u32; t8 = ucast (tex_u8 m i) :: u32 in
      if fmt = BR_R8G8B8A8 then
        vec4 (fmul (f8 (BR_R8G8B8A8_R t32)) INV_255) (fmul (f8 (BR_R8G8B8A8_G t32)) INV_255)
             (fmul (f8 (BR_R8G8B8A8_B t32)) INV_255) (fmul (f8 (BR_R8G8B8A8_A t32)) INV_255)
      else if fmt = BR_R8G8B8 then
        vec4 (fmul (f8 (BR_R8G8B8_R t32)) INV_255) (fmul (f8 (BR_R8G8B8_G t32)) INV_255)
             (fmul (f8 (BR_R8G8B8_B t32)) INV_255) (Fin 1)
      else if fmt = BR_A8B8G8R8 then
        vec4 (fmul (f8 (BR_A8B8G8R8_R t32)) INV_255) (fmul (f8 (BR_A8B8G8R8_G t32)) INV_255)
             (fmul (f8 (BR_A8B8G8R8_B t32)) INV_255) (fmul (f8 (BR_A8B8G8R8_A t32)) INV_255)
      else if fmt = BR_B8G8R8 then
        vec4 (fmul (f8 (BR_B8G8R8_R t32)) INV_255) (fmul (f8 (BR_B8G8R8_G t32)) INV_255)
             (fmul (f8 (BR_B8G8R8_B t32)) INV_255) (Fin 1)
      else if fmt = BR_R5G5B5A1 then
        vec4 (fmul (f8 (BR_R5G5B5A1_R t16)) INV_31) (fmul (f8 (BR_R5G5B5A1_G t16)) INV_31)
             (fmul (f8 (BR_R5G5B5A1_B t16)) INV_31) (f8 (BR_R5G5B5A1_A t16))
      else if fmt = BR_R5G5B5 then
        vec4 (fmul (f8 (BR_R5G5B5_R t16)) INV_31) (fmul (f8 (BR_R5G5B5_G t16)) INV_31)
             (fmul (f8 (BR_R5G5B5_B t16)) INV_31) (Fin 1)
      else if fmt = BR_A1B5G5R5 then
        vec4 (fmul (f8 (BR_A1B5G5R5_R t16)) INV_31) (fmul (f8 (BR_A1B5G5R5_G t16)) INV_31)
             (fmul (f8 (BR_A1B5G5R5_B t16)) INV_31) (f8 (BR_A1B5G5R5_A t16))
      else if fmt = BR_B5G5R5 then
        vec4 (fmul (f8 (BR_A1B5G5R5_R t16)) INV_31) (fmul (f8 (BR_A1B5G5R5_G t16)) INV_31)
             (fmul (f8 (BR_A1B5G5R5_B t16)) INV_31) (Fin 1)
      else if fmt = BR_R3G2B2A1 then
        vec4 (fmul (f8 (BR_R3G2B2A1_R t8)) INV_7) (fmul (f8 (BR_R3G2B2A1_G t8)) INV_3)
             (fmul (f8 (BR_R3G2B2A1_B t8)) INV_3) (f8 (BR_R3G2B2A1_A t8))
      else if fmt = BR_R3G3B2 then
        vec4 (fmul (f8 (BR_R3G3B2_R t8)) INV_7) (fmul (f8 (BR_R3G3B2_G t8)) INV_7)
             (fmul (f8 (BR_R3G3B2_B t8)) INV_3) (Fin 1)
      else if fmt = BR_A1B2G2R3 then
        vec4 (fmul (f8 (BR_R3G2B2A1_R t8)) INV_7) (fmul (f8 (BR_R3G2B2A1_G t8)) INV_3)
             (fmul (f8 (BR_R3G2B2A1_B t8)) INV_3) (f8 (BR_R3G2B2A1_A t8))
      else if fmt = BR_B2G3R3 then
        vec4 (fmul (f8 (BR_R3G3B2_R t8)) INV_7) (fmul (f8 (BR_R3G3B2_G t8)) INV_7)
             (fmul (f8 (BR_R3G3B2_B t8)) INV_3) (Fin 1)
      else col)"

text \<open>
  \<open>_get_texel\<close>: \<open>bound\<close> says whether a context is bound, \<open>col\<close> is what \<open>*col\<close> holds
  before the call, the result is what it holds after.  The index
  \<open>(y*width+x)*texel_width\<close> is computed in \<open>uint32_t\<close>.
\<close>

definition get_texel :: "env \<Rightarrow> bool \<Rightarrow> s32 \<Rightarrow> s32 \<Rightarrow> brvec4 \<Rightarrow> addr \<Rightarrow> u32 \<Rightarrow> u32 \<Rightarrow> u32 \<Rightarrow> bool
    \<Rightarrow> brvec4" where
  "get_texel e bound x y col tex fmt width height compressed =
     (if \<not> bound \<or> \<not> is_pixel_format fmt then col
      else
        let x = clamp_coord x width; y = clamp_coord y height; m = tex_mem e tex in
        if \<not> compressed then
          (let base = unat ((y * width + x) * texel_width fmt)
           in decode_bytes fmt (\<lambda>k. tex_u8 m (base + k)) col)
        else decode_packed fmt m (unat (y * width + x)) col)"

section \<open>Primitive preprocessing steps\<close>

text \<open>
  The perspective division and the Z rescale, written out in the source once per vertex
  in \<open>_process_triangle\<close> (br.h:2109-2135 and 2176-2202), \<open>_process_line\<close>
  (br.h:2600-2619) and \<open>_process_point\<close> (br.h:2872-2881).
\<close>

definition persp_divide :: "brcontext \<Rightarrow> brvec4 \<Rightarrow> brvec4" where
  "persp_divide c v =
     (if persp_div c \<and> \<not> flt_eq (v4w v) (Fin 0) \<and> \<not> flt_eq (v4w v) (Fin 1) then
        (let inv_w = br_fdiv (Fin 1) (v4w v)
         in v\<lparr>v4x := fmul (v4x v) inv_w, v4y := fmul (v4y v) inv_w, v4z := fmul (v4z v) inv_w\<rparr>)
      else v)"

text \<open>\<open>z *= 0.5f + 0.5f\<close>, that is \<open>z = z * (0.5f + 0.5f)\<close>.\<close>

definition scale_z_step :: "brcontext \<Rightarrow> brvec4 \<Rightarrow> brvec4" where
  "scale_z_step c v =
     (if scale_z c then v\<lparr>v4z := fmul (v4z v) (fadd (Fin (1 / 2)) (Fin (1 / 2)))\<rparr> else v)"

text \<open>The viewport mapping \<open>half_width + (x * half_width)\<close>,
  \<open>half_height + (-y * half_height)\<close>, with \<open>half = rb_size * 0.5f\<close>.\<close>

definition fu32 :: "u32 \<Rightarrow> cfloat" where
  "fu32 w = float_of_int (uint w)"

definition half_width :: "brcontext \<Rightarrow> cfloat" where
  "half_width c = fmul (fu32 (rb_width c)) (Fin (1 / 2))"

definition half_height :: "brcontext \<Rightarrow> cfloat" where
  "half_height c = fmul (fu32 (rb_height c)) (Fin (1 / 2))"

definition raster_x :: "brcontext \<Rightarrow> brvec4 \<Rightarrow> cfloat" where
  "raster_x c v = fadd (half_width c) (fmul (v4x v) (half_width c))"

definition raster_y :: "brcontext \<Rightarrow> brvec4 \<Rightarrow> cfloat" where
  "raster_y c v = fadd (half_height c) (fmul (fneg (v4y v)) (half_height c))"

text \<open>A colour in \<open>[0,1]\<close> to 16.16: \<open>rgba.x * 65536.0f\<close> stored in a \<open>uint32_t\<close>.\<close>

definition color_16_16 :: "env \<Rightarrow> brvec4 \<Rightarrow> brvec4ui" where
  "color_16_16 e col =
     \<lparr>ux = to_u32 e (fmul (v4x col) (Fin 65536)), uy = to_u32 e (fmul (v4y col) (Fin 65536)),
      uz = to_u32 e (fmul (v4z col) (Fin 65536)), uw = to_u32 e (fmul (v4w col) (Fin 65536))\<rparr>"

section \<open>Perspective correction of barycentric coordinates\<close>

text \<open>
  Triangles (br.h:1249-1255 and 1520-1526):
  \<^verbatim>\<open>float w = 65536.0f / ((int)(bary.x*inv_v0_w + bary.y*inv_v1_w + bary.z*inv_v2_w));
bary.x *= inv_v0_w * w;  bary.y *= inv_v1_w * w;  bary.z *= inv_v2_w * w;\<close>
  with \<open>uint32_t\<close> coordinates.
\<close>

definition tri_persp_w :: "env \<Rightarrow> brvec3ui \<Rightarrow> cfloat \<Rightarrow> cfloat \<Rightarrow> cfloat \<Rightarrow> cfloat" where
  "tri_persp_w e bary inv_v0_w inv_v1_w inv_v2_w =
     fdivide (Fin 65536)
       (float_of_int (to_s32 e
          (fadd (fadd (fmul (fu32 (u3x bary)) inv_v0_w) (fmul (fu32 (u3y bary)) inv_v1_w))
                (fmul (fu32 (u3z bary)) inv_v2_w))))"

definition tri_persp_correct :: "env \<Rightarrow> brvec3ui \<Rightarrow> cfloat \<Rightarrow> cfloat \<Rightarrow> cfloat \<Rightarrow> brvec3ui" where
  "tri_persp_correct e bary inv_v0_w inv_v1_w inv_v2_w =
     (let w = tri_persp_w e bary inv_v0_w inv_v1_w inv_v2_w in
      \<lparr>u3x = to_u32 e (fmul (fu32 (u3x bary)) (fmul inv_v0_w w)),
       u3y = to_u32 e (fmul (fu32 (u3y bary)) (fmul inv_v1_w w)),
       u3z = to_u32 e (fmul (fu32 (u3z bary)) (fmul inv_v2_w w))\<rparr>)"

text \<open>
  Lines (br.h:2429-2436), with \<open>int\<close> coordinates:
  \<^verbatim>\<open>float w = _fdiv(65536.0f, (bary.x*inv_v0_w + bary.y*inv_v1_w));
bary.x *= inv_v0_w;  bary.y *= inv_v1_w;  bary.x *= w;  bary.y *= w;\<close>
\<close>

definition line_persp_w :: "int \<times> int \<Rightarrow> cfloat \<Rightarrow> cfloat \<Rightarrow> cfloat" where
  "line_persp_w bary inv_v0_w inv_v1_w =
     br_fdiv (Fin 65536)
       (fadd (fmul (float_of_int (fst bary)) inv_v0_w) (fmul (float_of_int (snd bary)) inv_v1_w))"

definition line_persp_correct :: "env \<Rightarrow> int \<times> int \<Rightarrow> cfloat \<Rightarrow> cfloat \<Rightarrow> int \<times> int" where
  "line_persp_correct e bary inv_v0_w inv_v1_w =
     (let w = line_persp_w bary inv_v0_w inv_v1_w;
          b0 = to_s32 e (fmul (float_of_int (fst bary)) inv_v0_w);
          b1 = to_s32 e (fmul (float_of_int (snd bary)) inv_v1_w);
          b0 = to_s32 e (fmul (float_of_int b0) w);
          b1 = to_s32 e (fmul (float_of_int b1) w)
      in (b0, b1))"

section \<open>Fragment finalizer\<close>

definition depth_test_on :: "brcontext \<Rightarrow> bool" where
  "depth_test_on c = (depth_test c \<and> db c \<noteq> 0)"

definition plot_color_on :: "brcontext \<Rightarrow> bool" where
  "plot_color_on c = (cb c \<noteq> 0)"

definition plot_depth_on :: "brcontext \<Rightarrow> bool" where
  "plot_depth_on c = (depth_write c \<and> db c \<noteq> 0)"

definition vec3 :: "cfloat \<Rightarrow> cfloat \<Rightarrow> cfloat \<Rightarrow> brvec3" where
  "vec3 a b c = \<lparr>v3x = a, v3y = b, v3z = c\<rparr>"

text \<open>\<open>{ r*_INV_65536, g*_INV_65536, b*_INV_65536, a*_INV_65536 }\<close>\<close>

definition primary_color :: "brvec4ui \<Rightarrow> brvec4" where
  "primary_color rgba =
     vec4 (fmul (fu32 (ux rgba)) INV_65536) (fmul (fu32 (uy rgba)) INV_65536)
          (fmul (fu32 (uz rgba)) INV_65536) (fmul (fu32 (uw rgba)) INV_65536)"

text \<open>\<open>_fragment_pass\<close> (br.h:945-961): the enabled attributes, in the canonical order,
  go to the bound fragment shader.\<close>

definition frag_attrs :: "env \<Rightarrow> brcontext \<Rightarrow> brvec4 \<Rightarrow> brvec4 \<Rightarrow> brvec4 \<Rightarrow> brvec3 \<Rightarrow> brvec3
    \<Rightarrow> brvec2i \<Rightarrow> frag_attr list" where
  "frag_attrs e c primitive_color texture_color color linear_bary bary position =
     (if sh_prim_color c then [PrimitiveColor primitive_color] else []) @
     (if sh_tex_color c then [TextureColor texture_color] else []) @
     (if sh_frag_color c then [FragmentColor color] else []) @
     (if sh_bary_linear c then [BaryLinear linear_bary] else []) @
     (if sh_bary_persp c then [BaryPerspective bary] else []) @
     (if sh_fposition c then [FragmentPosition position] else []) @
     (if sh_fdepth c then [FragmentDepth (uninit_depth e)] else [])"

definition fragment_pass :: "env \<Rightarrow> brcontext \<Rightarrow> brvec4 \<Rightarrow> brvec4 \<Rightarrow> brvec4 \<Rightarrow> brvec3 \<Rightarrow> brvec3
    \<Rightarrow> brvec2i \<Rightarrow> brvec4 \<times> bool" where
  "fragment_pass e c primitive_color texture_color color linear_bary bary position =
     frag_shader e (fshader c)
       (frag_attrs e c primitive_color texture_color color linear_bary bary position)"

text \<open>The depth test at the head of each fragment, and the two writes at its end.\<close>

definition depth_rejects :: "env \<Rightarrow> brcontext \<Rightarrow> u32 \<Rightarrow> int \<Rightarrow> fbuf \<Rightarrow> bool" where
  "depth_rejects e c pixel_index depth fb =
     (depth_test_on c \<and>
      (\<not> is_valid_depth c depth \<or> depth > get_depth e c pixel_index (dbuf fb)))"

definition write_fragment :: "env \<Rightarrow> brcontext \<Rightarrow> u32 \<Rightarrow> brvec4ui \<Rightarrow> int \<Rightarrow> fbuf \<Rightarrow> fbuf" where
  "write_fragment e c pixel_index rgba depth fb =
     (let fb = (if plot_color_on c
                then fb\<lparr>cbuf := plot_pixel e c pixel_index rgba (blend c) (cbuf fb)\<rparr> else fb)
      in if plot_depth_on c \<and> is_valid_depth c depth
         then fb\<lparr>dbuf := plot_depth c pixel_index depth (dbuf fb)\<rparr> else fb)"

section \<open>Point rasterizer (br.h:2037-2053, 2707-2842)\<close>

record raster_point_t =
  rp_x :: cfloat
  rp_y :: cfloat
  rp_rgba :: brvec4ui
  rp_r :: u32
  rp_z :: int
  rp_w :: cfloat

definition raster_point_fragment :: "env \<Rightarrow> brcontext \<Rightarrow> int \<Rightarrow> int \<Rightarrow> raster_point_t \<Rightarrow> fbuf
    \<Rightarrow> fbuf" where
  "raster_point_fragment e c x y point fb =
     (if x < 0 \<or> rb_width c \<le> u32_of x \<or> y < 0 \<or> rb_height c \<le> u32_of y then fb
      else
        let pixel_index = u32_of y * rb_width c + u32_of x;
            depth = rp_z point
        in if depth_rejects e c pixel_index depth fb then fb
           else if fshader c \<noteq> 0 then
             (let primary = primary_color (rp_rgba point);
                  secondary = vec4 (Fin 0) (Fin 0) (Fin 0) (Fin 0);
                  res = fragment_pass e c primary secondary primary
                          (vec3 (Fin 0) (Fin 0) (Fin 0)) (vec3 (Fin 0) (Fin 0) (Fin 0))
                          \<lparr>ix = x, iy = y\<rparr>
              in if snd res then fb
                 else write_fragment e c pixel_index (color_16_16 e (fst res)) depth fb)
           else write_fragment e c pixel_index (rp_rgba point) depth fb)"

text \<open>\<open>for(int x = x0; x != x1+sx; x += sx)\<close> with \<open>sx = (x0 < x1) ? 1 : -1\<close> visits
  \<open>x0, .., x1\<close> upwards, or \<open>x0\<close> down to \<open>x1\<close>.\<close>

definition span_xs :: "int \<Rightarrow> int \<Rightarrow> int list" where
  "span_xs xa xb = (if xa < xb then [xa..xb] else rev [xb..xa])"

definition hspan :: "env \<Rightarrow> brcontext \<Rightarrow> raster_point_t \<Rightarrow> int \<Rightarrow> int \<Rightarrow> int \<Rightarrow> fbuf \<Rightarrow> fbuf" where
  "hspan e c point xa xb y fb =
     foldl (\<lambda>fb x. raster_point_fragment e c x y point fb) fb (span_xs xa xb)"

text \<open>
  The horizontal diameter, \<open>for(int x = point_x - r; x <= point_x + r; x += 1)\<close>.  The
  bound \<open>point_x + r\<close> is a \<open>uint32_t\<close>, so the test compares \<open>x\<close> as a \<open>uint32_t\<close>; with
  the bound \<open>0xFFFFFFFF\<close> the test never fails.
\<close>

function diameter :: "env \<Rightarrow> brcontext \<Rightarrow> raster_point_t \<Rightarrow> int \<Rightarrow> u32 \<Rightarrow> int \<Rightarrow> fbuf
    \<Rightarrow> fault + fbuf" where
  "diameter e c point y bound x fb =
     (if bound = - 1 then Inl LoopNeverEnds
      else if u32_of x \<le> bound
        then diameter e c point y bound (x + 1) (raster_point_fragment e c x y point fb)
        else Inr fb)"
  by pat_completeness auto
termination
proof (relation "measure (\<lambda>(e, c, point, y, bound, x, fb). unat bound + 1 - unat (u32_of x))")
  show "wf (measure (\<lambda>(e, c, point, y, bound, x, fb). unat bound + 1 - unat (u32_of x)))"
    by simp
next
  fix e :: env and c :: brcontext and point :: raster_point_t and y :: int and bound :: u32
    and x :: int and fb :: fbuf
  assume nb: "bound \<noteq> - 1" and le: "u32_of x \<le> bound"
  have "u32_of x \<noteq> - 1"
    using nb le by (metis word_order.extremum_unique)
  then have "1 + u32_of x \<noteq> 0"
    by (simp add: eq_neg_iff_add_eq_0 add.commute)
  then have "unat (1 + u32_of x) = Suc (unat (u32_of x))"
    by (rule unatSuc)
  then have "unat (u32_of x + 1) = unat (u32_of x) + 1"
    by (simp add: add.commute)
  moreover have "u32_of (x + 1) = u32_of x + 1"
    by (simp add: u32_of_def)
  moreover have "unat (u32_of x) \<le> unat bound"
    using le by (simp add: word_le_nat_alt)
  ultimately show "((e, c, point, y, bound, x + 1, raster_point_fragment e c x y point fb),
                    (e, c, point, y, bound, x, fb))
        \<in> measure (\<lambda>(e, c, point, y, bound, x, fb). unat bound + 1 - unat (u32_of x))"
    by simp
qed

declare diameter.simps [simp del]

function octants :: "env \<Rightarrow> brcontext \<Rightarrow> raster_point_t \<Rightarrow> int \<Rightarrow> int \<Rightarrow> int \<Rightarrow> int \<Rightarrow> int
    \<Rightarrow> int \<Rightarrow> int \<Rightarrow> fbuf \<Rightarrow> fbuf" where
  "octants e c point point_x point_y f dx dy xb yb fb =
     (if xb < yb then
        (let yb' = (if 0 \<le> f then yb - 1 else yb);
             dy' = (if 0 \<le> f then dy + 2 else dy);
             f' = (if 0 \<le> f then f + dy' else f);
             xb' = xb + 1;
             dx' = dx + 2;
             f'' = f' + dx' + 1;
             fb = hspan e c point (point_x - xb') (point_x + xb') (point_y + yb') fb;
             fb = hspan e c point (point_x - xb') (point_x + xb') (point_y - yb') fb;
             fb = hspan e c point (point_x - yb') (point_x + yb') (point_y + xb') fb;
             fb = hspan e c point (point_x - yb') (point_x + yb') (point_y - xb') fb
         in octants e c point point_x point_y f'' dx' dy' xb' yb' fb)
      else fb)"
  by pat_completeness auto
termination
  by (relation "measure (\<lambda>(e, c, point, point_x, point_y, f, dx, dy, xb, yb, fb). nat (yb - xb))")
    auto

declare octants.simps [simp del]

text \<open>\<open>_raster_point\<close>.  \<open>r\<close> is a \<open>uint32_t\<close>: \<open>1 - r\<close>, \<open>-2 * r\<close>, \<open>point_y + r\<close> and
  \<open>point_x - r\<close> are computed in \<open>uint32_t\<close> and converted back to \<open>int\<close>.\<close>

definition raster_point :: "env \<Rightarrow> brcontext \<Rightarrow> raster_point_t \<Rightarrow> fbuf \<Rightarrow> fault + fbuf" where
  "raster_point e c params fb =
     (let r = rp_r params in
      if r = 0 then Inr fb
      else
        let f = s32_of (1 - r);
            dy = s32_of (u32_of (- 2) * r);
            yb = s32_of r;
            point_x = to_s32 e (rp_x params);
            point_y = to_s32 e (rp_y params);
            fb = raster_point_fragment e c point_x (s32_of (u32_of point_y + r)) params fb;
            fb = raster_point_fragment e c point_x (s32_of (u32_of point_y - r)) params fb
        in case diameter e c params point_y (u32_of point_x + r) (s32_of (u32_of point_x - r)) fb of
             Inl err \<Rightarrow> Inl err
           | Inr fb \<Rightarrow> Inr (octants e c params point_x point_y f 0 dy 0 yb fb))"

section \<open>Triangle rasterizer (br.h:984-1730)\<close>

record brvec2ui =
  u2x :: u32
  u2y :: u32

record raster_triangle_t =
  rt_x0 :: cfloat
  rt_x1 :: cfloat
  rt_x2 :: cfloat
  rt_y0 :: cfloat
  rt_y1 :: cfloat
  rt_y2 :: cfloat
  rt_orig_v0 :: brvec2i
  rt_orig_v1 :: brvec2i
  rt_orig_v2 :: brvec2i
  rt_bary0 :: brvec3
  rt_bary1 :: brvec3
  rt_bary2 :: brvec3
  rt_z0 :: int
  rt_z1 :: int
  rt_z2 :: int
  rt_w0 :: cfloat
  rt_w1 :: cfloat
  rt_w2 :: cfloat
  rt_rgba0 :: brvec4ui
  rt_rgba1 :: brvec4ui
  rt_rgba2 :: brvec4ui
  rt_tx0 :: brvec2ui
  rt_tx1 :: brvec2ui
  rt_tx2 :: brvec2ui
  rt_draw_top :: bool
  rt_texture :: addr
  rt_texture_width :: u32
  rt_texture_height :: u32
  rt_texture_format :: u32
  rt_texture_compressed :: bool
  rt_complete_texture_unit :: bool

text \<open>The values \<open>_raster_triangle\<close> computes once, before its loops (br.h:1066-1087).\<close>

record tri_setup =
  ts_a :: brvec2i
  ts_b :: brvec2i
  ts_den :: cfloat
  ts_inv_v0_w :: cfloat
  ts_inv_v1_w :: cfloat
  ts_inv_v2_w :: cfloat

definition tri_setup_of :: "brcontext \<Rightarrow> raster_triangle_t \<Rightarrow> tri_setup" where
  "tri_setup_of c params =
     (let ax = (ix (rt_orig_v1 params) div 256) - (ix (rt_orig_v0 params) div 256);
          ay = (iy (rt_orig_v1 params) div 256) - (iy (rt_orig_v0 params) div 256);
          bx = (ix (rt_orig_v2 params) div 256) - (ix (rt_orig_v0 params) div 256);
          by' = (iy (rt_orig_v2 params) div 256) - (iy (rt_orig_v0 params) div 256)
      in \<lparr>ts_a = \<lparr>ix = ax, iy = ay\<rparr>,
          ts_b = \<lparr>ix = bx, iy = by'\<rparr>,
          ts_den = br_fdiv (Fin 256) (float_of_int (ax * by' - bx * ay)),
          ts_inv_v0_w = (if persp_corr c then br_fdiv (Fin 1) (fabs (rt_w0 params)) else Fin 0),
          ts_inv_v1_w = (if persp_corr c then br_fdiv (Fin 1) (fabs (rt_w1 params)) else Fin 0),
          ts_inv_v2_w = (if persp_corr c then br_fdiv (Fin 1) (fabs (rt_w2 params)) else Fin 0)\<rparr>)"

text \<open>The barycentric coordinates (scaled by 65536) of the point at offset \<open>(cx, cy)\<close>
  from \<open>orig_v0\<close>, in 24.8.\<close>

definition bary_at :: "tri_setup \<Rightarrow> int \<Rightarrow> int \<Rightarrow> brvec3" where
  "bary_at ts cx cy =
     (let b1 = fmul (float_of_int (cx * iy (ts_b ts) - ix (ts_b ts) * cy)) (ts_den ts);
          b2 = fmul (float_of_int (ix (ts_a ts) * cy - cx * iy (ts_a ts))) (ts_den ts)
      in vec3 (fsub (fsub (Fin 65536) b1) b2) b1 b2)"

definition neg_bary :: "brvec3 \<Rightarrow> bool" where
  "neg_bary v = (flt_lt (v3x v) (Fin 0) \<or> flt_lt (v3y v) (Fin 0) \<or> flt_lt (v3z v) (Fin 0))"

text \<open>The two correction loops (br.h:1168-1185 and 1203-1220): \<open>None\<close> when the
  scanline is abandoned.\<close>

function fix_start :: "raster_triangle_t \<Rightarrow> tri_setup \<Rightarrow> int \<Rightarrow> int \<Rightarrow> int \<Rightarrow> brvec3
    \<Rightarrow> brvec3 option" where
  "fix_start params ts cy cxb x bary =
     (if neg_bary bary then
        (let bary' = bary_at ts (x - ix (rt_orig_v0 params)) cy in
         if x + 128 > cxb then None else fix_start params ts cy cxb (x + 128) bary')
      else Some bary)"
  by pat_completeness auto
termination
  by (relation "measure (\<lambda>(params, ts, cy, cxb, x, bary). nat (cxb - x + 1))") auto

declare fix_start.simps [simp del]

function fix_end :: "raster_triangle_t \<Rightarrow> tri_setup \<Rightarrow> int \<Rightarrow> int \<Rightarrow> int \<Rightarrow> brvec3
    \<Rightarrow> brvec3 option" where
  "fix_end params ts cy cxa x bary =
     (if neg_bary bary then
        (let bary' = bary_at ts (x - ix (rt_orig_v0 params)) cy in
         if x - 128 < cxa then None else fix_end params ts cy cxa (x - 128) bary')
      else Some bary)"
  by pat_completeness auto
termination
  by (relation "measure (\<lambda>(params, ts, cy, cxa, x, bary). nat (x - cxa + 1))") auto

declare fix_end.simps [simp del]

text \<open>The remapping through \<open>bary0\<close>, \<open>bary1\<close>, \<open>bary2\<close> (br.h:1186-1193).\<close>

definition remap_bary :: "raster_triangle_t \<Rightarrow> brvec3 \<Rightarrow> brvec3" where
  "remap_bary params v =
     (let bx = v3x v; by' = v3y v; bz = v3z v in
      vec3 (fadd (fadd (fmul bx (v3x (rt_bary0 params))) (fmul by' (v3x (rt_bary1 params))))
                 (fmul bz (v3x (rt_bary2 params))))
           (fadd (fadd (fmul bx (v3y (rt_bary0 params))) (fmul by' (v3y (rt_bary1 params))))
                 (fmul bz (v3y (rt_bary2 params))))
           (fadd (fadd (fmul bx (v3z (rt_bary0 params))) (fmul by' (v3z (rt_bary1 params))))
                 (fmul bz (v3z (rt_bary2 params)))))"

text \<open>\<open>((uint32_t)c0 * bary.x >> 16) + (c1 * bary.y >> 16) + (c2 * bary.z >> 16)\<close> in
  32 bits, and the same in 64 bits stored to a \<open>uint32_t\<close> for texel coordinates.\<close>

definition interp32 :: "u32 \<Rightarrow> u32 \<Rightarrow> u32 \<Rightarrow> brvec3ui \<Rightarrow> u32" where
  "interp32 c0 c1 c2 bary =
     drop_bit 16 (c0 * u3x bary) + drop_bit 16 (c1 * u3y bary) + drop_bit 16 (c2 * u3z bary)"

definition interp64 :: "u32 \<Rightarrow> u32 \<Rightarrow> u32 \<Rightarrow> brvec3ui \<Rightarrow> u32" where
  "interp64 c0 c1 c2 bary =
     ucast (drop_bit 16 ((ucast c0 :: u64) * ucast (u3x bary))
          + drop_bit 16 ((ucast c1 :: u64) * ucast (u3y bary))
          + drop_bit 16 ((ucast c2 :: u64) * ucast (u3z bary)))"

text \<open>One pass of the pixel loop's body (br.h:1248-1346), without the increments that
  every path through it ends with.\<close>

definition tri_fragment :: "env \<Rightarrow> brcontext \<Rightarrow> raster_triangle_t \<Rightarrow> tri_setup \<Rightarrow> int \<Rightarrow> int
    \<Rightarrow> u32 \<Rightarrow> brvec3ui \<Rightarrow> fbuf \<Rightarrow> fbuf" where
  "tri_fragment e c params ts x y pixel_index linear_bary fb =
     (let bary = (if persp_corr c
                  then tri_persp_correct e linear_bary
                         (ts_inv_v0_w ts) (ts_inv_v1_w ts) (ts_inv_v2_w ts)
                  else linear_bary);
          flt_bary = vec3 (fmul (fu32 (u3x bary)) INV_65536) (fmul (fu32 (u3y bary)) INV_65536)
                          (fmul (fu32 (u3z bary)) INV_65536);
          depth = to_s64 e
                    (fadd (fadd (fmul (float_of_int (rt_z0 params)) (v3x flt_bary))
                                (fmul (float_of_int (rt_z1 params)) (v3y flt_bary)))
                          (fmul (float_of_int (rt_z2 params)) (v3z flt_bary)))
      in if depth_rejects e c pixel_index depth fb then fb
         else
           let rgba = \<lparr>ux = interp32 (ux (rt_rgba0 params)) (ux (rt_rgba1 params))
                              (ux (rt_rgba2 params)) bary,
                       uy = interp32 (uy (rt_rgba0 params)) (uy (rt_rgba1 params))
                              (uy (rt_rgba2 params)) bary,
                       uz = interp32 (uz (rt_rgba0 params)) (uz (rt_rgba1 params))
                              (uz (rt_rgba2 params)) bary,
                       uw = interp32 (uw (rt_rgba0 params)) (uw (rt_rgba1 params))
                              (uw (rt_rgba2 params)) bary\<rparr>;
               tx = (if rt_complete_texture_unit params
                     then interp64 (u2x (rt_tx0 params)) (u2x (rt_tx1 params))
                            (u2x (rt_tx2 params)) bary else 0);
               ty = (if rt_complete_texture_unit params
                     then interp64 (u2y (rt_tx0 params)) (u2y (rt_tx1 params))
                            (u2y (rt_tx2 params)) bary else 0);
               tx = drop_bit 16 tx;
               ty = drop_bit 16 ty;
               textured = (texture c \<and> rt_complete_texture_unit params)
           in if fshader c \<noteq> 0 \<or> textured then
                (let primary = primary_color rgba;
                     secondary =
                       (if textured
                        then get_texel e True tx ty (vec4 (Fin 0) (Fin 0) (Fin 0) (Fin 0))
                               (rt_texture params) (rt_texture_format params)
                               (rt_texture_width params) (rt_texture_height params)
                               (rt_texture_compressed params)
                        else vec4 (Fin 0) (Fin 0) (Fin 0) (Fin 0))
                 in if fshader c \<noteq> 0 then
                      (let res = fragment_pass e c primary secondary
                                   (if textured then secondary else primary)
                                   (vec3 (fmul (fu32 (u3x linear_bary)) INV_65536)
                                         (fmul (fu32 (u3y linear_bary)) INV_65536)
                                         (fmul (fu32 (u3z linear_bary)) INV_65536))
                                   flt_bary \<lparr>ix = x, iy = y\<rparr>
                       in if snd res then fb
                          else write_fragment e c pixel_index (color_16_16 e (fst res)) depth fb)
                    else write_fragment e c pixel_index (color_16_16 e secondary) depth fb)
              else write_fragment e c pixel_index rgba depth fb)"

text \<open>The pixel loop \<open>for(int x = sx1; x <= sx2; x += 1)\<close> (br.h:1240-1352).\<close>

function tri_pixels :: "env \<Rightarrow> brcontext \<Rightarrow> raster_triangle_t \<Rightarrow> tri_setup \<Rightarrow> int \<Rightarrow> int \<Rightarrow> int
    \<Rightarrow> int \<times> int \<times> int \<Rightarrow> int \<Rightarrow> u32 \<Rightarrow> brvec3ui \<Rightarrow> fbuf \<Rightarrow> fbuf" where
  "tri_pixels e c params ts y cxb sxb inc x pixel_index linear_bary fb =
     (if x \<le> sxb then
        (if rb_width c \<le> u32_of x then fb
         else if cxb \<le> x * 256 then fb
         else tri_pixels e c params ts y cxb sxb inc (x + 1) (pixel_index + 1)
                \<lparr>u3x = u3x linear_bary + u32_of (fst inc),
                 u3y = u3y linear_bary + u32_of (fst (snd inc)),
                 u3z = u3z linear_bary + u32_of (snd (snd inc))\<rparr>
                (tri_fragment e c params ts x y pixel_index linear_bary fb))
      else fb)"
  by pat_completeness auto
termination
  by (relation "measure (\<lambda>(e, c, params, ts, y, cxb, sxb, inc, x, pixel_index, linear_bary, fb).
        nat (sxb + 1 - x))") auto

declare tri_pixels.simps [simp del]

text \<open>One scanline (br.h:1114-1352; the flat-top half repeats it at 1385-1623).  Its first
  part (br.h:1114-1239) turns the 24.8 left and right ends \<open>curfx1\<close>, \<open>curfx2\<close> into what the
  pixel loop starts from: the right end \<open>cx2\<close>, the last column \<open>sx2\<close>, the three
  barycentric increments, the first column \<open>sx1\<close>, the first pixel index and the first
  barycentric coordinates; \<open>None\<close> when the scanline is skipped.\<close>

definition scanline_setup :: "env \<Rightarrow> brcontext \<Rightarrow> raster_triangle_t \<Rightarrow> tri_setup \<Rightarrow> int \<Rightarrow> int
    \<Rightarrow> int \<Rightarrow> (int \<times> int \<times> (int \<times> int \<times> int) \<times> int \<times> u32 \<times> brvec3ui) option" where
  "scanline_setup e c params ts y curfx1 curfx2 =
     (let cxa = min curfx1 curfx2;
          cxb = max curfx1 curfx2;
          sxa = (cxa - 128) div 256;
          sxb = (cxb + 128) div 256
      in if sxa > sxb then None
         else
           let sxa = (if sxa < 0 then 0 else sxa) in
           if rb_width c \<le> u32_of sxa then None
           else
             let slength = (sxb - sxa) + 1;
                 cy = y * 256 - iy (rt_orig_v0 params);
                 cx1 = (if sxa \<noteq> sxb then (sxa * 256 + 256) - ix (rt_orig_v0 params)
                        else cxa - ix (rt_orig_v0 params))
             in case fix_start params ts cy cxb (sxa * 256 + 384) (bary_at ts cx1 cy) of
                  None \<Rightarrow> None
                | Some s1 \<Rightarrow>
                   (let bary_s1 = remap_bary params s1;
                        cx2 = (if sxa \<noteq> sxb then (sxb * 256 - 256) - ix (rt_orig_v0 params)
                               else cxb - ix (rt_orig_v0 params))
                    in case fix_end params ts cy cxa (sxb * 256 - 384) (bary_at ts cx2 cy) of
                         None \<Rightarrow> None
                       | Some s2 \<Rightarrow>
                          (let bary_s2 = remap_bary params s2;
                               inc_bx = to_s32 e (fdivide (fsub (v3x bary_s2) (v3x bary_s1))
                                                          (float_of_int slength));
                               inc_by = to_s32 e (fdivide (fsub (v3y bary_s2) (v3y bary_s1))
                                                          (float_of_int slength));
                               inc_bz = to_s32 e (fdivide (fsub (v3z bary_s2) (v3z bary_s1))
                                                          (float_of_int slength));
                               pixel_index = u32_of y * rb_width c + u32_of sxa;
                               linear_bary = \<lparr>u3x = to_u32 e (v3x bary_s1),
                                              u3y = to_u32 e (v3y bary_s1),
                                              u3z = to_u32 e (v3z bary_s1)\<rparr>
                           in Some (cxb, sxb, (inc_bx, inc_by, inc_bz), sxa, pixel_index,
                                    linear_bary))))"

definition tri_scanline :: "env \<Rightarrow> brcontext \<Rightarrow> raster_triangle_t \<Rightarrow> tri_setup \<Rightarrow> int \<Rightarrow> int
    \<Rightarrow> int \<Rightarrow> fbuf \<Rightarrow> fbuf" where
  "tri_scanline e c params ts y curfx1 curfx2 fb =
     (case scanline_setup e c params ts y curfx1 curfx2 of
        None \<Rightarrow> fb
      | Some (cxb, sxb, inc, sxa, pixel_index, linear_bary) \<Rightarrow>
          tri_pixels e c params ts y cxb sxb inc sxa pixel_index linear_bary fb)"

text \<open>The row loops of the flat-bottom half (top down, br.h:1103-1356) and of the
  flat-top half (bottom up, br.h:1374-1627).\<close>

function flat_bottom_rows :: "env \<Rightarrow> brcontext \<Rightarrow> raster_triangle_t \<Rightarrow> tri_setup \<Rightarrow> int
    \<Rightarrow> int \<Rightarrow> int \<Rightarrow> int \<Rightarrow> int \<Rightarrow> int \<Rightarrow> fbuf \<Rightarrow> fbuf" where
  "flat_bottom_rows e c params ts y1_int invslope1 invslope2 y curfx1 curfx2 fb =
     (if y \<le> y1_int then
        (if y < 0 then
           flat_bottom_rows e c params ts y1_int invslope1 invslope2 (y + 1)
             (curfx1 + invslope1) (curfx2 + invslope2) fb
         else if rb_height c \<le> u32_of y then fb
         else
           flat_bottom_rows e c params ts y1_int invslope1 invslope2 (y + 1)
             (curfx1 + invslope1) (curfx2 + invslope2)
             (tri_scanline e c params ts y curfx1 curfx2 fb))
      else fb)"
  by pat_completeness auto
termination
  by (relation "measure (\<lambda>(e, c, params, ts, y1_int, invslope1, invslope2, y, curfx1, curfx2, fb).
        nat (y1_int + 1 - y))") auto

declare flat_bottom_rows.simps [simp del]

function flat_top_rows :: "env \<Rightarrow> brcontext \<Rightarrow> raster_triangle_t \<Rightarrow> tri_setup \<Rightarrow> int
    \<Rightarrow> int \<Rightarrow> int \<Rightarrow> int \<Rightarrow> int \<Rightarrow> int \<Rightarrow> fbuf \<Rightarrow> fbuf" where
  "flat_top_rows e c params ts y0_int invslope1 invslope2 y curfx1 curfx2 fb =
     (if y > y0_int then
        (if y < 0 then fb
         else if rb_height c \<le> u32_of y then
           flat_top_rows e c params ts y0_int invslope1 invslope2 (y - 1)
             (curfx1 - invslope1) (curfx2 - invslope2) fb
         else
           flat_top_rows e c params ts y0_int invslope1 invslope2 (y - 1)
             (curfx1 - invslope1) (curfx2 - invslope2)
             (tri_scanline e c params ts y curfx1 curfx2 fb))
      else fb)"
  by pat_completeness auto
termination
  by (relation "measure (\<lambda>(e, c, params, ts, y0_int, invslope1, invslope2, y, curfx1, curfx2, fb).
        nat (y - y0_int))") auto

declare flat_top_rows.simps [simp del]

text \<open>\<open>_raster_triangle\<close>: the flat-bottom half, then the flat-top half.\<close>

definition raster_triangle :: "env \<Rightarrow> brcontext \<Rightarrow> raster_triangle_t \<Rightarrow> fbuf \<Rightarrow> fbuf" where
  "raster_triangle e c params fb =
     (let xa = to_s32 e (fmul (rt_x0 params) (Fin 256));
          xb = to_s32 e (fmul (rt_x1 params) (Fin 256));
          xc = to_s32 e (fmul (rt_x2 params) (Fin 256));
          ya = to_s32 e (fmul (rt_y0 params) (Fin 256));
          yb = to_s32 e (fmul (rt_y1 params) (Fin 256));
          yc = to_s32 e (fmul (rt_y2 params) (Fin 256));
          ts = tri_setup_of c params;
          fb = (if yb = yc \<and> xb \<noteq> xc then
                  flat_bottom_rows e c params ts (yb div 256)
                    (br_idiv (ix (rt_orig_v1 params) - ix (rt_orig_v0 params))
                             ((iy (rt_orig_v1 params) - iy (rt_orig_v0 params)) div 256))
                    (br_idiv (ix (rt_orig_v2 params) - ix (rt_orig_v0 params))
                             ((iy (rt_orig_v2 params) - iy (rt_orig_v0 params)) div 256))
                    (ya div 256 + 1) xa xa fb
                else fb)
      in if ya = yb \<and> xa \<noteq> xb then
           flat_top_rows e c params ts
             (if rt_draw_top params then ya div 256 - 1 else ya div 256)
             (br_idiv (ix (rt_orig_v2 params) - ix (rt_orig_v0 params))
                      ((iy (rt_orig_v2 params) - iy (rt_orig_v0 params)) div 256))
             (br_idiv (ix (rt_orig_v2 params) - ix (rt_orig_v1 params))
                      ((iy (rt_orig_v2 params) - iy (rt_orig_v1 params)) div 256))
             (yc div 256) xc xc fb
         else fb)"

text \<open>\<open>_split_raster_triangle\<close>: sort by y (positions, remap vectors and original
  positions move together; colours, depths and w stay), then rasterize one or two
  halves.\<close>

definition swap_v1_v2 :: "raster_triangle_t \<Rightarrow> raster_triangle_t" where
  "swap_v1_v2 t =
     t\<lparr>rt_x1 := rt_x2 t, rt_x2 := rt_x1 t, rt_y1 := rt_y2 t, rt_y2 := rt_y1 t,
       rt_bary1 := rt_bary2 t, rt_bary2 := rt_bary1 t,
       rt_orig_v1 := rt_orig_v2 t, rt_orig_v2 := rt_orig_v1 t\<rparr>"

definition swap_v0_v1 :: "raster_triangle_t \<Rightarrow> raster_triangle_t" where
  "swap_v0_v1 t =
     t\<lparr>rt_x0 := rt_x1 t, rt_x1 := rt_x0 t, rt_y0 := rt_y1 t, rt_y1 := rt_y0 t,
       rt_bary0 := rt_bary1 t, rt_bary1 := rt_bary0 t,
       rt_orig_v0 := rt_orig_v1 t, rt_orig_v1 := rt_orig_v0 t\<rparr>"

definition sort_by_y :: "raster_triangle_t \<Rightarrow> raster_triangle_t" where
  "sort_by_y t =
     (let t = (if flt_lt (rt_y2 t) (rt_y1 t) then swap_v1_v2 t else t);
          t = (if flt_lt (rt_y1 t) (rt_y0 t) then swap_v0_v1 t else t)
      in if flt_lt (rt_y2 t) (rt_y1 t) then swap_v1_v2 t else t)"

definition split_raster_triangle :: "env \<Rightarrow> brcontext \<Rightarrow> raster_triangle_t \<Rightarrow> fbuf \<Rightarrow> fbuf" where
  "split_raster_triangle e c triangle fb =
     (let t = (sort_by_y triangle)\<lparr>rt_draw_top := False\<rparr> in
      if flt_eq (rt_y1 t) (rt_y2 t) then raster_triangle e c t fb
      else if flt_eq (rt_y0 t) (rt_y1 t) then raster_triangle e c (t\<lparr>rt_draw_top := True\<rparr>) fb
      else
        let vx = fadd (rt_x0 t)
                   (fmul (fdivide (fsub (rt_y1 t) (rt_y0 t)) (fsub (rt_y2 t) (rt_y0 t)))
                         (fsub (rt_x2 t) (rt_x0 t)));
            vy = rt_y1 t;
            top = t\<lparr>rt_x2 := vx, rt_y2 := vy\<rparr>;
            second_half = t\<lparr>rt_x0 := rt_x1 t, rt_y0 := rt_y1 t, rt_x1 := vx, rt_y1 := vy\<rparr>
        in raster_triangle e c second_half (raster_triangle e c top fb))"

section \<open>Clipper (br.h:1732-1874, 1956-2020)\<close>

definition in_frustum :: "brvec4 \<Rightarrow> bool" where
  "in_frustum v =
     (flt_le (fneg (v4w v)) (v4x v) \<and> flt_le (v4x v) (v4w v) \<and>
      flt_le (fneg (v4w v)) (v4y v) \<and> flt_le (v4y v) (v4w v) \<and>
      flt_le (fneg (v4w v)) (v4z v) \<and> flt_le (v4z v) (v4w v))"

definition plane_dot :: "nat \<Rightarrow> brvec4 \<Rightarrow> cfloat" where
  "plane_dot plane v =
     (if plane = 0 then fadd (v4x v) (v4w v)
      else if plane = 1 then fadd (fneg (v4x v)) (v4w v)
      else if plane = 2 then fadd (v4y v) (v4w v)
      else if plane = 3 then fadd (fneg (v4y v)) (v4w v)
      else if plane = 4 then fadd (v4z v) (v4w v)
      else if plane = 5 then fadd (fneg (v4w v)) (v4w v)
      else Fin 0)"

definition get_outcode :: "brvec4 \<Rightarrow> u8" where
  "get_outcode v =
     (if flt_lt (v4x v) (fneg (v4w v)) then 1 else 0) OR
     (if flt_gt (v4x v) (v4w v) then 2 else 0) OR
     (if flt_lt (v4y v) (fneg (v4w v)) then 4 else 0) OR
     (if flt_gt (v4y v) (v4w v) then 8 else 0) OR
     (if flt_lt (v4z v) (fneg (v4w v)) then 16 else 0) OR
     (if flt_gt (v4z v) (v4w v) then 32 else 0)"

definition lerp :: "brvec4 \<Rightarrow> brvec4 \<Rightarrow> cfloat \<Rightarrow> brvec4" where
  "lerp a b t =
     (let t1 = fsub (Fin 1) t in
      vec4 (fadd (fmul t1 (v4x a)) (fmul t (v4x b))) (fadd (fmul t1 (v4y a)) (fmul t (v4y b)))
           (fadd (fmul t1 (v4z a)) (fmul t (v4z b))) (fadd (fmul t1 (v4w a)) (fmul t (v4w b))))"

text \<open>The file-scope variables \<open>old_pos\<close> and \<open>old_outcode\<close> of the clipper; they keep
  their values from one call to the next.\<close>

record clip_globals =
  old_pos :: brvec4
  old_outcode :: u8

text \<open>The loop over the six planes in \<open>clipper\<close> (br.h:1816-1831), on the pair
  \<open>(aold, anew)\<close>.\<close>

definition clipper_plane :: "clip_globals \<Rightarrow> brvec4 \<Rightarrow> u8 \<Rightarrow> nat \<Rightarrow> cfloat \<times> cfloat
    \<Rightarrow> cfloat \<times> cfloat" where
  "clipper_plane g v msk i acc =
     (if msk AND push_bit i 1 \<noteq> 0 then
        (let aold = plane_dot i (old_pos g);
             anew = plane_dot i v;
             alpha = br_fdiv aold (fsub aold anew)
         in if old_outcode g AND push_bit i 1 \<noteq> 0
            then (if flt_lt aold alpha then (alpha, anew) else (aold, anew))
            else if flt_gt anew alpha then (aold, alpha) else (aold, anew))
      else acc)"

text \<open>\<open>clipper(false, v)\<close> and \<open>clipper(true, v)\<close>; the second also yields what it leaves
  in \<open>*result_old\<close> and \<open>*result_new\<close>, which hold \<open>a\<close> and \<open>b\<close> before.\<close>

definition clipper_move :: "clip_globals \<Rightarrow> brvec4 \<Rightarrow> clip_globals" where
  "clipper_move g v =
     (if get_outcode v = 0 then g\<lparr>old_pos := v, old_outcode := get_outcode v\<rparr> else g)"

definition clipper_draw :: "clip_globals \<Rightarrow> brvec4 \<Rightarrow> brvec4 \<Rightarrow> brvec4
    \<Rightarrow> clip_globals \<times> brvec4 \<times> brvec4" where
  "clipper_draw g v a b =
     (let new_outcode = get_outcode v;
          res =
            (if new_outcode AND old_outcode g = 0 then
               (let msk = new_outcode OR old_outcode g in
                if msk = 0 then (g, old_pos g, v)
                else
                  let acc = foldl (\<lambda>acc i. clipper_plane g v msk i acc) (Fin 0, Fin 0)
                              [0, 1, 2, 3, 4, 5];
                      g1 = (if old_outcode g \<noteq> 0 then
                              (let lerped = lerp (old_pos g) v (fst acc)
                               in g\<lparr>old_pos := lerped, old_outcode := get_outcode lerped\<rparr>)
                            else g)
                  in if new_outcode \<noteq> 0 then
                       (let lerped = lerp (old_pos g1) v (snd acc)
                        in (g1\<lparr>old_pos := lerped, old_outcode := get_outcode lerped\<rparr>,
                            old_pos g1, lerped))
                     else (g1\<lparr>old_pos := v, old_outcode := get_outcode v\<rparr>, old_pos g1, v))
             else (g, a, b))
      in ((fst res)\<lparr>old_outcode := new_outcode, old_pos := v\<rparr>, snd res))"

definition clip_line :: "clip_globals \<Rightarrow> brvec4 \<Rightarrow> brvec4 \<Rightarrow> clip_globals \<times> brvec4 \<times> brvec4" where
  "clip_line g a b =
     (if \<not> in_frustum a \<and> \<not> in_frustum b then (g, a, b)
      else if in_frustum a \<and> in_frustum b then (g, a, b)
      else clipper_draw (clipper_move g a) b a b)"

text \<open>\<open>clip_triangle\<close>: one step of its loop, on (globals, output list, previous
  vertex), and the whole walk over the input vertices.\<close>

definition clip_triangle_step :: "clip_globals \<times> brvec4 list \<times> brvec4 \<Rightarrow> brvec4
    \<Rightarrow> clip_globals \<times> brvec4 list \<times> brvec4" where
  "clip_triangle_step st current_vertex =
     (let g = fst st; out = fst (snd st); previous_vertex = snd (snd st);
          previous_inside = in_frustum previous_vertex;
          current_inside = in_frustum current_vertex;
          res = (if current_inside \<noteq> previous_inside then
                   (let r = clip_line g previous_vertex current_vertex;
                        a = fst (snd r); b = snd (snd r);
                        out = (if previous_inside then out @ [b] else out);
                        out = (if current_inside then out @ [a] else out)
                    in (fst r, out))
                 else (g, out));
          out = (if current_inside then snd res @ [current_vertex] else snd res)
      in (fst res, out, current_vertex))"

definition clip_triangle :: "clip_globals \<Rightarrow> brvec4 list \<Rightarrow> clip_globals \<times> brvec4 list" where
  "clip_triangle g verts =
     (let st = foldl clip_triangle_step (g, [], last verts) verts
      in (fst st, fst (snd st)))"

section \<open>Primitive preprocessor (br.h:2055-2295, 2543-2676, 2844-2900)\<close>

record triangle_t =
  tr_v0 :: brvec4
  tr_v1 :: brvec4
  tr_v2 :: brvec4
  tr_rgba0 :: brvec4
  tr_rgba1 :: brvec4
  tr_rgba2 :: brvec4
  tr_tcoords0 :: brvec2
  tr_tcoords1 :: brvec2
  tr_tcoords2 :: brvec2
  tr_parent_orig_v0 :: brvec2i
  tr_parent_orig_v1 :: brvec2i
  tr_parent_orig_v2 :: brvec2i

definition complete_texture_unit :: "brcontext \<Rightarrow> bool" where
  "complete_texture_unit c =
     (let tunit = unat (texture_unit c) in
      textures c tunit \<noteq> 0 \<and> texture_widths c tunit > 0 \<and> texture_heights c tunit > 0 \<and>
      is_pixel_format (texture_formats c tunit))"

text \<open>\<open>u * (texture_width - 1) * 65536\<close> and \<open>(1.0f - v) * (texture_height - 1) * 65536\<close>,
  stored in \<open>uint32_t\<close>.\<close>

definition texel_coords :: "env \<Rightarrow> brcontext \<Rightarrow> brvec2 \<Rightarrow> brvec2ui" where
  "texel_coords e c tc =
     (let tunit = unat (texture_unit c) in
      \<lparr>u2x = to_u32 e (fmul (fmul (v2x tc) (fu32 (texture_widths c tunit - 1))) (Fin 65536)),
       u2y = to_u32 e (fmul (fmul (fsub (Fin 1) (v2y tc)) (fu32 (texture_heights c tunit - 1)))
                            (Fin 65536))\<rparr>)"

text \<open>The white radius-2 point \<open>_process_triangle\<close> and \<open>_process_line\<close> raster at each
  vertex before the primitive itself (br.h:2229-2250, 2659-2673).\<close>

definition vertex_marker :: "cfloat \<Rightarrow> cfloat \<Rightarrow> raster_point_t" where
  "vertex_marker x y =
     \<lparr>rp_x = x, rp_y = y, rp_rgba = \<lparr>ux = 65536, uy = 65536, uz = 65536, uw = 65536\<rparr>,
      rp_r = 2, rp_z = 0, rp_w = Fin 1\<rparr>"

definition orig_of :: "env \<Rightarrow> cfloat \<Rightarrow> cfloat \<Rightarrow> brvec2i" where
  "orig_of e x y = \<lparr>ix = to_s32 e (fmul x (Fin 256)), iy = to_s32 e (fmul y (Fin 256))\<rparr>"

text \<open>
  The part of \<open>_process_triangle\<close> after the clipping decisions (br.h:2170-2294);
  \<open>parent\<close> is the triangle \<open>triangle->parent\<close> points to, if any.
\<close>

definition process_triangle_raster :: "env \<Rightarrow> brcontext \<Rightarrow> triangle_t \<Rightarrow> triangle_t option
    \<Rightarrow> fbuf \<Rightarrow> fault + fbuf" where
  "process_triangle_raster e c triangle parent fb =
     (let va = scale_z_step c (persp_divide c (tr_v0 triangle));
          vb = scale_z_step c (persp_divide c (tr_v1 triangle));
          vc = scale_z_step c (persp_divide c (tr_v2 triangle));
          complete = complete_texture_unit c;
          tunit = unat (texture_unit c);
          xa = raster_x c va; ya = raster_y c va;
          xb = raster_x c vb; yb = raster_y c vb;
          xc = raster_x c vc; yc = raster_y c vc;
          va = (case parent of None \<Rightarrow> va
                | Some pt \<Rightarrow> va\<lparr>v4z := v4z (tr_v0 pt), v4w := v4w (tr_v0 pt)\<rparr>);
          vb = (case parent of None \<Rightarrow> vb
                | Some pt \<Rightarrow> vb\<lparr>v4z := v4z (tr_v1 pt), v4w := v4w (tr_v1 pt)\<rparr>);
          vc = (case parent of None \<Rightarrow> vc
                | Some pt \<Rightarrow> vc\<lparr>v4z := v4z (tr_v2 pt), v4w := v4w (tr_v2 pt)\<rparr>);
          rt = \<lparr>rt_x0 = xa, rt_x1 = xb, rt_x2 = xc, rt_y0 = ya, rt_y1 = yb, rt_y2 = yc,
                rt_orig_v0 = (case parent of None \<Rightarrow> orig_of e xa ya
                              | Some pt \<Rightarrow> tr_parent_orig_v0 pt),
                rt_orig_v1 = (case parent of None \<Rightarrow> orig_of e xb yb
                              | Some pt \<Rightarrow> tr_parent_orig_v1 pt),
                rt_orig_v2 = (case parent of None \<Rightarrow> orig_of e xc yc
                              | Some pt \<Rightarrow> tr_parent_orig_v2 pt),
                rt_bary0 = vec3 (Fin 1) (Fin 0) (Fin 0),
                rt_bary1 = vec3 (Fin 0) (Fin 1) (Fin 0),
                rt_bary2 = vec3 (Fin 0) (Fin 0) (Fin 1),
                rt_z0 = convert_depth e c (v4z va),
                rt_z1 = convert_depth e c (v4z vb),
                rt_z2 = convert_depth e c (v4z vc),
                rt_w0 = v4w va, rt_w1 = v4w vb, rt_w2 = v4w vc,
                rt_rgba0 = color_16_16 e (tr_rgba0 triangle),
                rt_rgba1 = color_16_16 e (tr_rgba1 triangle),
                rt_rgba2 = color_16_16 e (tr_rgba2 triangle),
                rt_tx0 = (if complete then texel_coords e c (tr_tcoords0 triangle)
                          else \<lparr>u2x = 0, u2y = 0\<rparr>),
                rt_tx1 = (if complete then texel_coords e c (tr_tcoords1 triangle)
                          else \<lparr>u2x = 0, u2y = 0\<rparr>),
                rt_tx2 = (if complete then texel_coords e c (tr_tcoords2 triangle)
                          else \<lparr>u2x = 0, u2y = 0\<rparr>),
                rt_draw_top = False,
                rt_texture = (if complete then textures c tunit else 0),
                rt_texture_width = (if complete then texture_widths c tunit else 0),
                rt_texture_height = (if complete then texture_heights c tunit else 0),
                rt_texture_format = (if complete then texture_formats c tunit else 0),
                rt_texture_compressed =
                  (if complete then texture_compressed_booleans c tunit else False),
                rt_complete_texture_unit = complete\<rparr>
      in case raster_point e c (vertex_marker xa ya) fb of
           Inl err \<Rightarrow> Inl err
         | Inr fb \<Rightarrow>
            (case raster_point e c (vertex_marker xb yb) fb of
               Inl err \<Rightarrow> Inl err
             | Inr fb \<Rightarrow>
                (case raster_point e c (vertex_marker xc yc) fb of
                   Inl err \<Rightarrow> Inl err
                 | Inr fb \<Rightarrow> Inr (split_raster_triangle e c rt fb))))"

text \<open>The fields a raster triangle does not use when the texture unit is incomplete
  (\<open>tx0..tx2\<close> and the texture snapshot) are left unassigned by the source; they are 0
  above.\<close>

definition triangle_cw :: "triangle_t \<Rightarrow> bool" where
  "triangle_cw t =
     flt_gt (fsub (fmul (fsub (v4x (tr_v1 t)) (v4x (tr_v0 t))) (fsub (v4y (tr_v2 t)) (v4y (tr_v0 t))))
                  (fmul (fsub (v4y (tr_v1 t)) (v4y (tr_v0 t))) (fsub (v4x (tr_v2 t)) (v4x (tr_v0 t)))))
            (Fin 0)"

text \<open>The fan of sub-triangles \<open>(verts[0], verts[i], verts[i+1])\<close>, \<open>1 \<le> i < count - 1\<close>.\<close>

fun fan :: "brvec4 \<Rightarrow> brvec4 list \<Rightarrow> (brvec4 \<times> brvec4 \<times> brvec4) list" where
  "fan initial (p # q # rest) = (initial, p, q) # fan initial (q # rest)"
| "fan initial _ = []"

fun process_children :: "env \<Rightarrow> brcontext \<Rightarrow> triangle_t \<Rightarrow> triangle_t
    \<Rightarrow> (brvec4 \<times> brvec4 \<times> brvec4) list \<Rightarrow> fbuf \<Rightarrow> fault + fbuf" where
  "process_children e c child parent [] fb = Inr fb"
| "process_children e c child parent (t # ts) fb =
     (case process_triangle_raster e c
             (child\<lparr>tr_v0 := fst t, tr_v1 := fst (snd t), tr_v2 := snd (snd t)\<rparr>)
             (Some parent) fb of
        Inl err \<Rightarrow> Inl err
      | Inr fb \<Rightarrow> process_children e c child parent ts fb)"

text \<open>\<open>_process_triangle\<close> for a triangle handed over by a draw call (\<open>parent\<close> null).\<close>

definition process_triangle :: "env \<Rightarrow> brcontext \<Rightarrow> clip_globals \<Rightarrow> triangle_t \<Rightarrow> fbuf
    \<Rightarrow> fault + clip_globals \<times> fbuf" where
  "process_triangle e c g triangle fb =
     (if cull c \<and> (triangle_cw triangle \<and> cull_winding c = BR_CW \<or>
                  \<not> triangle_cw triangle \<and> cull_winding c = BR_CCW)
      then Inr (g, fb)
      else if clip c \<and> \<not> in_frustum (tr_v0 triangle) \<and> \<not> in_frustum (tr_v1 triangle) \<and>
              \<not> in_frustum (tr_v2 triangle)
      then Inr (g, fb)
      else if clip c \<and> (\<not> in_frustum (tr_v0 triangle) \<or> \<not> in_frustum (tr_v1 triangle) \<or>
                         \<not> in_frustum (tr_v2 triangle))
      then
        (let va = scale_z_step c (persp_divide c (tr_v0 triangle));
             vb = scale_z_step c (persp_divide c (tr_v1 triangle));
             vc = scale_z_step c (persp_divide c (tr_v2 triangle));
             parent = triangle\<lparr>tr_v0 := va, tr_v1 := vb, tr_v2 := vc,
                        tr_parent_orig_v0 := orig_of e (raster_x c va) (raster_y c va),
                        tr_parent_orig_v1 := orig_of e (raster_x c vb) (raster_y c vb),
                        tr_parent_orig_v2 := orig_of e (raster_x c vc) (raster_y c vc)\<rparr>;
             clipped = clip_triangle g [tr_v0 triangle, tr_v1 triangle, tr_v2 triangle]
         in case snd clipped of
              [] \<Rightarrow> Inr (fst clipped, fb)
            | initial # rest \<Rightarrow>
               (case process_children e c triangle parent (fan initial rest) fb of
                  Inl err \<Rightarrow> Inl err
                | Inr fb \<Rightarrow> Inr (fst clipped, fb)))
      else
        (case process_triangle_raster e c triangle None fb of
           Inl err \<Rightarrow> Inl err
         | Inr fb \<Rightarrow> Inr (g, fb)))"

record point_t =
  pt_pos :: brvec4
  pt_rgba :: brvec4

definition point_clipped :: "brvec4 \<Rightarrow> bool" where
  "point_clipped v =
     (flt_gt (fneg (v4w v)) (v4x v) \<or> flt_gt (v4x v) (v4w v) \<or>
      flt_gt (fneg (v4w v)) (v4y v) \<or> flt_gt (v4y v) (v4w v) \<or>
      flt_gt (fneg (v4w v)) (v4z v) \<or> flt_gt (v4z v) (v4w v))"

text \<open>\<open>_process_point\<close>, split into the raster point it builds and the call of
  \<open>_raster_point\<close> on it.\<close>

definition point_to_raster :: "env \<Rightarrow> brcontext \<Rightarrow> point_t \<Rightarrow> raster_point_t" where
  "point_to_raster e c point =
     (let pos = scale_z_step c (persp_divide c (pt_pos point)) in
      \<lparr>rp_x = raster_x c pos, rp_y = raster_y c pos,
       rp_rgba = color_16_16 e (pt_rgba point),
       rp_r = to_u32 e (fadd (point_radius c) (Fin (1 / 2))),
       rp_z = convert_depth e c (v4z pos),
       rp_w = v4w pos\<rparr>)"

definition process_point :: "env \<Rightarrow> brcontext \<Rightarrow> point_t \<Rightarrow> fbuf \<Rightarrow> fault + fbuf" where
  "process_point e c point fb =
     (if clip c \<and> point_clipped (pt_pos point) then Inr fb
      else raster_point e c (point_to_raster e c point) fb)"

record line_t =
  ln_v0 :: brvec4
  ln_v1 :: brvec4
  ln_rgba0 :: brvec4
  ln_rgba1 :: brvec4
  ln_tcoords0 :: brvec2
  ln_tcoords1 :: brvec2

text \<open>
  The head of \<open>_process_line\<close> (br.h:2545-2619): clipping, perspective division and Z
  rescale of the two end points; \<open>None\<close> when the line is rejected.  The rest of the
  function and \<open>_raster_line\<close> measure lengths with \<open>sqrt\<close> and are not modelled.
\<close>

definition line_preprocess :: "brcontext \<Rightarrow> clip_globals \<Rightarrow> line_t \<Rightarrow> (clip_globals \<times> line_t) option"
  where
  "line_preprocess c g line =
     (if clip c \<and> \<not> in_frustum (ln_v0 line) \<and> \<not> in_frustum (ln_v1 line) then None
      else
        let r = (if clip c then clip_line g (ln_v0 line) (ln_v1 line)
                 else (g, ln_v0 line, ln_v1 line))
        in Some (fst r,
                 line\<lparr>ln_v0 := scale_z_step c (persp_divide c (fst (snd r))),
                      ln_v1 := scale_z_step c (persp_divide c (snd (snd r)))\<rparr>))"

section \<open>Concrete inputs\<close>

text \<open>The 2x2 non-compressed R8G8B8A8 texture of scenario 4 of the spec: bytes
  \<open>(255,0,0,0)\<close>, \<open>(0,255,0,0)\<close>, \<open>(0,0,255,0)\<close>, \<open>(255,255,255,255)\<close>, at texture pointer 7.\<close>

definition tex2x2 :: texmem where
  "tex2x2 =
     \<lparr>tex_u8 = (\<lambda>i. if i = 0 \<or> i = 5 \<or> i = 10 \<or> (12 \<le> i \<and> i < 16) then 255 else 0),
      tex_u16 = (\<lambda>i. 0), tex_u32 = (\<lambda>i. 0)\<rparr>"

definition e_tex :: env where
  "e_tex = e0\<lparr>tex_mem := (\<lambda>p. tex2x2)\<rparr>"

definition black :: brvec4 where
  "black = vec4 (Fin 0) (Fin 0) (Fin 0) (Fin 0)"

text \<open>The single-triangle scene of scenario 1 of the spec: a context with its defaults
  (no shaders, no depth buffer, no texture on the active unit, blending off, \<open>FILL\<close>) and
  a 64x64 R8G8B8A8 colour buffer bound, the buffers all zero, and the red triangle.\<close>

definition scene_ctx :: brcontext where
  "scene_ctx = the_ctx (brBindRenderbuffer BR_R8G8B8A8 64 64 1 bound_state)"

definition scene_fb :: fbuf where
  "scene_fb = \<lparr>cbuf = (\<lambda>i. 0), dbuf = (\<lambda>i. 0)\<rparr>"

definition red :: brvec4 where
  "red = vec4 (Fin 1) (Fin 0) (Fin 0) (Fin 1)"

definition scene_triangle :: triangle_t where
  "scene_triangle =
     \<lparr>tr_v0 = vec4 (Fin (- (1 / 2))) (Fin (- (1 / 2))) (Fin 0) (Fin 1),
      tr_v1 = vec4 (Fin (1 / 2)) (Fin (- (1 / 2))) (Fin 0) (Fin 1),
      tr_v2 = vec4 (Fin 0) (Fin (1 / 2)) (Fin 0) (Fin 1),
      tr_rgba0 = red, tr_rgba1 = red, tr_rgba2 = red,
      tr_tcoords0 = \<lparr>v2x = Fin 0, v2y = Fin 0\<rparr>,
      tr_tcoords1 = \<lparr>v2x = Fin 0, v2y = Fin 0\<rparr>,
      tr_tcoords2 = \<lparr>v2x = Fin 0, v2y = Fin 0\<rparr>,
      tr_parent_orig_v0 = \<lparr>ix = 0, iy = 0\<rparr>,
      tr_parent_orig_v1 = \<lparr>ix = 0, iy = 0\<rparr>,
      tr_parent_orig_v2 = \<lparr>ix = 0, iy = 0\<rparr>\<rparr>"

definition g0 :: clip_globals where
  "g0 = \<lparr>old_pos = black, old_outcode = 0\<rparr>"

text \<open>The raster triangle \<open>_process_triangle\<close> builds from the triangle of the scene.  With
  no depth buffer bound \<open>_convert_depth\<close> returns no value: \<open>z\<close> stands for what the three
  depths then hold.  \<open>scene_sorted\<close> is what \<open>_split_raster_triangle\<close> hands on to
  \<open>_raster_triangle\<close>, and \<open>scene_ts\<close> what that computes before its loops.\<close>

definition scene_rt :: "int \<Rightarrow> raster_triangle_t" where
  "scene_rt z =
     \<lparr>rt_x0 = Fin 16, rt_x1 = Fin 48, rt_x2 = Fin 32,
      rt_y0 = Fin 48, rt_y1 = Fin 48, rt_y2 = Fin 16,
      rt_orig_v0 = \<lparr>ix = 4096, iy = 12288\<rparr>,
      rt_orig_v1 = \<lparr>ix = 12288, iy = 12288\<rparr>,
      rt_orig_v2 = \<lparr>ix = 8192, iy = 4096\<rparr>,
      rt_bary0 = vec3 (Fin 1) (Fin 0) (Fin 0),
      rt_bary1 = vec3 (Fin 0) (Fin 1) (Fin 0),
      rt_bary2 = vec3 (Fin 0) (Fin 0) (Fin 1),
      rt_z0 = z, rt_z1 = z, rt_z2 = z,
      rt_w0 = Fin 1, rt_w1 = Fin 1, rt_w2 = Fin 1,
      rt_rgba0 = \<lparr>ux = 65536, uy = 0, uz = 0, uw = 65536\<rparr>,
      rt_rgba1 = \<lparr>ux = 65536, uy = 0, uz = 0, uw = 65536\<rparr>,
      rt_rgba2 = \<lparr>ux = 65536, uy = 0, uz = 0, uw = 65536\<rparr>,
      rt_tx0 = \<lparr>u2x = 0, u2y = 0\<rparr>, rt_tx1 = \<lparr>u2x = 0, u2y = 0\<rparr>,
      rt_tx2 = \<lparr>u2x = 0, u2y = 0\<rparr>,
      rt_draw_top = False, rt_texture = 0, rt_texture_width = 0, rt_texture_height = 0,
      rt_texture_format = 0, rt_texture_compressed = False,
      rt_complete_texture_unit = False\<rparr>"

definition scene_sorted :: "int \<Rightarrow> raster_triangle_t" where
  "scene_sorted z = (sort_by_y (scene_rt z))\<lparr>rt_draw_top := False\<rparr>"

definition scene_ts :: "int \<Rightarrow> tri_setup" where
  "scene_ts z = tri_setup_of scene_ctx (scene_sorted z)"

section \<open>Verified properties\<close>

lemma upd_ctx_twice:
  "upd_ctx f (upd_ctx g s) = upd_ctx (f \<circ> g) s"
  by (simp add: upd_ctx_def)

lemma upd_ctx_same:
  "f (heap s (cur s)) = heap s (cur s) \<Longrightarrow> upd_ctx f s = s"
  by (simp add: upd_ctx_def)

lemma swap_state_fields:
  "cur swap_state = 1" "double_buffer (the_ctx swap_state)"
  "cb (the_ctx swap_state) = 1" "cb2 (the_ctx swap_state) = 0"
  "cb_type (the_ctx swap_state) = BR_R8G8B8A8" "cb2_type (the_ctx swap_state) = 0"
  "rb_width (the_ctx swap_state) = 64" "rb2_width (the_ctx swap_state) = 0"
  "rb_height (the_ctx swap_state) = 64" "rb2_height (the_ctx swap_state) = 0"
  by (simp_all add: swap_state_def brEnable_def guarded_def set_toggle_def
      brBindRenderbuffer_def upd_ctx_def the_ctx_def bound_state_def new_context_def
      is_pixel_format_def Let_def)

text \<open>
  C8.  Two consecutive \<open>brSwapBuffers\<close> calls restore the state, whether double buffering
  is enabled or not and whether a context is bound or not.  One call does nothing when no
  context is bound or double buffering is disabled; otherwise it exchanges, in the bound
  context, the front and back colour pointers, depth pointers, colour formats, depth
  formats, widths and heights, and changes nothing else: not the binding, not another
  context, not another field (putting the twelve fields back gives the context as it was).
\<close>

theorem brSwapBuffers_involution:
  "brSwapBuffers (brSwapBuffers s) = s \<and>
   (cur s = 0 \<or> \<not> double_buffer (the_ctx s) \<longrightarrow> brSwapBuffers s = s) \<and>
   (cur s \<noteq> 0 \<and> double_buffer (the_ctx s) \<longrightarrow>
      (let c = the_ctx s; c' = the_ctx (brSwapBuffers s) in
         cb c' = cb2 c \<and> cb2 c' = cb c \<and> db c' = db2 c \<and> db2 c' = db c \<and>
         cb_type c' = cb2_type c \<and> cb2_type c' = cb_type c \<and>
         db_type c' = db2_type c \<and> db2_type c' = db_type c \<and>
         rb_width c' = rb2_width c \<and> rb2_width c' = rb_width c \<and>
         rb_height c' = rb2_height c \<and> rb2_height c' = rb_height c \<and>
         c' = c\<lparr>cb := cb2 c, db := db2 c, cb_type := cb2_type c, db_type := db2_type c,
                rb_width := rb2_width c, rb_height := rb2_height c,
                cb2 := cb c, db2 := db c, cb2_type := cb_type c, db2_type := db_type c,
                rb2_width := rb_width c, rb2_height := rb_height c\<rparr>) \<and>
      cur (brSwapBuffers s) = cur s \<and>
      (\<forall>p. p \<noteq> cur s \<longrightarrow> heap (brSwapBuffers s) p = heap s p))"
proof (cases "cur s = 0 \<or> \<not> double_buffer (the_ctx s)")
  case True
  then show ?thesis by (auto simp: brSwapBuffers_def)
next
  case False
  then show ?thesis
    by (simp add: brSwapBuffers_def the_ctx_def upd_ctx_def Let_def)
qed

theorem brSwapBuffers_involution_witness:
  "cur swap_state = 1 \<and> double_buffer (the_ctx swap_state) \<and>
   cb (the_ctx swap_state) = 1 \<and> cb2 (the_ctx swap_state) = 0 \<and>
   cb_type (the_ctx swap_state) = BR_R8G8B8A8 \<and> rb_width (the_ctx swap_state) = 64 \<and>
   cb (the_ctx (brSwapBuffers swap_state)) = 0 \<and>
   cb2 (the_ctx (brSwapBuffers swap_state)) = 1 \<and>
   cb_type (the_ctx (brSwapBuffers swap_state)) = 0 \<and>
   cb2_type (the_ctx (brSwapBuffers swap_state)) = BR_R8G8B8A8 \<and>
   rb_width (the_ctx (brSwapBuffers swap_state)) = 0 \<and>
   rb2_width (the_ctx (brSwapBuffers swap_state)) = 64 \<and>
   rb2_height (the_ctx (brSwapBuffers swap_state)) = 64 \<and>
   brSwapBuffers swap_state \<noteq> swap_state \<and>
   brSwapBuffers (brSwapBuffers swap_state) = swap_state \<and>
   brSwapBuffers bound_state = bound_state"
proof -
  note st = swap_state_fields
  note t = brSwapBuffers_involution [of swap_state]
  have inv: "brSwapBuffers (brSwapBuffers swap_state) = swap_state"
    using t by blast
  have "cur swap_state \<noteq> 0 \<and> double_buffer (the_ctx swap_state)"
    by (simp add: st)
  with t have f:
    "cb (the_ctx (brSwapBuffers swap_state)) = cb2 (the_ctx swap_state)"
    "cb2 (the_ctx (brSwapBuffers swap_state)) = cb (the_ctx swap_state)"
    "cb_type (the_ctx (brSwapBuffers swap_state)) = cb2_type (the_ctx swap_state)"
    "cb2_type (the_ctx (brSwapBuffers swap_state)) = cb_type (the_ctx swap_state)"
    "rb_width (the_ctx (brSwapBuffers swap_state)) = rb2_width (the_ctx swap_state)"
    "rb2_width (the_ctx (brSwapBuffers swap_state)) = rb_width (the_ctx swap_state)"
    "rb2_height (the_ctx (brSwapBuffers swap_state)) = rb_height (the_ctx swap_state)"
    unfolding Let_def by blast+
  have on: "cb (the_ctx (brSwapBuffers swap_state)) = 0"
    "cb2 (the_ctx (brSwapBuffers swap_state)) = 1"
    "cb_type (the_ctx (brSwapBuffers swap_state)) = 0"
    "cb2_type (the_ctx (brSwapBuffers swap_state)) = BR_R8G8B8A8"
    "rb_width (the_ctx (brSwapBuffers swap_state)) = 0"
    "rb2_width (the_ctx (brSwapBuffers swap_state)) = 64"
    "rb2_height (the_ctx (brSwapBuffers swap_state)) = 64"
    by (simp_all only: f st)
  have ne: "brSwapBuffers swap_state \<noteq> swap_state"
  proof
    assume "brSwapBuffers swap_state = swap_state"
    then have "cb (the_ctx (brSwapBuffers swap_state)) = cb (the_ctx swap_state)"
      by (rule arg_cong)
    then show False by (simp only: on st)
  qed
  have "\<not> double_buffer (the_ctx bound_state)"
    by (simp add: the_ctx_def bound_state_def new_context_def)
  with brSwapBuffers_involution [of bound_state]
  have off: "brSwapBuffers bound_state = bound_state"
    by blast
  show ?thesis
    by (intro conjI st on ne inv off)
qed

text \<open>
  C10.  \<open>brBindContext\<close> with a null pointer leaves the whole state, and so the binding,
  unchanged; with a non-null pointer it replaces the binding and changes nothing else.
\<close>

theorem brBindContext_null_unchanged:
  "brBindContext 0 s = s \<and>
   (context \<noteq> 0 \<longrightarrow> brBindContext context s = s\<lparr>cur := context\<rparr>)"
  by (simp add: brBindContext_def)

theorem brBindContext_null_unchanged_witness:
  "brBindContext 0 bound_state = bound_state \<and>
   cur (brBindContext 0 bound_state) = 1 \<and>
   brBindContext 5 bound_state = bound_state\<lparr>cur := 5\<rparr>"
  using brBindContext_null_unchanged [of bound_state 5]
  by (simp add: bound_state_def)

lemma guarded_null_noop:
  "guarded f (s\<lparr>cur := 0\<rparr>) = s\<lparr>cur := 0\<rparr>"
  by (simp add: guarded_def)

lemma api_null_noop:
  "brEnable st (s\<lparr>cur := 0\<rparr>) = s\<lparr>cur := 0\<rparr>"
  "brDisable st (s\<lparr>cur := 0\<rparr>) = s\<lparr>cur := 0\<rparr>"
  "brPointSize r (s\<lparr>cur := 0\<rparr>) = s\<lparr>cur := 0\<rparr>"
  "brSwapBuffers (s\<lparr>cur := 0\<rparr>) = s\<lparr>cur := 0\<rparr>"
  "brBindRenderbuffer t w h b (s\<lparr>cur := 0\<rparr>) = s\<lparr>cur := 0\<rparr>"
  by (simp_all add: brEnable_def brDisable_def brPointSize_def brSwapBuffers_def
      brBindRenderbuffer_def guarded_def)

text \<open>
  C3.  With no context bound, the operations that begin with the null test return the
  state as it is (\<open>guarded_null_noop\<close>), but the four vertex-array pointer setters do not
  test the binding: with an accepted count they write through the null pointer.
\<close>

theorem pointer_setters_null_context_fault:
  "brVertexPointer 3 offset stride (s\<lparr>cur := 0\<rparr>) = Inl NullContextDeref \<and>
   brColorPointer 4 offset stride (s\<lparr>cur := 0\<rparr>) = Inl NullContextDeref \<and>
   brNormalPointer offset stride (s\<lparr>cur := 0\<rparr>) = Inl NullContextDeref \<and>
   brTexCoordPointer offset stride (s\<lparr>cur := 0\<rparr>) = Inl NullContextDeref"
  by (simp add: brVertexPointer_def brColorPointer_def brNormalPointer_def
      brTexCoordPointer_def unguarded_def)

lemma in_unit_simps [simp]:
  "in_unit (Fin 0)" "in_unit (Fin 1)" "\<not> in_unit NaN"
  by (simp_all add: in_unit_def flt_le_def)

lemma in_unit_clamp_channel:
  "in_unit (clamp_channel r) = (r \<noteq> NaN)"
  by (cases r) (auto simp: clamp_channel_def in_unit_def flt_le_def flt_gt_def Let_def)

lemma in_unit_clamp_depth:
  "in_unit (clamp_depth d) = (d \<noteq> NaN)"
  by (cases d) (auto simp: clamp_depth_def in_unit_def flt_le_def flt_gt_def Let_def)

lemma ctx_inv_new_context: "ctx_inv new_context"
  by (simp add: ctx_inv_def new_context_def flt_ge_def flt_le_def)

lemma ctx_inv_set_toggle: "ctx_inv (set_toggle st v c) = ctx_inv c"
  by (simp add: set_toggle_def ctx_inv_def)

lemma ctx_inv_clear_depth:
  "ctx_inv c \<Longrightarrow> ctx_inv (c\<lparr>clear_depth := clamp_depth d\<rparr>) = (d \<noteq> NaN)"
  by (simp add: ctx_inv_def in_unit_clamp_depth)

lemma ctx_inv_clear_color:
  "ctx_inv c \<Longrightarrow>
   ctx_inv (c\<lparr>clear_color := \<lparr>v4x = clamp_channel r, v4y = clamp_channel g,
                               v4z = clamp_channel b, v4w = clamp_channel a\<rparr>\<rparr>) =
     (r \<noteq> NaN \<and> g \<noteq> NaN \<and> b \<noteq> NaN \<and> a \<noteq> NaN)"
  by (simp add: ctx_inv_def in_unit_clamp_channel)

lemma ctx_inv_point_size:
  "ctx_inv c \<Longrightarrow>
   ctx_inv (if flt_ge radius (Fin 0) then c\<lparr>point_radius := radius\<rparr>
            else c\<lparr>point_radius := Fin 0\<rparr>)"
  by (simp add: ctx_inv_def flt_ge_def flt_le_def)

text \<open>What a setter leaves at an address \<open>p\<close> of the memory of contexts.\<close>

lemma heap_guarded:
  "heap (guarded f s) p = (if cur s \<noteq> 0 \<and> p = cur s then f (heap s p) else heap s p)"
  by (simp add: guarded_def upd_ctx_def)

lemma heap_unguarded:
  "unguarded f s = Inr s' \<Longrightarrow> heap s' p = (if p = cur s then f (heap s p) else heap s p)"
  by (auto simp: unguarded_def upd_ctx_def split: if_splits)

lemma upd_ctx_keeps:
  "(\<And>c. ctx_inv c \<Longrightarrow> ctx_inv (f c)) \<Longrightarrow> ctx_inv (heap s p) \<Longrightarrow>
   ctx_inv (heap (upd_ctx f s) p)"
  by (auto simp: upd_ctx_def)

lemma guarded_keeps:
  "(\<And>c. ctx_inv c \<Longrightarrow> ctx_inv (f c)) \<Longrightarrow> ctx_inv (heap s p) \<Longrightarrow>
   ctx_inv (heap (guarded f s) p)"
  by (auto simp: guarded_def upd_ctx_keeps)

lemma unguarded_keeps:
  "(\<And>c. ctx_inv c \<Longrightarrow> ctx_inv (f c)) \<Longrightarrow> ctx_inv (heap s p) \<Longrightarrow>
   unguarded f s = Inr s' \<Longrightarrow> ctx_inv (heap s' p)"
  by (auto simp: unguarded_def upd_ctx_keeps split: if_splits)

lemma bind_renderbuffer_keeps:
  assumes "ctx_inv (heap s p)"
  shows "ctx_inv (heap (brBindRenderbuffer t w h b s) p)"
proof -
  have a: "ctx_inv (c\<lparr>cb := b, cb_type := t, rb_width := w, rb_height := h\<rparr>) = ctx_inv c" for c
    by (simp add: ctx_inv_def)
  have d: "ctx_inv (c\<lparr>db := b, db_type := t, rb_width := w, rb_height := h\<rparr>) = ctx_inv c" for c
    by (simp add: ctx_inv_def)
  have ka: "ctx_inv (heap (upd_ctx
      (\<lambda>c. c\<lparr>cb := b, cb_type := t, rb_width := w, rb_height := h\<rparr>) s) p)"
    by (rule upd_ctx_keeps [OF _ assms]) (simp only: a)
  have kd: "ctx_inv (heap (upd_ctx
      (\<lambda>c. c\<lparr>db := b, db_type := t, rb_width := w, rb_height := h\<rparr>) s) p)"
    by (rule upd_ctx_keeps [OF _ assms]) (simp only: d)
  show ?thesis
    unfolding brBindRenderbuffer_def Let_def
    by (simp only: ka kd assms if_split simp_thms split: if_split)
qed

lemma swap_buffers_keeps:
  assumes "ctx_inv (heap s p)"
  shows "ctx_inv (heap (brSwapBuffers s) p)"
proof (cases "cur s = 0 \<or> \<not> double_buffer (the_ctx s)")
  case True
  with assms show ?thesis by (simp add: brSwapBuffers_def)
next
  case False
  then have "brSwapBuffers s = upd_ctx (\<lambda>c. c\<lparr>
             cb := cb2 c, db := db2 c, cb_type := cb2_type c, db_type := db2_type c,
             rb_width := rb2_width c, rb_height := rb2_height c,
             cb2 := cb c, db2 := db c, cb2_type := cb_type c, db2_type := db_type c,
             rb2_width := rb_width c, rb2_height := rb_height c\<rparr>) s"
    by (simp add: brSwapBuffers_def)
  then show ?thesis
    by (simp only:) (rule upd_ctx_keeps [OF _ assms], simp add: ctx_inv_def)
qed

lemma create_context_fresh:
  "api_step (CreateContext p) s = Inr s' \<Longrightarrow> heap s' p = new_context"
  by (auto simp: brCreateContext_def split: if_splits)

lemma api_step_ctx_inv_iff:
  assumes step: "api_step call s = Inr s'" and inv: "ctx_inv (heap s p)"
  shows "ctx_inv (heap s' p) = (\<not> (NaN \<in> set (clear_args call) \<and> cur s \<noteq> 0 \<and> p = cur s))"
proof (cases call)
  case (CreateContext q)
  with step inv show ?thesis
    by (auto simp: brCreateContext_def ctx_inv_new_context split: if_splits)
next
  case (BindContext q)
  with step inv show ?thesis by (auto simp: brBindContext_def)
next
  case (FreeContext q)
  with step inv show ?thesis by (auto simp: brFreeContext_def)
next
  case (CreateRenderbuffer t w h)
  with step inv show ?thesis by auto
next
  case (BindRenderbuffer t w h b)
  with step inv show ?thesis by (auto simp: bind_renderbuffer_keeps)
next
  case (UnbindRenderbuffer b)
  have "ctx_inv (heap (brUnbindRenderbuffer b s) p)"
    unfolding brUnbindRenderbuffer_def
    by (rule guarded_keeps [OF _ inv]) (simp add: ctx_inv_def Let_def)
  with step UnbindRenderbuffer show ?thesis by auto
next
  case (PolygonMode m)
  have "ctx_inv (heap (brPolygonMode m s) p)"
    unfolding brPolygonMode_def
    by (rule guarded_keeps [OF _ inv]) (simp add: ctx_inv_def)
  with step PolygonMode show ?thesis by auto
next
  case (CullWinding w)
  have "ctx_inv (heap (brCullWinding w s) p)"
    unfolding brCullWinding_def
    by (rule guarded_keeps [OF _ inv]) (simp add: ctx_inv_def)
  with step CullWinding show ?thesis by auto
next
  case (PointSize r)
  have "ctx_inv (heap (brPointSize r s) p)"
    unfolding brPointSize_def
    by (rule guarded_keeps [OF _ inv]) (rule ctx_inv_point_size)
  with step PointSize show ?thesis by auto
next
  case (Enable st)
  have "ctx_inv (heap (brEnable st s) p)"
    unfolding brEnable_def
    by (rule guarded_keeps [OF _ inv]) (simp add: ctx_inv_set_toggle)
  with step Enable show ?thesis by auto
next
  case (Disable st)
  have "ctx_inv (heap (brDisable st s) p)"
    unfolding brDisable_def
    by (rule guarded_keeps [OF _ inv]) (simp add: ctx_inv_set_toggle)
  with step Disable show ?thesis by auto
next
  case (IsEnabled st)
  with step inv show ?thesis by auto
next
  case (BindShader t sh)
  have "ctx_inv (heap (brBindShader t sh s) p)"
    unfolding brBindShader_def
    by (rule guarded_keeps [OF _ inv]) (simp add: ctx_inv_def Let_def)
  with step BindShader show ?thesis by auto
next
  case SwapBuffers
  with step inv show ?thesis by (auto simp: swap_buffers_keeps)
next
  case (ActiveTexture u)
  have "ctx_inv (heap (brActiveTexture u s) p)"
    unfolding brActiveTexture_def
    by (rule guarded_keeps [OF _ inv]) (simp add: ctx_inv_def word_less_nat_alt)
  with step ActiveTexture show ?thesis by auto
next
  case (Texture d f w h c)
  have "ctx_inv (heap (brTexture d f w h c s) p)"
    unfolding brTexture_def
    by (rule guarded_keeps [OF _ inv]) (simp add: ctx_inv_def Let_def)
  with step Texture show ?thesis by auto
next
  case (ClearColor r g b a)
  have "ctx_inv (heap (brClearColor r g b a s) p) =
        (\<not> ((r = NaN \<or> g = NaN \<or> b = NaN \<or> a = NaN) \<and> cur s \<noteq> 0 \<and> p = cur s))"
    using inv by (auto simp: brClearColor_def heap_guarded ctx_inv_clear_color)
  with step ClearColor show ?thesis by auto
next
  case (ClearDepth d)
  have "ctx_inv (heap (brClearDepth d s) p) = (\<not> (d = NaN \<and> cur s \<noteq> 0 \<and> p = cur s))"
    using inv by (auto simp: brClearDepth_def heap_guarded ctx_inv_clear_depth)
  with step ClearDepth show ?thesis by auto
next
  case (Clear b)
  with step inv show ?thesis by auto
next
  case (VertexPointer n off st)
  have k: "ctx_inv (c\<lparr>vertex_count := n, vertex_offset := off, vertex_stride := st\<rparr>) = ctx_inv c"
    for c by (simp add: ctx_inv_def)
  have "ctx_inv (heap s' p)"
  proof (cases "n > 4 \<or> n < 2")
    case True
    with step VertexPointer inv show ?thesis by (auto simp: brVertexPointer_def)
  next
    case False
    with step VertexPointer have "unguarded
        (\<lambda>c. c\<lparr>vertex_count := n, vertex_offset := off, vertex_stride := st\<rparr>) s = Inr s'"
      by (simp add: brVertexPointer_def)
    then show ?thesis
      by (rule unguarded_keeps [rotated 2]) (simp_all add: k inv)
  qed
  with VertexPointer show ?thesis by simp
next
  case (ColorPointer n off st)
  have k: "ctx_inv (c\<lparr>color_count := n, color_offset := off, color_stride := st\<rparr>) = ctx_inv c"
    for c by (simp add: ctx_inv_def)
  have "ctx_inv (heap s' p)"
  proof (cases "n \<noteq> 3 \<and> n \<noteq> 4")
    case True
    with step ColorPointer inv show ?thesis by (auto simp: brColorPointer_def)
  next
    case False
    with step ColorPointer have "unguarded
        (\<lambda>c. c\<lparr>color_count := n, color_offset := off, color_stride := st\<rparr>) s = Inr s'"
      by (simp add: brColorPointer_def)
    then show ?thesis
      by (rule unguarded_keeps [rotated 2]) (simp_all add: k inv)
  qed
  with ColorPointer show ?thesis by simp
next
  case (NormalPointer off st)
  have k: "ctx_inv (c\<lparr>normal_offset := off, normal_stride := st\<rparr>) = ctx_inv c"
    for c by (simp add: ctx_inv_def)
  from step NormalPointer have "unguarded
      (\<lambda>c. c\<lparr>normal_offset := off, normal_stride := st\<rparr>) s = Inr s'"
    by (simp add: brNormalPointer_def)
  then have "ctx_inv (heap s' p)"
    by (rule unguarded_keeps [rotated 2]) (simp_all add: k inv)
  with NormalPointer show ?thesis by simp
next
  case (TexCoordPointer off st)
  have k: "ctx_inv (c\<lparr>tcoord_offset := off, tcoord_stride := st\<rparr>) = ctx_inv c"
    for c by (simp add: ctx_inv_def)
  from step TexCoordPointer have "unguarded
      (\<lambda>c. c\<lparr>tcoord_offset := off, tcoord_stride := st\<rparr>) s = Inr s'"
    by (simp add: brTexCoordPointer_def)
  then have "ctx_inv (heap s' p)"
    by (rule unguarded_keeps [rotated 2]) (simp_all add: k inv)
  with TexCoordPointer show ?thesis by simp
next
  case (DrawArray ptype indices)
  with step inv show ?thesis by (auto split: if_splits)
next
  case (DrawElements ptype indices)
  with step inv show ?thesis by (auto split: if_splits)
next
  case (GetState t st)
  with step inv show ?thesis by auto
qed

text \<open>
  C9.  The invariant holds for the context \<open>brCreateContext\<close> builds, and every call of
  the interface that returns keeps it on every context that had it, with one exception:
  \<open>brClearDepth\<close> and \<open>brClearColor\<close> called with a NaN while a context is bound.  A NaN
  fails both comparisons of their clamp and is stored, and the bound context then violates
  the invariant (the equivalence below says both directions).  Every other out-of-range
  argument is clamped or rejected: infinities by the two clamps, and a negative or NaN
  radius by \<open>brPointSize\<close>, which stores 0.
\<close>

theorem api_step_preserves_ctx_inv:
  assumes "api_step call s = Inr s'"
  shows "ctx_inv new_context \<and>
         (call = CreateContext p \<longrightarrow> heap s' p = new_context) \<and>
         (ctx_inv (heap s p) \<longrightarrow>
            ctx_inv (heap s' p) =
              (\<not> (NaN \<in> set (clear_args call) \<and> cur s \<noteq> 0 \<and> p = cur s)))"
  using assms
  by (auto simp: ctx_inv_new_context create_context_fresh api_step_ctx_inv_iff
      simp del: api_step.simps)

theorem api_step_preserves_ctx_inv_witness:
  "ctx_inv new_context \<and> ctx_inv (heap bound_state 1) \<and>
   ctx_inv (heap (brClearDepth (Fin 2) bound_state) 1) \<and>
   clear_depth (the_ctx (brClearDepth (Fin 2) bound_state)) = Fin 1 \<and>
   ctx_inv (heap (brClearColor PInf (Fin 0) NInf (Fin (1 / 2)) bound_state) 1) \<and>
   ctx_inv (heap (brPointSize NaN bound_state) 1) \<and>
   point_radius (the_ctx (brPointSize NaN bound_state)) = Fin 0 \<and>
   \<not> ctx_inv (heap (brClearColor (Fin 0) NaN (Fin 0) (Fin 0) bound_state) 1) \<and>
   ctx_inv (heap (brClearDepth NaN bound_state) 2) \<and>
   ctx_inv (heap (brClearDepth NaN unbound_state) 1)"
proof -
  have b: "ctx_inv (heap bound_state p)" "cur bound_state = 1" for p
    by (simp_all add: bound_state_def ctx_inv_new_context)
  have u: "ctx_inv (heap unbound_state p)" "cur unbound_state = 0" for p
    by (simp_all add: unbound_state_def ctx_inv_new_context)
  have "api_step (ClearDepth (Fin 2)) bound_state = Inr (brClearDepth (Fin 2) bound_state)"
    by simp
  from api_step_preserves_ctx_inv [OF this, of 1] b
  have 1: "ctx_inv new_context" "ctx_inv (heap (brClearDepth (Fin 2) bound_state) 1)"
    by simp_all
  have 2: "clear_depth (the_ctx (brClearDepth (Fin 2) bound_state)) = Fin 1"
    by (simp add: brClearDepth_def clamp_depth_def guarded_def upd_ctx_def the_ctx_def
        bound_state_def flt_gt_def Let_def)
  have "api_step (ClearColor PInf (Fin 0) NInf (Fin (1 / 2))) bound_state =
        Inr (brClearColor PInf (Fin 0) NInf (Fin (1 / 2)) bound_state)"
    by simp
  from api_step_preserves_ctx_inv [OF this, of 1] b
  have 3: "ctx_inv (heap (brClearColor PInf (Fin 0) NInf (Fin (1 / 2)) bound_state) 1)"
    by simp
  have "api_step (PointSize NaN) bound_state = Inr (brPointSize NaN bound_state)"
    by simp
  from api_step_preserves_ctx_inv [OF this, of 1] b
  have 4: "ctx_inv (heap (brPointSize NaN bound_state) 1)"
    by simp
  have 5: "point_radius (the_ctx (brPointSize NaN bound_state)) = Fin 0"
    by (simp add: brPointSize_def guarded_def upd_ctx_def the_ctx_def bound_state_def
        flt_ge_def flt_le_def)
  have "api_step (ClearColor (Fin 0) NaN (Fin 0) (Fin 0)) bound_state =
        Inr (brClearColor (Fin 0) NaN (Fin 0) (Fin 0) bound_state)"
    by simp
  from api_step_preserves_ctx_inv [OF this, of 1] b
  have 6: "\<not> ctx_inv (heap (brClearColor (Fin 0) NaN (Fin 0) (Fin 0) bound_state) 1)"
    by simp
  have "api_step (ClearDepth NaN) bound_state = Inr (brClearDepth NaN bound_state)"
    by simp
  from api_step_preserves_ctx_inv [OF this, of 2] b
  have 7: "ctx_inv (heap (brClearDepth NaN bound_state) 2)"
    by simp
  have "api_step (ClearDepth NaN) unbound_state = Inr (brClearDepth NaN unbound_state)"
    by simp
  from api_step_preserves_ctx_inv [OF this, of 1] u
  have 8: "ctx_inv (heap (brClearDepth NaN unbound_state) 1)"
    by simp
  from 1 2 3 4 5 6 7 8 b(1) [of 1] show ?thesis by simp
qed

theorem clear_depth_nan_counterexample:
  "ctx_inv (the_ctx bound_state) \<and>
   api_step (ClearDepth NaN) bound_state = Inr (brClearDepth NaN bound_state) \<and>
   clear_depth (the_ctx (brClearDepth NaN bound_state)) = NaN \<and>
   \<not> ctx_inv (the_ctx (brClearDepth NaN bound_state)) \<and>
   api_step (ClearColor NaN (Fin 0) (Fin 0) (Fin 0)) bound_state =
     Inr (brClearColor NaN (Fin 0) (Fin 0) (Fin 0) bound_state) \<and>
   v4x (clear_color (the_ctx (brClearColor NaN (Fin 0) (Fin 0) (Fin 0) bound_state))) = NaN \<and>
   \<not> ctx_inv (the_ctx (brClearColor NaN (Fin 0) (Fin 0) (Fin 0) bound_state))"
proof -
  have i: "ctx_inv (the_ctx bound_state)"
    by (simp add: the_ctx_def bound_state_def ctx_inv_new_context)
  have cd: "clear_depth (the_ctx (brClearDepth NaN bound_state)) = NaN"
    by (simp add: brClearDepth_def clamp_depth_def guarded_def upd_ctx_def bound_state_def
        the_ctx_def flt_gt_def Let_def)
  have cc: "v4x (clear_color (the_ctx (brClearColor NaN (Fin 0) (Fin 0) (Fin 0) bound_state))) = NaN"
    by (simp add: brClearColor_def clamp_channel_def guarded_def upd_ctx_def bound_state_def
        the_ctx_def flt_gt_def Let_def)
  have "\<not> ctx_inv (the_ctx (brClearDepth NaN bound_state))"
  proof
    assume "ctx_inv (the_ctx (brClearDepth NaN bound_state))"
    then have "in_unit (clear_depth (the_ctx (brClearDepth NaN bound_state)))"
      unfolding ctx_inv_def by blast
    then show False unfolding cd by simp
  qed
  moreover have "\<not> ctx_inv (the_ctx (brClearColor NaN (Fin 0) (Fin 0) (Fin 0) bound_state))"
  proof
    assume "ctx_inv (the_ctx (brClearColor NaN (Fin 0) (Fin 0) (Fin 0) bound_state))"
    then have "in_unit (v4x (clear_color
        (the_ctx (brClearColor NaN (Fin 0) (Fin 0) (Fin 0) bound_state))))"
      unfolding ctx_inv_def by blast
    then show False unfolding cc by simp
  qed
  ultimately show ?thesis using i cd cc by simp
qed

lemma plot_value_R8G8B8_noblend:
  "plot_value e BR_R8G8B8 rgba False dst =
     Some (BR_B8G8R8_pack (chan8 (ux rgba) 255) (chan8 (uy rgba) 255) (chan8 (uz rgba) 255))"
  by (simp add: plot_value_def Let_def)

text \<open>
  C5.  Without blending, \<open>_plot_pixel\<close> packs an R8G8B8 pixel with the B8G8R8 macro: red
  lands in bits 0-7 and blue in bits 16-23.  Pure red is stored as \<open>0x0000FF\<close>, where
  \<open>_BR_R8G8B8(255,0,0)\<close> is \<open>0xFF0000\<close>; the opaque branch of the blending path of the
  same format does use \<open>_BR_R8G8B8\<close>.
\<close>

theorem plot_pixel_R8G8B8_red_swapped:
  "plot_value e BR_R8G8B8 \<lparr>ux = 65536, uy = 0, uz = 0, uw = 65536\<rparr> False dst = Some 0x0000FF \<and>
   BR_R8G8B8_pack 255 0 0 = 0xFF0000 \<and>
   plot_value e BR_R8G8B8 \<lparr>ux = 65536, uy = 0, uz = 0, uw = 65536\<rparr> True dst = Some 0xFF0000"
  by (simp add: plot_value_def Let_def chan8_def BR_B8G8R8_pack_def BR_R8G8B8_pack_def)

theorem plot_pixel_R8G8B8_red_swapped_witness:
  "plot_value e0 BR_R8G8B8 \<lparr>ux = 65536, uy = 0, uz = 0, uw = 65536\<rparr> False 0 = Some 0x0000FF \<and>
   BR_R8G8B8_pack 255 0 0 = 0xFF0000"
  using plot_pixel_R8G8B8_red_swapped [of e0 0] by blast

lemma bit_to16: "bit (to16 v) n = (n < 16 \<and> bit v n)"
  by (auto simp: to16_def bit_simps)

lemma bit_to8: "bit (to8 v) n = (n < 8 \<and> bit v n)"
  by (auto simp: to8_def bit_simps)

lemma alpha_bits_set:
  "bit (BR_R5G5B5A1_pack r g b 1) 0"
  "bit (BR_A1B5G5R5_pack r g b 1) 15"
  "bit (BR_R3G2B2A1_pack r g b 1) 0"
  "bit (BR_A1B2G2R3_pack r g b 1) 7"
  by (simp_all add: BR_R5G5B5A1_pack_def BR_A1B5G5R5_pack_def BR_R3G2B2A1_pack_def
      BR_A1B2G2R3_pack_def bit_to16 bit_to8 bit_simps)

text \<open>
  C7.  With blending on and a colour buffer with a 1-bit alpha, the pixel is discarded
  exactly when the 16.16 source alpha is below 32768 (one half); from 32768 on it is
  stored with the alpha bit set.
\<close>

theorem one_bit_alpha_threshold:
  assumes "one_bit_alpha fmt"
  shows "(plot_value e fmt rgba True dst = None) = (uw rgba < 32768) \<and>
         (32768 \<le> uw rgba \<longrightarrow>
           (\<exists>v. plot_value e fmt rgba True dst = Some v \<and> bit v (alpha_bit fmt)))"
  using assms
  by (auto simp: one_bit_alpha_def plot_value_def threshold_store_def alpha_bit_def
      alpha_bits_set)

theorem one_bit_alpha_threshold_witness:
  "plot_value e0 BR_R5G5B5A1 \<lparr>ux = 65536, uy = 0, uz = 0, uw = 32768\<rparr> True 0 = Some 0xF801 \<and>
   bit (0xF801 :: u32) (alpha_bit BR_R5G5B5A1) \<and>
   plot_value e0 BR_R5G5B5A1 \<lparr>ux = 65536, uy = 0, uz = 0, uw = 32767\<rparr> True 0 = None"
proof -
  have ob: "one_bit_alpha BR_R5G5B5A1" by (simp add: one_bit_alpha_def)
  have v: "plot_value e0 BR_R5G5B5A1 \<lparr>ux = 65536, uy = 0, uz = 0, uw = 32768\<rparr> True 0 = Some 0xF801"
    by (simp add: plot_value_def threshold_store_def chan8_def BR_R5G5B5A1_pack_def to16_def)
  from one_bit_alpha_threshold [OF ob, of e0 "\<lparr>ux = 65536, uy = 0, uz = 0, uw = 32768\<rparr>" 0]
  have "bit (0xF801 :: u32) (alpha_bit BR_R5G5B5A1)"
    by (simp add: v)
  moreover from one_bit_alpha_threshold [OF ob, of e0 "\<lparr>ux = 65536, uy = 0, uz = 0, uw = 32767\<rparr>" 0]
  have "plot_value e0 BR_R5G5B5A1 \<lparr>ux = 65536, uy = 0, uz = 0, uw = 32767\<rparr> True 0 = None"
    by simp
  ultimately show ?thesis using v by simp
qed

theorem one_bit_alpha_small_alpha_counterexample:
  "(0 :: u32) < 1 \<and>
   plot_value e0 BR_R5G5B5A1 \<lparr>ux = 65536, uy = 0, uz = 0, uw = 1\<rparr> True 0 = None"
  by (simp add: plot_value_def threshold_store_def)

text \<open>The clamp of \<open>_get_texel\<close> in general: up to a width of \<open>2^31\<close> every negative
  coordinate is taken to the last column (or row), and a coordinate that is not negative is
  clamped to it from above.\<close>

lemma sint_neg_iff_big:
  fixes x :: u32
  shows "(sint x < 0) = (2 ^ 31 \<le> uint x)"
proof -
  have "(sint x < 0) = bit (uint x) 31"
    using bit_last_iff [of x] by (simp add: bit_uint_iff)
  also have "\<dots> = odd (uint x div 2 ^ 31)"
    by (simp add: bit_iff_odd)
  also have "\<dots> = (2 ^ 31 \<le> uint x)"
  proof (cases "2 ^ 31 \<le> uint x")
    case True
    have "uint x < 2 ^ 32" using uint_bounded [of x] by simp
    with True have "uint x div 2 ^ 31 = 1" by simp
    with True show ?thesis by simp
  next
    case False
    then have "uint x div 2 ^ 31 = 0" by simp
    with False show ?thesis by simp
  qed
  finally show ?thesis .
qed

lemma clamp_coord_negative:
  assumes "0 < width" "width \<le> 2 ^ 31" "sint x < 0"
  shows "clamp_coord x width = width - 1"
proof -
  have x: "2 ^ 31 \<le> uint x"
    using assms(3) by (simp add: sint_neg_iff_big)
  have w: "uint width \<le> 2 ^ 31"
    using assms(2) by (simp add: word_le_def)
  have w0: "0 < uint width"
    using assms(1) by (simp add: word_less_def)
  have le: "width \<le> x"
    using x w by (simp add: word_le_def)
  have "uint (width - 1) = uint width - 1"
    using w0 by (simp add: uint_sub_if')
  with w have "\<not> sint (width - 1) < 0"
    by (simp add: sint_neg_iff_big)
  with le show ?thesis
    by (simp add: clamp_coord_def Let_def)
qed

lemma clamp_coord_nonneg:
  assumes "0 < width" "\<not> sint x < 0"
  shows "clamp_coord x width = (if width \<le> x then width - 1 else x)"
proof (cases "width \<le> x")
  case False
  with assms show ?thesis by (simp add: clamp_coord_def Let_def)
next
  case True
  have "uint x < 2 ^ 31"
    using assms(2) by (simp add: sint_neg_iff_big)
  moreover have "uint width \<le> uint x"
    using True by (simp add: word_le_def)
  moreover have "0 < uint width"
    using assms(1) by (simp add: word_less_def)
  ultimately have "uint (width - 1) < 2 ^ 31"
    by (simp add: uint_sub_if')
  then have "\<not> sint (width - 1) < 0"
    by (simp add: sint_neg_iff_big)
  with True show ?thesis by (simp add: clamp_coord_def Let_def)
qed


lemma get_texel_negative_x:
  assumes "0 < width" "width \<le> 2 ^ 31" "sint x < 0"
  shows "get_texel e bound x y col tex fmt width height compressed =
         get_texel e bound (width - 1) y col tex fmt width height compressed"
proof -
  have w0: "0 < uint width"
    using assms(1) by (simp add: word_less_def)
  have w: "uint width \<le> 2 ^ 31"
    using assms(2) by (simp add: word_le_def)
  have u: "uint (width - 1) = uint width - 1"
    using w0 by (simp add: uint_sub_if')
  have "\<not> sint (width - 1) < 0"
    using w u by (simp add: sint_neg_iff_big)
  moreover have "\<not> width \<le> width - 1"
    using u by (simp add: word_le_def)
  ultimately have "clamp_coord (width - 1) width = width - 1"
    using assms(1) by (simp add: clamp_coord_nonneg)
  then show ?thesis
    by (simp add: get_texel_def clamp_coord_negative [OF assms])
qed

text \<open>
  C6.  A negative \<open>x\<close> is compared with \<open>width\<close> as an unsigned number, so it counts as
  too large and is clamped to the last column, not to column 0: sampling the 2x2 texture
  at \<open>(-1, 0)\<close> returns the texel of column 1 (green), not that of column 0 (red).  The
  test \<open>if(x < 0) x = 0;\<close> that follows can no longer succeed.
\<close>

theorem get_texel_negative_x_samples_last_column:
  "clamp_coord (- 1) 2 = 1 \<and>
   get_texel e_tex True (- 1) 0 black 7 BR_R8G8B8A8 2 2 False =
     vec4 (Fin 0) (Fin (16777215 / 16777216)) (Fin 0) (Fin 0) \<and>
   get_texel e_tex True 1 0 black 7 BR_R8G8B8A8 2 2 False =
     vec4 (Fin 0) (Fin (16777215 / 16777216)) (Fin 0) (Fin 0) \<and>
   get_texel e_tex True 0 0 black 7 BR_R8G8B8A8 2 2 False =
     vec4 (Fin (16777215 / 16777216)) (Fin 0) (Fin 0) (Fin 0)"
  by code_simp

theorem get_texel_negative_x_samples_last_column_witness:
  "get_texel e_tex True (- 1) 0 black 7 BR_R8G8B8A8 2 2 False =
     get_texel e_tex True 1 0 black 7 BR_R8G8B8A8 2 2 False \<and>
   get_texel e_tex True (- 1) 0 black 7 BR_R8G8B8A8 2 2 False \<noteq>
     get_texel e_tex True 0 0 black 7 BR_R8G8B8A8 2 2 False"
  using get_texel_negative_x_samples_last_column by (simp add: vec4_def)

lemma rnd32_small [simp]:
  "rnd32 0 = Fin 0" "rnd32 1 = Fin 1" "rnd32 (1 / 2) = Fin (1 / 2)"
  by code_simp+

lemma scale_z_step_times_one:
  "scale_z c \<Longrightarrow> v4z (scale_z_step c v) = fmul (v4z v) (Fin 1)"
  by (simp add: scale_z_step_def)

text \<open>
  C2.  With \<open>SCALE_Z\<close> enabled the Z-rescale step multiplies \<open>z\<close> by \<open>0.5f + 0.5f = 1\<close>:
  a vertex entering with \<open>z = 0\<close> leaves with \<open>z = 0\<close>, where \<open>z*0.5 + 0.5\<close> is \<open>0.5\<close>; a
  point at \<open>z = 0\<close> reaches \<open>_raster_point\<close> with depth 0 in a D16 buffer.  The three
  preprocessors share the step.
\<close>

theorem scale_z_step_keeps_z:
  "v4z (scale_z_step (c\<lparr>scale_z := True\<rparr>) (vec4 (Fin 0) (Fin 0) (Fin 0) (Fin 1))) = Fin 0 \<and>
   fadd (fmul (Fin 0) (Fin (1 / 2))) (Fin (1 / 2)) = Fin (1 / 2) \<and>
   v4z (pt_pos \<lparr>pt_pos = scale_z_step (c\<lparr>scale_z := True\<rparr>)
                            (persp_divide (c\<lparr>scale_z := True\<rparr>) (vec4 (Fin 0) (Fin 0) (Fin 0) (Fin 1))),
                pt_rgba = black\<rparr>) = Fin 0"
  by (simp add: scale_z_step_def persp_divide_def vec4_def)

theorem scale_z_step_keeps_z_witness:
  "v4z (scale_z_step (new_context\<lparr>scale_z := True\<rparr>) (vec4 (Fin 0) (Fin 0) (Fin 0) (Fin 1))) = Fin 0 \<and>
   fadd (fmul (Fin 0) (Fin (1 / 2))) (Fin (1 / 2)) = Fin (1 / 2)"
  using scale_z_step_keeps_z [of new_context] by blast

lemma tri_persp_w_zero_sum:
  assumes "to_s32 e (fadd (fadd (fmul (fu32 (u3x bary)) inv_v0_w) (fmul (fu32 (u3y bary)) inv_v1_w))
                (fmul (fu32 (u3z bary)) inv_v2_w)) = 0"
  shows "tri_persp_w e bary inv_v0_w inv_v1_w inv_v2_w = PInf"
  using assms by (simp add: tri_persp_w_def float_of_int_def)

text \<open>
  C4.  The triangle rasterizer divides \<open>65536.0f\<close> by the integer sum with the plain
  operator: with all three \<open>w = 131072\<close> (\<open>1/|w| = 2^-17\<close>) the sum \<open>0.5\<close> truncates to 0
  and \<open>w\<close> is \<open>+infinity\<close>, after which the coordinates are converted from an infinity and
  from NaN.  The line rasterizer does go through \<open>_fdiv\<close> and gets 0 for a zero sum.
\<close>

theorem tri_persp_w_unguarded:
  "tri_persp_w e \<lparr>u3x = 65536, u3y = 0, u3z = 0\<rparr>
     (Fin (1 / 131072)) (Fin (1 / 131072)) (Fin (1 / 131072)) = PInf \<and>
   br_fdiv (Fin 1) (fabs (Fin 131072)) = Fin (1 / 131072) \<and>
   tri_persp_correct e \<lparr>u3x = 65536, u3y = 0, u3z = 0\<rparr>
     (Fin (1 / 131072)) (Fin (1 / 131072)) (Fin (1 / 131072)) =
     \<lparr>u3x = word_of_int (ub_conv e PInf), u3y = word_of_int (ub_conv e NaN),
      u3z = word_of_int (ub_conv e NaN)\<rparr> \<and>
   line_persp_w (65536, 0) (Fin 0) (Fin 0) = Fin 0"
  by code_simp

theorem tri_persp_w_unguarded_witness:
  "tri_persp_w e0 \<lparr>u3x = 65536, u3y = 0, u3z = 0\<rparr>
     (Fin (1 / 131072)) (Fin (1 / 131072)) (Fin (1 / 131072)) = PInf \<and>
   line_persp_w (65536, 0) (Fin 0) (Fin 0) = Fin 0"
  using tri_persp_w_unguarded [of e0] by blast

subsection \<open>The red triangle\<close>

text \<open>Frame properties of the triangle rasterizer: a scanline \<open>y\<close> of a 64-pixel-wide
  target only writes the colour buffer at indices from \<open>64 * y\<close> on.\<close>

lemma write_fragment_frame:
  "i \<noteq> unat p \<Longrightarrow> cbuf (write_fragment e c p rgba d fb) i = cbuf fb i"
  by (simp add: write_fragment_def plot_pixel_def Let_def split: option.splits)

lemma tri_fragment_frame:
  "i \<noteq> unat p \<Longrightarrow> cbuf (tri_fragment e c params ts x y p lb fb) i = cbuf fb i"
  by (simp add: tri_fragment_def Let_def write_fragment_frame)

lemma row_index_bound:
  fixes w :: u32
  assumes "0 \<le> y" "y < 64" "w < 64"
  shows "64 * nat y \<le> unat (u32_of y * 64 + w)"
proof -
  have y: "unat (u32_of y) = nat y"
    using assms by (simp add: u32_of_def unat_eq_nat_uint uint_word_of_int)
  have w: "unat w < 64" using assms(3) by (simp add: word_less_nat_alt)
  have "unat (u32_of y * 64 + w) = (nat y * 64 + unat w) mod 2 ^ 32"
    by (simp add: unat_word_ariths y mod_add_left_eq mod_mult_left_eq)
  also have "\<dots> = nat y * 64 + unat w"
    using assms w by simp
  finally show ?thesis by simp
qed

lemma tri_pixels_frame:
  assumes "rb_width c = 64" "0 \<le> y" "y < 64" "i < 64 * nat y"
  shows "pixel_index = u32_of y * 64 + u32_of x \<Longrightarrow>
    cbuf (tri_pixels e c params ts y cxb sxb inc x pixel_index lb fb) i = cbuf fb i"
  using assms
proof (induction e c params ts y cxb sxb inc x pixel_index lb fb rule: tri_pixels.induct)
  case (1 e c params ts y cxb sxb inc x pixel_index linear_bary fb)
  show ?case
  proof (cases "x \<le> sxb \<and> \<not> rb_width c \<le> u32_of x \<and> \<not> cxb \<le> x * 256")
    case False
    then show ?thesis
      by (subst tri_pixels.simps) auto
  next
    case True
    then have lt: "u32_of x < 64" using 1 by (simp add: not_le)
    have nxt: "pixel_index + 1 = u32_of y * 64 + u32_of (x + 1)"
      using 1(2) by (simp add: u32_of_def)
    have "64 * nat y \<le> unat pixel_index"
      using row_index_bound [OF 1(4) 1(5) lt] 1(2) by simp
    then have ne: "i \<noteq> unat pixel_index" using 1(6) by simp
    have "cbuf (tri_pixels e c params ts y cxb sxb inc x pixel_index linear_bary fb) i =
          cbuf (tri_fragment e c params ts x y pixel_index linear_bary fb) i"
      using True 1(1) [OF _ _ _ nxt 1(3) 1(4) 1(5) 1(6)]
      by (subst tri_pixels.simps) simp
    then show ?thesis by (simp add: tri_fragment_frame [OF ne])
  qed
qed

lemma scanline_setup_cases:
  assumes "P None"
    and "\<And>cxb sxb inc x lb. P (Some (cxb, sxb, inc, x, u32_of y * rb_width c + u32_of x, lb))"
  shows "P (scanline_setup e c params ts y curfx1 curfx2)"
  unfolding scanline_setup_def Let_def
  by (simp only: assms simp_thms split: option.split if_split)

lemma tri_scanline_cases:
  assumes "P fb"
    and "\<And>cxb sxb inc x lb.
           P (tri_pixels e c params ts y cxb sxb inc x (u32_of y * rb_width c + u32_of x) lb fb)"
  shows "P (tri_scanline e c params ts y curfx1 curfx2 fb)"
  unfolding tri_scanline_def
  by (rule scanline_setup_cases) (simp_all add: assms)

lemma tri_scanline_frame:
  assumes "rb_width c = 64" "0 \<le> y" "y < 64" "i < 64 * nat y"
  shows "cbuf (tri_scanline e c params ts y curfx1 curfx2 fb) i = cbuf fb i"
proof (rule tri_scanline_cases)
  show "cbuf fb i = cbuf fb i" ..
next
  fix cxb sxb inc x lb
  show "cbuf (tri_pixels e c params ts y cxb sxb inc x (u32_of y * rb_width c + u32_of x) lb fb) i
        = cbuf fb i"
    by (rule tri_pixels_frame [OF assms]) (simp only: assms(1))
qed

lemma flat_bottom_rows_frame:
  assumes "rb_width c = 64" "y1_int < 64" "i < 64 * nat y"
  shows "cbuf (flat_bottom_rows e c params ts y1_int s1 s2 y cf1 cf2 fb) i = cbuf fb i"
  using assms
proof (induction e c params ts y1_int s1 s2 y cf1 cf2 fb rule: flat_bottom_rows.induct)
  case (1 e c params ts y1_int invslope1 invslope2 y curfx1 curfx2 fb)
  show ?case
  proof (cases "y \<le> y1_int")
    case False
    then show ?thesis by (subst flat_bottom_rows.simps) simp
  next
    case le: True
    show ?thesis
    proof (cases "y < 0")
      case True
      with 1(5) show ?thesis by simp
    next
      case nonneg: False
      show ?thesis
      proof (cases "rb_height c \<le> u32_of y")
        case True
        with le nonneg show ?thesis by (subst flat_bottom_rows.simps) simp
      next
        case False
        have i': "i < 64 * nat (y + 1)" using 1(5) nonneg by simp
        have row: "cbuf (tri_scanline e c params ts y curfx1 curfx2 fb) i = cbuf fb i"
          using nonneg le 1(4) 1(5) by (intro tri_scanline_frame 1(3)) simp_all
        have "cbuf (flat_bottom_rows e c params ts y1_int invslope1 invslope2 y curfx1 curfx2 fb) i =
          cbuf (tri_scanline e c params ts y curfx1 curfx2 fb) i"
          using le nonneg False 1(2) [OF le nonneg False 1(3) 1(4) i']
          by (subst flat_bottom_rows.simps) simp
        with row show ?thesis by simp
      qed
    qed
  qed
qed



lemma scene_ctx_fields:
  "cb scene_ctx = 1" "db scene_ctx = 0" "cb_type scene_ctx = BR_R8G8B8A8"
  "rb_width scene_ctx = 64" "rb_height scene_ctx = 64" "fshader scene_ctx = 0"
  "blend scene_ctx = False" "cull scene_ctx = False" "clip scene_ctx = True"
  by (simp_all add: scene_ctx_def brBindRenderbuffer_def the_ctx_def upd_ctx_def bound_state_def
      new_context_def is_pixel_format_def Let_def)

lemma white_value:
  "plot_value e BR_R8G8B8A8 \<lparr>ux = 65536, uy = 65536, uz = 65536, uw = 65536\<rparr> False dst =
     Some 0xFFFFFFFF"
  by (simp add: plot_value_def Let_def chan8_def BR_R8G8B8A8_pack_def)

lemma marker_fragment:
  "raster_point_fragment e scene_ctx x y (vertex_marker px py) fb = fb \<or>
   (\<exists>p. raster_point_fragment e scene_ctx x y (vertex_marker px py) fb =
          fb\<lparr>cbuf := (cbuf fb)(p := 0xFFFFFFFF)\<rparr>)"
  by (auto simp: raster_point_fragment_def Let_def depth_rejects_def depth_test_on_def
      scene_ctx_fields write_fragment_def plot_color_on_def plot_depth_on_def plot_pixel_def
      vertex_marker_def white_value)

lemma marker_fragment_keeps:
  "cbuf fb i = 0xFFFFFFFF \<Longrightarrow>
   cbuf (raster_point_fragment e scene_ctx x y (vertex_marker px py) fb) i = 0xFFFFFFFF"
  using marker_fragment [of e x y px py fb] by auto

lemma marker_fragment_apex:
  "cbuf (raster_point_fragment e scene_ctx 32 14 (vertex_marker px py) fb) 928 = 0xFFFFFFFF"
  by (simp add: raster_point_fragment_def Let_def depth_rejects_def depth_test_on_def
      scene_ctx_fields write_fragment_def plot_color_on_def plot_depth_on_def plot_pixel_def
      vertex_marker_def white_value u32_of_def)

lemma hspan_keeps:
  "cbuf fb i = 0xFFFFFFFF \<Longrightarrow>
   cbuf (hspan e scene_ctx (vertex_marker px py) xa xb y fb) i = 0xFFFFFFFF"
proof -
  have "cbuf fb i = 0xFFFFFFFF \<Longrightarrow>
        cbuf (foldl (\<lambda>fb x. raster_point_fragment e scene_ctx x y (vertex_marker px py) fb) fb xs) i
          = 0xFFFFFFFF" for xs
    by (induction xs arbitrary: fb) (simp_all add: marker_fragment_keeps)
  then show "cbuf fb i = 0xFFFFFFFF \<Longrightarrow> ?thesis"
    by (simp add: hspan_def)
qed

lemma diameter_keeps:
  "bound \<noteq> - 1 \<Longrightarrow>
   \<exists>fb'. diameter e scene_ctx (vertex_marker px py) y bound x fb = Inr fb' \<and>
         (cbuf fb i = 0xFFFFFFFF \<longrightarrow> cbuf fb' i = 0xFFFFFFFF)"
proof (induction e "scene_ctx" "vertex_marker px py" y bound x fb rule: diameter.induct)
  case (1 e y bound x fb)
  show ?case
  proof (cases "u32_of x \<le> bound")
    case True
    from 1(1) [OF 1(2) True 1(2)] obtain fb' where
      "diameter e scene_ctx (vertex_marker px py) y bound (x + 1)
         (raster_point_fragment e scene_ctx x y (vertex_marker px py) fb) = Inr fb'"
      "cbuf (raster_point_fragment e scene_ctx x y (vertex_marker px py) fb) i = 0xFFFFFFFF
         \<longrightarrow> cbuf fb' i = 0xFFFFFFFF"
      by blast
    with True 1(2) show ?thesis
      by (subst diameter.simps) (simp add: marker_fragment_keeps)
  next
    case False
    with 1(2) show ?thesis by (subst diameter.simps) simp
  qed
qed

lemma octants_keeps:
  "cbuf fb i = 0xFFFFFFFF \<Longrightarrow>
   cbuf (octants e scene_ctx (vertex_marker px py) point_x point_y f dx dy xb yb fb) i = 0xFFFFFFFF"
proof (induction e "scene_ctx" "vertex_marker px py" point_x point_y f dx dy xb yb fb
    rule: octants.induct)
  case (1 e point_x point_y f dx dy xb yb fb)
  show ?case
  proof (cases "xb < yb")
    case False
    with 1(2) show ?thesis by (subst octants.simps) simp
  next
    case True
    show ?thesis
      apply (subst octants.simps)
      apply (simp only: True if_True Let_def)
      apply (rule 1(1) [OF True refl refl refl refl refl refl refl refl refl refl])
      apply (intro hspan_keeps 1(2))
      done
  qed
qed

lemma marker_keeps:
  assumes "u32_of (to_s32 e px) + 2 \<noteq> - 1"
  shows "\<exists>fb'. raster_point e scene_ctx (vertex_marker px py) fb = Inr fb' \<and>
           (cbuf fb i = 0xFFFFFFFF \<longrightarrow> cbuf fb' i = 0xFFFFFFFF)"
proof -
  define fb1 where "fb1 = raster_point_fragment e scene_ctx (to_s32 e px)
      (s32_of (u32_of (to_s32 e py) + 2)) (vertex_marker px py) fb"
  define fb2 where "fb2 = raster_point_fragment e scene_ctx (to_s32 e px)
      (s32_of (u32_of (to_s32 e py) - 2)) (vertex_marker px py) fb1"
  obtain fb3 where d: "diameter e scene_ctx (vertex_marker px py) (to_s32 e py)
        (u32_of (to_s32 e px) + 2) (s32_of (u32_of (to_s32 e px) - 2)) fb2 = Inr fb3"
    and k: "cbuf fb2 i = 0xFFFFFFFF \<longrightarrow> cbuf fb3 i = 0xFFFFFFFF"
    using diameter_keeps [OF assms] by blast
  have r: "raster_point e scene_ctx (vertex_marker px py) fb =
        Inr (octants e scene_ctx (vertex_marker px py) (to_s32 e px) (to_s32 e py)
               (s32_of (1 - 2)) 0 (s32_of (u32_of (- 2) * 2)) 0 (s32_of 2) fb3)"
    using d by (simp add: raster_point_def Let_def vertex_marker_def fb1_def fb2_def)
  have "cbuf fb i = 0xFFFFFFFF \<longrightarrow> cbuf fb2 i = 0xFFFFFFFF"
    by (simp add: fb1_def fb2_def marker_fragment_keeps)
  with k r show ?thesis
    by (simp add: octants_keeps)
qed

lemma conv_facts:
  "to_s32 e (Fin 16) = 16" "to_s32 e (Fin 48) = 48" "to_s32 e (Fin 32) = 32"
  by code_simp+

lemma apex_marker:
  "\<exists>fb'. raster_point e scene_ctx (vertex_marker (Fin 32) (Fin 16)) fb = Inr fb' \<and>
         cbuf fb' 928 = 0xFFFFFFFF"
proof -
  define fb1 where "fb1 = raster_point_fragment e scene_ctx 32 18 (vertex_marker (Fin 32) (Fin 16)) fb"
  define fb2 where "fb2 = raster_point_fragment e scene_ctx 32 14 (vertex_marker (Fin 32) (Fin 16)) fb1"
  have w: "cbuf fb2 928 = 0xFFFFFFFF"
    by (simp add: fb2_def marker_fragment_apex)
  obtain fb3 where d: "diameter e scene_ctx (vertex_marker (Fin 32) (Fin 16)) 16 34 30 fb2 = Inr fb3"
    and k: "cbuf fb2 928 = 0xFFFFFFFF \<longrightarrow> cbuf fb3 928 = 0xFFFFFFFF"
    using diameter_keeps [of 34] by fastforce
  have r: "raster_point e scene_ctx (vertex_marker (Fin 32) (Fin 16)) fb =
        Inr (octants e scene_ctx (vertex_marker (Fin 32) (Fin 16)) 32 16
               (- 1) 0 (- 4) 0 2 fb3)"
    using d
    by (simp add: raster_point_def Let_def vertex_marker_def conv_facts fb1_def fb2_def
        u32_of_def s32_of_def)
  from w k r show ?thesis
    by (simp add: octants_keeps)
qed

lemma scene_xy:
  "raster_x scene_ctx (scale_z_step scene_ctx (persp_divide scene_ctx (tr_v0 scene_triangle))) = Fin 16"
  "raster_y scene_ctx (scale_z_step scene_ctx (persp_divide scene_ctx (tr_v0 scene_triangle))) = Fin 48"
  "raster_x scene_ctx (scale_z_step scene_ctx (persp_divide scene_ctx (tr_v1 scene_triangle))) = Fin 48"
  "raster_y scene_ctx (scale_z_step scene_ctx (persp_divide scene_ctx (tr_v1 scene_triangle))) = Fin 48"
  "raster_x scene_ctx (scale_z_step scene_ctx (persp_divide scene_ctx (tr_v2 scene_triangle))) = Fin 32"
  "raster_y scene_ctx (scale_z_step scene_ctx (persp_divide scene_ctx (tr_v2 scene_triangle))) = Fin 16"
  by code_simp+

lemma scene_frustum:
  "in_frustum (tr_v0 scene_triangle)" "in_frustum (tr_v1 scene_triangle)"
  "in_frustum (tr_v2 scene_triangle)"
  by code_simp+

text \<open>The triangle of the scene, as the rasterizer receives it, and row 32 of it.\<close>



lemma scene_row_setup:
  "scanline_setup e scene_ctx (scene_sorted z) (scene_ts z) 32 6272 10112 =
     Some (10112, 40, (- 1686, 1686, 0), 24, 2072, \<lparr>u3x = 30720, u3y = 2048, u3z = 32768\<rparr>)"
  by code_simp

lemma scene_fields:
  "orig_of e (Fin 16) (Fin 48) = \<lparr>ix = 4096, iy = 12288\<rparr>"
  "orig_of e (Fin 48) (Fin 48) = \<lparr>ix = 12288, iy = 12288\<rparr>"
  "orig_of e (Fin 32) (Fin 16) = \<lparr>ix = 8192, iy = 4096\<rparr>"
  "color_16_16 e (tr_rgba0 scene_triangle) = \<lparr>ux = 65536, uy = 0, uz = 0, uw = 65536\<rparr>"
  "color_16_16 e (tr_rgba1 scene_triangle) = \<lparr>ux = 65536, uy = 0, uz = 0, uw = 65536\<rparr>"
  "color_16_16 e (tr_rgba2 scene_triangle) = \<lparr>ux = 65536, uy = 0, uz = 0, uw = 65536\<rparr>"
  "v4w (scale_z_step scene_ctx (persp_divide scene_ctx (tr_v0 scene_triangle))) = Fin 1"
  "v4w (scale_z_step scene_ctx (persp_divide scene_ctx (tr_v1 scene_triangle))) = Fin 1"
  "v4w (scale_z_step scene_ctx (persp_divide scene_ctx (tr_v2 scene_triangle))) = Fin 1"
  "complete_texture_unit scene_ctx = False"
  by code_simp+

lemma scene_sorted_facts:
  "flt_eq (rt_y1 (scene_sorted z)) (rt_y2 (scene_sorted z))"
  "to_s32 e (fmul (rt_x0 (scene_sorted z)) (Fin 256)) = 8192"
  "to_s32 e (fmul (rt_x1 (scene_sorted z)) (Fin 256)) = 4096"
  "to_s32 e (fmul (rt_x2 (scene_sorted z)) (Fin 256)) = 12288"
  "to_s32 e (fmul (rt_y0 (scene_sorted z)) (Fin 256)) = 4096"
  "to_s32 e (fmul (rt_y1 (scene_sorted z)) (Fin 256)) = 12288"
  "to_s32 e (fmul (rt_y2 (scene_sorted z)) (Fin 256)) = 12288"
  "br_idiv (ix (rt_orig_v1 (scene_sorted z)) - ix (rt_orig_v0 (scene_sorted z)))
           ((iy (rt_orig_v1 (scene_sorted z)) - iy (rt_orig_v0 (scene_sorted z))) div 256) = - 128"
  "br_idiv (ix (rt_orig_v2 (scene_sorted z)) - ix (rt_orig_v0 (scene_sorted z)))
           ((iy (rt_orig_v2 (scene_sorted z)) - iy (rt_orig_v0 (scene_sorted z))) div 256) = 128"
  "rt_complete_texture_unit (scene_sorted z) = False"
  "rt_rgba0 (scene_sorted z) = \<lparr>ux = 65536, uy = 0, uz = 0, uw = 65536\<rparr>"
  "rt_rgba1 (scene_sorted z) = \<lparr>ux = 65536, uy = 0, uz = 0, uw = 65536\<rparr>"
  "rt_rgba2 (scene_sorted z) = \<lparr>ux = 65536, uy = 0, uz = 0, uw = 65536\<rparr>"
  "ts_inv_v0_w (scene_ts z) = Fin 1" "ts_inv_v1_w (scene_ts z) = Fin 1"
  "ts_inv_v2_w (scene_ts z) = Fin 1"
  by code_simp+

lemma centroid_persp:
  "tri_persp_correct e \<lparr>u3x = 17232, u3y = 15536, u3z = 32768\<rparr> (Fin 1) (Fin 1) (Fin 1) =
     \<lparr>u3x = 17232, u3y = 15536, u3z = 32768\<rparr>"
  by code_simp


lemma convert_depth_scene:
  "convert_depth e scene_ctx d = as_s64 (no_return e)"
  by (simp add: convert_depth_def scene_ctx_def brBindRenderbuffer_def the_ctx_def upd_ctx_def
      bound_state_def new_context_def is_pixel_format_def Let_def)

lemma scene_rt_built:
  assumes "raster_point e scene_ctx (vertex_marker (Fin 16) (Fin 48)) fb = Inr fb1"
    and "raster_point e scene_ctx (vertex_marker (Fin 48) (Fin 48)) fb1 = Inr fb2"
    and "raster_point e scene_ctx (vertex_marker (Fin 32) (Fin 16)) fb2 = Inr fb3"
  shows "process_triangle_raster e scene_ctx scene_triangle None fb =
           Inr (split_raster_triangle e scene_ctx (scene_rt (as_s64 (no_return e))) fb3)"
  by (simp add: process_triangle_raster_def Let_def scene_xy assms scene_fields convert_depth_scene
      scene_rt_def)

lemma split_scene:
  "split_raster_triangle e scene_ctx (scene_rt z) fb =
     raster_triangle e scene_ctx (scene_sorted z) fb"
  using scene_sorted_facts(1) [of z]
  by (simp add: split_raster_triangle_def Let_def scene_sorted_def)

lemma raster_scene:
  "raster_triangle e scene_ctx (scene_sorted z) fb =
     flat_bottom_rows e scene_ctx (scene_sorted z) (scene_ts z) 48 (- 128) 128 17 8192 8192 fb"
  by (simp add: raster_triangle_def Let_def scene_sorted_facts scene_ts_def)

lemma rows_prefix:
  assumes "rb_height c = 64"
  shows "0 \<le> y \<Longrightarrow> y + int n \<le> 64 \<Longrightarrow> y + int n \<le> y1_int + 1 \<Longrightarrow>
    \<exists>fb'. flat_bottom_rows e c params ts y1_int s1 s2 y cf1 cf2 fb =
          flat_bottom_rows e c params ts y1_int s1 s2 (y + int n)
            (cf1 + int n * s1) (cf2 + int n * s2) fb'"
proof (induction n arbitrary: y cf1 cf2 fb)
  case 0
  show ?case by (rule exI [of _ fb]) simp
next
  case (Suc n)
  have lt: "\<not> rb_height c \<le> u32_of y"
    using Suc.prems assms
    by (simp add: u32_of_def word_le_nat_alt unat_eq_nat_uint uint_word_of_int)
  have step: "flat_bottom_rows e c params ts y1_int s1 s2 y cf1 cf2 fb =
      flat_bottom_rows e c params ts y1_int s1 s2 (y + 1) (cf1 + s1) (cf2 + s2)
        (tri_scanline e c params ts y cf1 cf2 fb)"
    using Suc.prems lt by (subst flat_bottom_rows.simps) simp
  from Suc.IH [of "y + 1" "cf1 + s1" "cf2 + s2" "tri_scanline e c params ts y cf1 cf2 fb"]
    Suc.prems
  obtain fb' where "flat_bottom_rows e c params ts y1_int s1 s2 (y + 1) (cf1 + s1) (cf2 + s2)
        (tri_scanline e c params ts y cf1 cf2 fb) =
      flat_bottom_rows e c params ts y1_int s1 s2 (y + 1 + int n)
        (cf1 + s1 + int n * s1) (cf2 + s2 + int n * s2) fb'"
    by auto
  with step show ?case
    by (auto simp: algebra_simps)
qed

lemma tri_fragment_scene:
  assumes "\<not> rt_complete_texture_unit params"
  shows "cbuf (tri_fragment e scene_ctx params ts x y p lb fb) (unat p) =
    (let bary = tri_persp_correct e lb (ts_inv_v0_w ts) (ts_inv_v1_w ts) (ts_inv_v2_w ts) in
     BR_R8G8B8A8_pack
       (chan8 (interp32 (ux (rt_rgba0 params)) (ux (rt_rgba1 params)) (ux (rt_rgba2 params)) bary) 255)
       (chan8 (interp32 (uy (rt_rgba0 params)) (uy (rt_rgba1 params)) (uy (rt_rgba2 params)) bary) 255)
       (chan8 (interp32 (uz (rt_rgba0 params)) (uz (rt_rgba1 params)) (uz (rt_rgba2 params)) bary) 255)
       (chan8 (interp32 (uw (rt_rgba0 params)) (uw (rt_rgba1 params)) (uw (rt_rgba2 params)) bary) 255))"
proof -
  have c: "persp_corr scene_ctx" "fshader scene_ctx = 0" "cb scene_ctx = 1" "db scene_ctx = 0"
    "cb_type scene_ctx = BR_R8G8B8A8" "\<not> blend scene_ctx"
    by (simp_all add: scene_ctx_def brBindRenderbuffer_def the_ctx_def upd_ctx_def bound_state_def
      new_context_def is_pixel_format_def Let_def)
  show ?thesis
    using assms
    by (simp add: tri_fragment_def Let_def c depth_rejects_def depth_test_on_def
        write_fragment_def plot_color_on_def plot_depth_on_def plot_pixel_def plot_value_def)
qed

lemma centroid_fragment:
  "cbuf (tri_fragment e scene_ctx (scene_sorted z) (scene_ts z) 32 32 2080
           \<lparr>u3x = 17232, u3y = 15536, u3z = 32768\<rparr> fb) 2080 = 0xFF0000FF"
proof -
  have "cbuf (tri_fragment e scene_ctx (scene_sorted z) (scene_ts z) 32 32 2080
           \<lparr>u3x = 17232, u3y = 15536, u3z = 32768\<rparr> fb) (unat (2080 :: u32)) = 0xFF0000FF"
    by (subst tri_fragment_scene)
       (simp_all add: scene_sorted_facts centroid_persp Let_def interp32_def chan8_def BR_R8G8B8A8_pack_def)
  then show ?thesis by simp
qed

lemma centroid_row:
  "cbuf (tri_scanline e scene_ctx (scene_sorted z) (scene_ts z) 32 6272 10112 fb) 2080 = 0xFF0000FF"
proof -
  have w: "rb_width scene_ctx = 64" by (simp add: scene_ctx_fields)
  show ?thesis
    by (simp add: tri_scanline_def scene_row_setup tri_pixels.simps w u32_of_def
        tri_fragment_frame centroid_fragment)
qed

lemma centroid_rows:
  "cbuf (flat_bottom_rows e scene_ctx (scene_sorted z) (scene_ts z) 48 (- 128) 128 17 8192 8192 fb)
     2080 = 0xFF0000FF"
proof -
  have h: "rb_height scene_ctx = 64" and w: "rb_width scene_ctx = 64"
    by (simp_all add: scene_ctx_fields)
  obtain fb' where
    "flat_bottom_rows e scene_ctx (scene_sorted z) (scene_ts z) 48 (- 128) 128 17 8192 8192 fb =
     flat_bottom_rows e scene_ctx (scene_sorted z) (scene_ts z) 48 (- 128) 128 32 6272 10112 fb'"
    using rows_prefix [OF h, of 17 15 48 e "scene_sorted z" "scene_ts z" "- 128" 128 8192 8192 fb]
    by auto
  moreover have "flat_bottom_rows e scene_ctx (scene_sorted z) (scene_ts z) 48 (- 128) 128 32 6272 10112 fb' =
     flat_bottom_rows e scene_ctx (scene_sorted z) (scene_ts z) 48 (- 128) 128 33 6144 10240
       (tri_scanline e scene_ctx (scene_sorted z) (scene_ts z) 32 6272 10112 fb')"
    by (subst flat_bottom_rows.simps) (simp add: h u32_of_def)
  moreover have "cbuf (flat_bottom_rows e scene_ctx (scene_sorted z) (scene_ts z) 48 (- 128) 128 33 6144 10240
       (tri_scanline e scene_ctx (scene_sorted z) (scene_ts z) 32 6272 10112 fb')) 2080 =
     cbuf (tri_scanline e scene_ctx (scene_sorted z) (scene_ts z) 32 6272 10112 fb') 2080"
    by (rule flat_bottom_rows_frame [OF w]) simp_all
  ultimately show ?thesis
    by (simp add: centroid_row)
qed

text \<open>
  C1.  In the scene of scenario 1 the draw returns normally and the centroid pixel
  \<open>(32, 32)\<close> holds red, \<open>R8G8B8A8(255,0,0,255)\<close>.  But \<open>_process_triangle\<close> rasters a
  white point of radius 2 at each of the three projected vertices before the triangle
  itself.  The pixel \<open>(32, 14)\<close>, two rows above the apex \<open>(32, 16)\<close> and so outside the
  projected triangle, was 0 before the draw and holds white, \<open>0xFFFFFFFF\<close>, after it: the
  triangle rasterizer only writes rows from 17 on and does not reach it.
\<close>

theorem red_triangle_vertex_markers:
  "\<exists>fb'. process_triangle e scene_ctx g scene_triangle scene_fb = Inr (g, fb') \<and>
         cbuf scene_fb (32 + 14 * 64) = 0 \<and>
         cbuf fb' (32 + 14 * 64) = 0xFFFFFFFF \<and>
         cbuf fb' (32 + 32 * 64) = BR_R8G8B8A8_pack 255 0 0 255"
proof -
  let ?z = "as_s64 (no_return e)"
  obtain fb1 where m1: "raster_point e scene_ctx (vertex_marker (Fin 16) (Fin 48)) scene_fb = Inr fb1"
    using marker_keeps [of e "Fin 16" "Fin 48" scene_fb 0]
    by (auto simp: conv_facts u32_of_def)
  obtain fb2 where m2: "raster_point e scene_ctx (vertex_marker (Fin 48) (Fin 48)) fb1 = Inr fb2"
    using marker_keeps [of e "Fin 48" "Fin 48" fb1 0]
    by (auto simp: conv_facts u32_of_def)
  obtain fb3 where m3: "raster_point e scene_ctx (vertex_marker (Fin 32) (Fin 16)) fb2 = Inr fb3"
    and w: "cbuf fb3 928 = 0xFFFFFFFF"
    using apex_marker by blast
  define fb4 where "fb4 = flat_bottom_rows e scene_ctx (scene_sorted ?z) (scene_ts ?z)
      48 (- 128) 128 17 8192 8192 fb3"
  have r: "process_triangle_raster e scene_ctx scene_triangle None scene_fb = Inr fb4"
    by (simp add: scene_rt_built [OF m1 m2 m3] split_scene raster_scene fb4_def)
  have "cbuf fb4 928 = cbuf fb3 928"
    unfolding fb4_def by (rule flat_bottom_rows_frame) (simp_all add: scene_ctx_fields)
  with w have marker: "cbuf fb4 928 = 0xFFFFFFFF"
    by simp
  have centroid: "cbuf fb4 2080 = 0xFF0000FF"
    unfolding fb4_def by (rule centroid_rows)
  have "process_triangle e scene_ctx g scene_triangle scene_fb = Inr (g, fb4)"
    by (simp add: process_triangle_def scene_ctx_fields scene_frustum r)
  with marker centroid show ?thesis
    by (simp add: scene_fb_def BR_R8G8B8A8_pack_def)
qed

theorem red_triangle_vertex_markers_witness:
  "\<exists>fb'. process_triangle e0 scene_ctx g0 scene_triangle scene_fb = Inr (g0, fb') \<and>
         cbuf fb' 928 = 0xFFFFFFFF \<and> cbuf fb' 2080 = 0xFF0000FF"
  using red_triangle_vertex_markers [of e0 g0]
  by (auto simp: BR_R8G8B8A8_pack_def)

end
